theory Spec2Isabelle
  imports Complex_Main "HOL-Library.Log_Nat" "HOL-Library.Multiset" "HOL-Library.Product_Lexorder"
begin

section \<open>Machine numbers\<close>

text \<open>
  The Go sources use \<^verbatim>\<open>int64\<close> for identifiers and \<^verbatim>\<open>float64\<close> for coordinates and
  the security status.

  \<^item> Identifiers are only compared, copied and used as map keys; no arithmetic is ever
    performed on them, so no wrap-around can occur. An \<^verbatim>\<open>int64\<close> is embedded as the
    integer it denotes; the signed comparison \<^verbatim>\<open><\<close> of Go is \<open><\<close> on \<open>int\<close>.
  \<^item> A finite \<^verbatim>\<open>float64\<close> is embedded as the real number it denotes. Every arithmetic
    operation of Go computes the exact result and rounds it to the nearest binary64 value,
    ties to even; \<open>f64_round\<close> writes this rounding out (53 significant bits, exponents
    from \<open>- 1022\<close>, gradual underflow below). Infinities, NaN and the sign of zero are not
    represented: the model is the code on finite values whose intermediate results stay
    below \<open>2 ^ 1024\<close> in magnitude.
  \<^item> The coordinates and the bounds of the data model are not computed with: the program
    copies them and, in the geometry aggregator, compares them. They have the type
    \<open>float64v\<close> of the data model, which holds NaN and the infinities as well.
\<close>

type_synonym int64 = int
type_synonym float64 = real

text \<open>The binary exponent of a non-zero real: \<open>2 powi ilog2 x \<le> \<bar>x\<bar> < 2 powi (ilog2 x + 1)\<close>.\<close>

definition ilog2 :: "real \<Rightarrow> int" where
  "ilog2 x = (if 1 \<le> \<bar>x\<bar> then int (floorlog 2 (nat \<lfloor>\<bar>x\<bar>\<rfloor>)) - 1
              else - int (floorlog 2 (nat (\<lceil>1 / \<bar>x\<bar>\<rceil> - 1))))"

definition round_half_even :: "real \<Rightarrow> int" where
  "round_half_even q = (let n = \<lfloor>q\<rfloor>; r = q - of_int n in
      if r < 1/2 then n else if 1/2 < r then n + 1 else if even n then n else n + 1)"

definition f64_exp :: "real \<Rightarrow> int" where
  "f64_exp x = max (ilog2 x) (- 1022)"

definition f64_round :: "real \<Rightarrow> float64" where
  "f64_round x = (if x = 0 then 0 else
     let u = 2 powi (f64_exp x - 52)
     in of_int (round_half_even (x / u)) * u)"

text \<open>The largest finite binary64 value, and the reals that are binary64 values.\<close>

definition f64_max :: real where
  "f64_max = (2 ^ 53 - 1) * 2 ^ 971"

definition is_f64 :: "real \<Rightarrow> bool" where
  "is_f64 x \<longleftrightarrow> f64_round x = x \<and> \<bar>x\<bar> \<le> f64_max"

text \<open>Go's \<^verbatim>\<open>*\<close>, \<^verbatim>\<open>/\<close> and \<^verbatim>\<open>-\<close> on \<^verbatim>\<open>float64\<close>.\<close>

definition f64_mul :: "float64 \<Rightarrow> float64 \<Rightarrow> float64" where
  "f64_mul a b = f64_round (a * b)"

definition f64_div :: "float64 \<Rightarrow> float64 \<Rightarrow> float64" where
  "f64_div a b = f64_round (a / b)"

definition f64_sub :: "float64 \<Rightarrow> float64 \<Rightarrow> float64" where
  "f64_sub a b = f64_round (a - b)"

text \<open>
  The functions of Go's \<^verbatim>\<open>math\<close> package that the classifier calls. Each returns an
  integer-valued \<^verbatim>\<open>float64\<close> exactly; \<^verbatim>\<open>math.Round\<close> rounds half away from zero.
\<close>

definition math_Trunc :: "float64 \<Rightarrow> float64" where
  "math_Trunc x = (if 0 \<le> x then of_int \<lfloor>x\<rfloor> else of_int \<lceil>x\<rceil>)"

definition math_Ceil :: "float64 \<Rightarrow> float64" where
  "math_Ceil x = of_int \<lceil>x\<rceil>"

definition math_Floor :: "float64 \<Rightarrow> float64" where
  "math_Floor x = of_int \<lfloor>x\<rfloor>"

definition math_Round :: "float64 \<Rightarrow> float64" where
  "math_Round x = (if 0 \<le> x then of_int \<lfloor>x + 1/2\<rfloor> else of_int \<lceil>x - 1/2\<rceil>)"

definition math_Abs :: "float64 \<Rightarrow> float64" where
  "math_Abs x = \<bar>x\<bar>"

section \<open>Security classifier\<close>

text \<open>
  \<^verbatim>\<open>TruncateToTwoDigits\<close> and \<^verbatim>\<open>GetTrueSecurity\<close> of package \<^verbatim>\<open>transformer\<close>. The
  decimal constants \<^verbatim>\<open>0.05\<close>, \<^verbatim>\<open>10\<close> and \<^verbatim>\<open>100\<close> of the source are the binary64 values
  nearest to them: \<open>f64_round (5/100)\<close>, and \<open>10\<close> and \<open>100\<close> exactly.
\<close>

definition TruncateToTwoDigits :: "float64 \<Rightarrow> float64" where
  "TruncateToTwoDigits v = f64_div (math_Trunc (f64_mul v 100)) 100"

definition GetTrueSecurity :: "float64 \<Rightarrow> float64" where
  "GetTrueSecurity security =
    (if security > 0 \<and> security < f64_round (5/100) then
       f64_div (math_Ceil (f64_mul security 10)) 10
     else
       let truncated = TruncateToTwoDigits security;
           truncatedOneDecimal = f64_div (math_Trunc (f64_mul truncated 10)) 10;
           diff = f64_div (math_Abs (math_Round
                    (f64_mul (f64_sub truncated truncatedOneDecimal) 100))) 100
       in if diff < f64_round (5/100) then truncatedOneDecimal
          else if security \<ge> 0 then f64_div (math_Ceil (f64_mul truncated 10)) 10
          else f64_div (math_Floor (f64_mul truncated 10)) 10)"

definition RoundSecurity :: "float64 \<Rightarrow> float64" where
  "RoundSecurity security = f64_div (math_Round (f64_mul security 10)) 10"

subsection \<open>The binary exponent\<close>

lemma ilog2_bounds:
  assumes "x \<noteq> 0"
  shows "2 powi (ilog2 x) \<le> \<bar>x\<bar> \<and> \<bar>x\<bar> < 2 powi (ilog2 x + 1)"
proof (cases "1 \<le> \<bar>x\<bar>")
  case True
  define n where "n = nat \<lfloor>\<bar>x\<bar>\<rfloor>"
  define L where "L = floorlog 2 n"
  have n1: "1 \<le> n" using True by (simp add: n_def le_nat_iff le_floor_iff)
  have nb: "2 ^ (L - 1) \<le> n \<and> n < 2 ^ L"
    unfolding L_def using floorlog_bounds[of n 2] n1 by simp
  have L1: "1 \<le> L" using nb n1 by (cases L) auto
  have e: "ilog2 x = int L - 1" using True by (simp add: ilog2_def n_def L_def)
  have nx: "real n \<le> \<bar>x\<bar>" "\<bar>x\<bar> < real n + 1"
    unfolding n_def using True by simp_all
  have lo: "(2::real) powi (int L - 1) \<le> \<bar>x\<bar>"
  proof -
    have p: "(2::real) powi (int L - 1) = 2 ^ (L - 1)"
      using L1 by (simp add: power_int_def nat_diff_distrib)
    have "real (2 ^ (L - 1)) \<le> real n" using nb by (simp only: of_nat_le_iff)
    then have "(2::real) ^ (L - 1) \<le> real n" by simp
    then show ?thesis using nx p by linarith
  qed
  have up: "\<bar>x\<bar> < (2::real) powi (int L)"
  proof -
    have "n + 1 \<le> 2 ^ L" using nb by simp
    then have "real (n + 1) \<le> real (2 ^ L)" by (simp only: of_nat_le_iff)
    then have "real n + 1 \<le> 2 ^ L" by simp
    then show ?thesis using nx by simp
  qed
  show ?thesis using lo up e by simp
next
  case False
  define y where "y = 1 / \<bar>x\<bar>"
  define m where "m = nat (\<lceil>y\<rceil> - 1)"
  define L where "L = floorlog 2 m"
  have xpos: "0 < \<bar>x\<bar>" using assms by simp
  have y1: "1 < y" using False xpos by (simp add: y_def)
  have c2: "2 \<le> \<lceil>y\<rceil>" using y1 by (simp add: le_ceiling_iff)
  have m1: "1 \<le> m" unfolding m_def using c2 by linarith
  have mb: "2 ^ (L - 1) \<le> m \<and> m < 2 ^ L"
    unfolding L_def using floorlog_bounds[of m 2] m1 by simp
  have L1: "1 \<le> L" using mb m1 by (cases L) auto
  have e: "ilog2 x = - int L" using False by (simp add: ilog2_def m_def L_def y_def)
  have mc: "real m = of_int \<lceil>y\<rceil> - 1" unfolding m_def using c2 by simp
  have my: "real m < y" "y \<le> real m + 1"
    unfolding mc by linarith+
  have ylo: "(2::real) ^ (L - 1) < y"
  proof -
    have "real (2 ^ (L - 1)) \<le> real m" using mb by (simp only: of_nat_le_iff)
    then have "(2::real) ^ (L - 1) \<le> real m" by simp
    then show ?thesis using my by linarith
  qed
  have yup: "y \<le> (2::real) ^ L"
  proof -
    have "m + 1 \<le> 2 ^ L" using mb by simp
    then have "real (m + 1) \<le> real (2 ^ L)" by (simp only: of_nat_le_iff)
    then have "real m + 1 \<le> 2 ^ L" by simp
    then show ?thesis using my by linarith
  qed
  have xy: "\<bar>x\<bar> = 1 / y" by (simp add: y_def)
  have lo: "(2::real) powi (- int L) \<le> \<bar>x\<bar>"
  proof -
    have "(2::real) powi (- int L) = 1 / 2 ^ L" by (simp add: power_int_minus field_simps)
    also have "\<dots> \<le> 1 / y" using yup y1 by (simp add: frac_le)
    finally show ?thesis by (simp add: xy)
  qed
  have up: "\<bar>x\<bar> < (2::real) powi (- int L + 1)"
  proof -
    have "1 / y < 1 / 2 ^ (L - 1)" using ylo by (simp add: frac_less2)
    also have "\<dots> = (2::real) powi (- int (L - 1))" by (simp add: power_int_minus field_simps)
    also have "- int (L - 1) = - int L + 1" using L1 by simp
    finally show ?thesis by (simp add: xy)
  qed
  show ?thesis using lo up e by simp
qed

lemma ilog2_mono:
  assumes "0 < x" "x \<le> y"
  shows "ilog2 x \<le> ilog2 y"
proof (rule ccontr)
  assume "\<not> ilog2 x \<le> ilog2 y"
  then have "ilog2 y + 1 \<le> ilog2 x" by simp
  then have "(2::real) powi (ilog2 y + 1) \<le> 2 powi (ilog2 x)"
    by (intro power_int_increasing) simp_all
  moreover have "2 powi (ilog2 x) \<le> x" using ilog2_bounds[of x] assms by simp
  moreover have "y < 2 powi (ilog2 y + 1)" using ilog2_bounds[of y] assms by simp
  ultimately show False using assms by linarith
qed

subsection \<open>Rounding is monotone\<close>

lemma round_half_even_of_int: "round_half_even (of_int n) = n"
  by (simp add: round_half_even_def)

lemma round_half_even_mono:
  assumes "q \<le> q'"
  shows "round_half_even q \<le> round_half_even q'"
proof -
  have fl: "\<lfloor>q\<rfloor> \<le> \<lfloor>q'\<rfloor>" using assms by (rule floor_mono)
  have a: "round_half_even q \<le> \<lfloor>q\<rfloor> + 1" "\<lfloor>q'\<rfloor> \<le> round_half_even q'"
    by (simp_all add: round_half_even_def Let_def)
  show ?thesis
  proof (cases "\<lfloor>q\<rfloor> = \<lfloor>q'\<rfloor>")
    case True
    have "q - of_int \<lfloor>q\<rfloor> \<le> q' - of_int \<lfloor>q\<rfloor>" using assms by simp
    then show ?thesis unfolding round_half_even_def Let_def True[symmetric]
      by (auto split: if_splits)
  next
    case False
    then have "\<lfloor>q\<rfloor> + 1 \<le> \<lfloor>q'\<rfloor>" using fl by simp
    then show ?thesis using a by linarith
  qed
qed

lemma round_half_even_le: "q \<le> of_int n \<Longrightarrow> round_half_even q \<le> n"
  using round_half_even_mono[of q "of_int n"] by (simp add: round_half_even_of_int)

lemma round_half_even_ge: "of_int n \<le> q \<Longrightarrow> n \<le> round_half_even q"
  using round_half_even_mono[of "of_int n" q] by (simp add: round_half_even_of_int)

lemma f64_round_alt:
  "x \<noteq> 0 \<Longrightarrow> f64_round x = of_int (round_half_even (x / 2 powi (f64_exp x - 52))) * 2 powi (f64_exp x - 52)"
  by (simp add: f64_round_def Let_def)

lemma powi_scale: "(2::real) powi k * 2 powi (e - 52) = 2 powi (e + (k - 52))"
proof -
  have "(2::real) powi k * 2 powi (e - 52) = 2 powi (k + (e - 52))"
    by (rule power_int_add[symmetric]) simp
  also have "k + (e - 52) = e + (k - 52)" by simp
  finally show ?thesis .
qed

lemma f64_round_upper:
  assumes "0 < x"
  shows "f64_round x \<le> 2 powi (f64_exp x + 1)"
proof -
  define u :: real where "u = 2 powi (f64_exp x - 52)"
  define P :: real where "P = 2 powi 53"
  have u: "0 < u" by (simp add: u_def)
  have Pu: "P * u = 2 powi (f64_exp x + 1)"
    unfolding P_def u_def by (simp only: powi_scale) simp
  have Pi: "P = of_int (2 ^ 53)" by (simp add: P_def)
  have "x < 2 powi (ilog2 x + 1)" using ilog2_bounds[of x] assms by simp
  also have "\<dots> \<le> 2 powi (f64_exp x + 1)"
    by (intro power_int_increasing) (simp_all add: f64_exp_def)
  finally have "x \<le> P * u" using Pu by simp
  then have "x / u \<le> P" using u by (simp add: pos_divide_le_eq)
  then have "round_half_even (x / u) \<le> 2 ^ 53" unfolding Pi by (rule round_half_even_le)
  then have "(of_int (round_half_even (x / u)) :: real) \<le> P"
    unfolding Pi by (simp only: of_int_le_iff)
  then have "of_int (round_half_even (x / u)) * u \<le> P * u"
    using u by (intro mult_right_mono) simp_all
  moreover have "f64_round x = of_int (round_half_even (x / u)) * u"
    using assms by (simp add: f64_round_alt u_def)
  ultimately show ?thesis using Pu by simp
qed

lemma f64_round_lower:
  assumes "0 < x" "- 1022 \<le> ilog2 x"
  shows "2 powi (f64_exp x) \<le> f64_round x"
proof -
  define u :: real where "u = 2 powi (f64_exp x - 52)"
  define P :: real where "P = 2 powi 52"
  have u: "0 < u" by (simp add: u_def)
  have e: "f64_exp x = ilog2 x" using assms by (simp add: f64_exp_def)
  have Pu: "P * u = 2 powi (f64_exp x)"
    unfolding P_def u_def by (simp only: powi_scale) simp
  have Pi: "P = of_int (2 ^ 52)" by (simp add: P_def)
  have "2 powi (f64_exp x) \<le> x" using ilog2_bounds[of x] assms e by simp
  then have "P * u \<le> x" using Pu by simp
  then have "P \<le> x / u" using u by (simp add: pos_le_divide_eq)
  then have "2 ^ 52 \<le> round_half_even (x / u)" unfolding Pi by (rule round_half_even_ge)
  then have "P \<le> of_int (round_half_even (x / u))"
    unfolding Pi by (simp only: of_int_le_iff)
  then have "P * u \<le> of_int (round_half_even (x / u)) * u"
    using u by (intro mult_right_mono) simp_all
  moreover have "f64_round x = of_int (round_half_even (x / u)) * u"
    using assms by (simp add: f64_round_alt u_def)
  ultimately show ?thesis using Pu by simp
qed

lemma f64_round_mono_pos:
  assumes "0 < x" "x \<le> y"
  shows "f64_round x \<le> f64_round y"
proof -
  have y: "0 < y" using assms by simp
  have le: "f64_exp x \<le> f64_exp y"
    using ilog2_mono[OF assms] by (simp add: f64_exp_def)
  show ?thesis
  proof (cases "f64_exp x = f64_exp y")
    case True
    define u :: real where "u = 2 powi (f64_exp y - 52)"
    have u: "0 < u" by (simp add: u_def)
    have "x / u \<le> y / u" using assms u by (simp add: divide_right_mono)
    then have "round_half_even (x / u) \<le> round_half_even (y / u)"
      by (rule round_half_even_mono)
    then have "(of_int (round_half_even (x / u)) :: real) \<le> of_int (round_half_even (y / u))"
      by (simp only: of_int_le_iff)
    then have "of_int (round_half_even (x / u)) * u \<le> of_int (round_half_even (y / u)) * u"
      using u by (intro mult_right_mono) simp_all
    moreover have "f64_round x = of_int (round_half_even (x / u)) * u"
      using assms True by (simp add: f64_round_alt u_def)
    moreover have "f64_round y = of_int (round_half_even (y / u)) * u"
      using y by (simp add: f64_round_alt u_def)
    ultimately show ?thesis by simp
  next
    case False
    then have lt: "f64_exp x + 1 \<le> f64_exp y" using le by simp
    then have "- 1022 < f64_exp y" by (simp add: f64_exp_def)
    then have ny: "- 1022 \<le> ilog2 y" by (simp add: f64_exp_def max_def split: if_splits)
    have "f64_round x \<le> 2 powi (f64_exp x + 1)" using assms by (intro f64_round_upper)
    also have "\<dots> \<le> 2 powi (f64_exp y)" using lt by (intro power_int_increasing) simp_all
    also have "\<dots> \<le> f64_round y" using y ny by (rule f64_round_lower)
    finally show ?thesis .
  qed
qed

subsection \<open>Evaluating the arithmetic on literals\<close>

text \<open>
  The simplifier evaluates \<open>f64_round\<close> on a rational literal from its definition; the
  recursion of \<open>floorlog\<close> is unfolded on numerals only.
\<close>

lemma floorlog2_0: "floorlog 2 0 = 0" by (simp add: floorlog_def)
lemma floorlog2_1: "floorlog 2 1 = 1" by (simp add: floorlog_def)
lemma floorlog2_Suc0: "floorlog 2 (Suc 0) = 1" by (simp add: floorlog_def)
lemma floorlog2_numeral: "floorlog 2 (numeral k) = floorlog 2 (numeral k div 2) + 1"
  by (subst compute_floorlog) simp
lemmas f64_eval = f64_round_def f64_exp_def ilog2_def floorlog2_0 floorlog2_1 floorlog2_Suc0 floorlog2_numeral round_half_even_def Let_def
  f64_mul_def f64_div_def f64_sub_def math_Trunc_def math_Ceil_def math_Floor_def math_Round_def math_Abs_def

lemma f64_exp_ge: "- 1022 \<le> f64_exp x" by (simp add: f64_exp_def)

lemma f64_ulp_ge: "(2::real) powi (- 1074) \<le> 2 powi (f64_exp x - 52)"
  using f64_exp_ge[of x] by (intro power_int_increasing) simp_all

lemma is_f64_pos_min:
  assumes "f64_round s = s" "0 < s"
  shows "2 powi (- 1074) \<le> s"
proof -
  define u :: real where "u = 2 powi (f64_exp s - 52)"
  define n where "n = round_half_even (s / u)"
  have u: "0 < u" by (simp add: u_def)
  have s: "s = of_int n * u" using assms by (simp add: f64_round_alt u_def n_def)
  have "0 < of_int n * u" using assms(2) s by simp
  then have "0 < (of_int n :: real)" using u by (simp add: zero_less_mult_iff)
  then have "1 \<le> n" by simp
  then have "(1::real) \<le> of_int n" by simp
  then have "1 * u \<le> of_int n * u" using u by (intro mult_right_mono) simp_all
  then have "u \<le> s" using s by simp
  then show ?thesis using f64_ulp_ge[of s] by (simp add: u_def)
qed

lemma f64_round_pos:
  assumes "2 powi (- 1074) \<le> x"
  shows "0 < f64_round x"
proof -
  define u :: real where "u = 2 powi (f64_exp x - 52)"
  have u: "0 < u" by (simp add: u_def)
  have "(0::real) < 2 powi (- 1074)" by simp
  then have x: "0 < x" using assms by linarith
  have ux: "u \<le> x"
  proof (cases "- 1022 \<le> ilog2 x")
    case True
    then have e: "f64_exp x = ilog2 x" by (simp add: f64_exp_def)
    have "u \<le> 2 powi (ilog2 x)" unfolding u_def e by (intro power_int_increasing) simp_all
    also have "\<dots> \<le> x" using ilog2_bounds[of x] x by simp
    finally show ?thesis .
  next
    case False
    then have e: "f64_exp x = - 1022" by (simp add: f64_exp_def)
    show ?thesis using assms by (simp add: u_def e)
  qed
  then have "of_int 1 \<le> x / u" using u by (simp add: pos_le_divide_eq)
  then have "1 \<le> round_half_even (x / u)" by (rule round_half_even_ge)
  then have "0 < (of_int (round_half_even (x / u)) :: real)" by simp
  then have "0 < of_int (round_half_even (x / u)) * u" using u by simp
  then show ?thesis using x by (simp add: f64_round_alt u_def)
qed

lemma f64_round_1: "f64_round 1 = 1" by (simp add: f64_eval)
lemma f64_round_5: "f64_round 5 = 5" by (simp add: f64_eval)
lemma f64_0_05: "f64_round (5/100) = 3602879701896397 / 72057594037927936" by (simp add: f64_eval)
lemma f64_0_05_idem: "f64_round (3602879701896397 / 72057594037927936) = 3602879701896397 / 72057594037927936" by (simp add: f64_eval)
lemma f64_0_1: "f64_round (1/10) = 3602879701896397 / 36028797018963968" by (simp add: f64_eval)

lemma GetTrueSecurity_rule1:
  assumes "f64_round s = s" "0 < s" "s < f64_round (5/100)"
  shows "GetTrueSecurity s = f64_round (1/10)"
proof -
  have s10: "2 powi (- 1074) \<le> s * 10"
    using is_f64_pos_min[OF assms(1,2)] assms(2) by linarith
  have pos: "0 < f64_round (s * 10)" using s10 by (rule f64_round_pos)
  have "s < 3602879701896397 / 72057594037927936" using assms(3) unfolding f64_0_05 .
  then have "s * 10 \<le> 1" by simp
  then have "f64_round (s * 10) \<le> f64_round 1"
    using assms(2) by (intro f64_round_mono_pos) simp_all
  then have le: "f64_round (s * 10) \<le> 1" by (simp add: f64_round_1)
  have "\<lceil>f64_round (s * 10)\<rceil> = 1"
    using pos le by (simp add: ceiling_eq_iff)
  then have "f64_div (math_Ceil (f64_mul s 10)) 10 = f64_round (1/10)"
    by (simp add: f64_div_def math_Ceil_def f64_mul_def)
  then show ?thesis using assms by (simp add: GetTrueSecurity_def)
qed


lemma f64_0_05_times_10: "f64_round (3602879701896397 / 72057594037927936 * 10) = 1 / 2" by (simp add: f64_eval)

lemma f64_round_0: "f64_round 0 = 0" by (simp add: f64_round_def)

lemma f64_round_ge_f64_0_05:
  assumes "5 / 100 \<le> x"
  shows "3602879701896397 / 72057594037927936 \<le> f64_round x"
proof -
  have "f64_round (5/100) \<le> f64_round x" using assms by (intro f64_round_mono_pos) simp_all
  then show ?thesis unfolding f64_0_05 .
qed

lemma f64_round_ge_5:
  assumes "5 \<le> x"
  shows "5 \<le> f64_round x"
proof -
  have "f64_round 5 \<le> f64_round x" using assms by (intro f64_round_mono_pos) simp_all
  then show ?thesis by (simp add: f64_round_5)
qed

lemma f64_round_ge_c01:
  assumes "1 / 10 \<le> x"
  shows "0 < f64_round x"
proof -
  have "f64_round (1/10) \<le> f64_round x" using assms by (intro f64_round_mono_pos) simp_all
  then show ?thesis unfolding f64_0_1 by simp
qed

lemma GetTrueSecurity_rule2_pos:
  assumes "f64_round (5/100) \<le> s"
  shows "0 < GetTrueSecurity s"
proof -
  define c :: real where "c = 3602879701896397 / 72057594037927936"
  have cs: "c \<le> s" using assms unfolding f64_0_05 c_def .
  have s0: "0 < s" using cs by (simp add: c_def)
  define m where "m = f64_mul s 100"
  have m5: "5 \<le> m" unfolding m_def f64_mul_def
    using cs by (intro f64_round_ge_5) (simp add: c_def)
  define T where "T = math_Trunc m"
  have T5: "5 \<le> T"
  proof -
    have "(5::int) \<le> \<lfloor>m\<rfloor>" using m5 by (simp add: le_floor_iff)
    then have "(5::real) \<le> of_int \<lfloor>m\<rfloor>" by linarith
    then show ?thesis using m5 by (simp add: T_def math_Trunc_def)
  qed
  define t where "t = f64_div T 100"
  have tt: "t = TruncateToTwoDigits s" by (simp add: t_def T_def m_def TruncateToTwoDigits_def)
  have tc: "c \<le> t" unfolding t_def f64_div_def c_def
    using T5 by (intro f64_round_ge_f64_0_05) simp
  define m2 where "m2 = f64_mul t 10"
  have m2pos: "0 < m2"
  proof -
    have "f64_round (c * 10) \<le> f64_round (t * 10)"
      using tc by (intro f64_round_mono_pos) (simp_all add: c_def)
    then show ?thesis unfolding m2_def f64_mul_def c_def f64_0_05_times_10 by simp
  qed
  define o1 where "o1 = f64_div (math_Trunc m2) 10"
  define diff where "diff = f64_div (math_Abs (math_Round (f64_mul (f64_sub t o1) 100))) 100"
  have up: "0 < f64_div (math_Ceil m2) 10"
  proof -
    have "1 \<le> \<lceil>m2\<rceil>" using m2pos by (simp add: le_ceiling_iff)
    then have "(1::real) \<le> of_int \<lceil>m2\<rceil>" by linarith
    then show ?thesis unfolding f64_div_def math_Ceil_def
      by (intro f64_round_ge_c01) simp
  qed
  have down: "0 < o1" if d: "diff < f64_round (5/100)"
  proof (cases "1 \<le> m2")
    case True
    then have "(1::int) \<le> \<lfloor>m2\<rfloor>" by (simp add: le_floor_iff)
    then have "(1::real) \<le> of_int \<lfloor>m2\<rfloor>" by linarith
    then show ?thesis unfolding o1_def f64_div_def math_Trunc_def using m2pos
      by (intro f64_round_ge_c01) simp
  next
    case False
    then have "\<lfloor>m2\<rfloor> = 0" using m2pos by (simp add: floor_eq_iff)
    then have o0: "o1 = 0" using m2pos by (simp add: o1_def f64_div_def math_Trunc_def f64_round_0)
    have a: "c \<le> f64_sub t o1"
    proof -
      have "f64_round c \<le> f64_round t" using tc by (intro f64_round_mono_pos) (simp_all add: c_def)
      then show ?thesis unfolding o0 f64_sub_def c_def f64_0_05_idem by simp
    qed
    have b: "5 \<le> f64_mul (f64_sub t o1) 100"
      unfolding f64_mul_def using a by (intro f64_round_ge_5) (simp add: c_def)
    have "(5::int) \<le> \<lfloor>f64_mul (f64_sub t o1) 100 + 1/2\<rfloor>"
      using b by (simp add: le_floor_iff)
    then have "(5::real) \<le> of_int \<lfloor>f64_mul (f64_sub t o1) 100 + 1/2\<rfloor>" by linarith
    then have "5 \<le> math_Abs (math_Round (f64_mul (f64_sub t o1) 100))"
      using b by (simp add: math_Abs_def math_Round_def)
    then have "c \<le> diff" unfolding diff_def f64_div_def c_def
      by (intro f64_round_ge_f64_0_05) simp
    then show ?thesis using d unfolding f64_0_05 c_def by simp
  qed
  have "GetTrueSecurity s = (if diff < f64_round (5/100) then o1 else f64_div (math_Ceil m2) 10)"
    using cs s0 unfolding GetTrueSecurity_def Let_def tt[symmetric] m2_def[symmetric] o1_def[symmetric] diff_def[symmetric]
    unfolding f64_0_05 c_def by simp
  then show ?thesis using up down by simp
qed

subsection \<open>The edge cases of the classifier\<close>

lemma GetTrueSecurity_0:
  "GetTrueSecurity 0 = 0"
proof -
  have t: "TruncateToTwoDigits 0 = 0"
    by (simp add: TruncateToTwoDigits_def f64_mul_def f64_div_def math_Trunc_def f64_round_0)
  have o: "f64_div (math_Trunc (f64_mul 0 10)) 10 = 0"
    by (simp add: f64_mul_def f64_div_def math_Trunc_def f64_round_0)
  have d: "f64_div (math_Abs (math_Round (f64_mul (f64_sub 0 0) 100))) 100 = 0"
    by (simp add: f64_mul_def f64_div_def f64_sub_def math_Abs_def math_Round_def f64_round_0)
  show ?thesis
    unfolding GetTrueSecurity_def Let_def t o d f64_0_05 by simp
qed

lemma GetTrueSecurity_0_047:
  "GetTrueSecurity (f64_round (47/1000)) = f64_round (1/10)"
proof -
  have l: "f64_round (47/1000) = 3386706919782613 / 72057594037927936"
    by (simp add: f64_eval)
  have r: "f64_round (1/10) = 3602879701896397 / 36028797018963968"
    by (simp add: f64_eval)
  have k: "f64_div (math_Ceil (f64_mul (3386706919782613 / 72057594037927936) 10)) 10 = 3602879701896397 / 36028797018963968"
    by (simp add: f64_eval)
  show ?thesis
    unfolding l r GetTrueSecurity_def k f64_0_05 by simp
qed

lemma GetTrueSecurity_0_9459:
  "GetTrueSecurity (f64_round (9459/10000)) = f64_round (9/10)"
proof -
  have l: "f64_round (9459/10000) = 532494360941219 / 562949953421312"
    by (simp add: f64_eval)
  have r: "f64_round (9/10) = 8106479329266893 / 9007199254740992"
    by (simp add: f64_eval)
  have t: "TruncateToTwoDigits (532494360941219 / 562949953421312) = 2116691824864133 / 2251799813685248"
    by (simp add: TruncateToTwoDigits_def f64_eval)
  have o: "f64_div (math_Trunc (f64_mul (2116691824864133 / 2251799813685248) 10)) 10 = 8106479329266893 / 9007199254740992"
    by (simp add: f64_eval)
  have d: "f64_div (math_Abs (math_Round (f64_mul (f64_sub (2116691824864133 / 2251799813685248) (8106479329266893 / 9007199254740992)) 100))) 100 =
      5764607523034235 / 144115188075855872"
    by (simp add: f64_eval)
  show ?thesis
    unfolding l r GetTrueSecurity_def Let_def t o d f64_0_05 by simp
qed

lemma GetTrueSecurity_0_95:
  "GetTrueSecurity (f64_round (95/100)) = f64_round (1)"
proof -
  have l: "f64_round (95/100) = 4278419646001971 / 4503599627370496"
    by (simp add: f64_eval)
  have r: "f64_round (1) = 1"
    by (simp add: f64_eval)
  have t: "TruncateToTwoDigits (4278419646001971 / 4503599627370496) = 4278419646001971 / 4503599627370496"
    by (simp add: TruncateToTwoDigits_def f64_eval)
  have o: "f64_div (math_Trunc (f64_mul (4278419646001971 / 4503599627370496) 10)) 10 = 8106479329266893 / 9007199254740992"
    by (simp add: f64_eval)
  have d: "f64_div (math_Abs (math_Round (f64_mul (f64_sub (4278419646001971 / 4503599627370496) (8106479329266893 / 9007199254740992)) 100))) 100 =
      3602879701896397 / 72057594037927936"
    by (simp add: f64_eval)
  have k: "f64_div (math_Ceil (f64_mul (4278419646001971 / 4503599627370496) 10)) 10 = 1"
    by (simp add: f64_eval)
  show ?thesis
    unfolding l r GetTrueSecurity_def Let_def t o d f64_0_05 using k by simp
qed

lemma GetTrueSecurity_m0_45:
  "GetTrueSecurity (f64_round (- 45/100)) = f64_round (- 5/10)"
proof -
  have l: "f64_round (- 45/100) = - (8106479329266893 / 18014398509481984)"
    by (simp add: f64_eval)
  have r: "f64_round (- 5/10) = - (1 / 2)"
    by (simp add: f64_eval)
  have t: "TruncateToTwoDigits (- (8106479329266893 / 18014398509481984)) = - (8106479329266893 / 18014398509481984)"
    by (simp add: TruncateToTwoDigits_def f64_eval)
  have o: "f64_div (math_Trunc (f64_mul (- (8106479329266893 / 18014398509481984)) 10)) 10 = - (3602879701896397 / 9007199254740992)"
    by (simp add: f64_eval)
  have d: "f64_div (math_Abs (math_Round (f64_mul (f64_sub (- (8106479329266893 / 18014398509481984)) (- (3602879701896397 / 9007199254740992))) 100))) 100 =
      3602879701896397 / 72057594037927936"
    by (simp add: f64_eval)
  have k: "f64_div (math_Floor (f64_mul (- (8106479329266893 / 18014398509481984)) 10)) 10 = - (1 / 2)"
    by (simp add: f64_eval)
  show ?thesis
    unfolding l r GetTrueSecurity_def Let_def t o d f64_0_05 using k by simp
qed

lemma GetTrueSecurity_m0_449:
  "GetTrueSecurity (f64_round (- 449/1000)) = f64_round (- 4/10)"
proof -
  have l: "f64_round (- 449/1000) = - (8088464930757411 / 18014398509481984)"
    by (simp add: f64_eval)
  have r: "f64_round (- 4/10) = - (3602879701896397 / 9007199254740992)"
    by (simp add: f64_eval)
  have t: "TruncateToTwoDigits (- (8088464930757411 / 18014398509481984)) = - (7926335344172073 / 18014398509481984)"
    by (simp add: TruncateToTwoDigits_def f64_eval)
  have o: "f64_div (math_Trunc (f64_mul (- (7926335344172073 / 18014398509481984)) 10)) 10 = - (3602879701896397 / 9007199254740992)"
    by (simp add: f64_eval)
  have d: "f64_div (math_Abs (math_Round (f64_mul (f64_sub (- (7926335344172073 / 18014398509481984)) (- (3602879701896397 / 9007199254740992))) 100))) 100 =
      5764607523034235 / 144115188075855872"
    by (simp add: f64_eval)
  show ?thesis
    unfolding l r GetTrueSecurity_def Let_def t o d f64_0_05 by simp
qed

lemma GetTrueSecurity_m0_99:
  "GetTrueSecurity (f64_round (- 99/100)) = f64_round (- 1)"
proof -
  have l: "f64_round (- 99/100) = - (4458563631096791 / 4503599627370496)"
    by (simp add: f64_eval)
  have r: "f64_round (- 1) = - 1"
    by (simp add: f64_eval)
  have t: "TruncateToTwoDigits (- (4458563631096791 / 4503599627370496)) = - (4458563631096791 / 4503599627370496)"
    by (simp add: TruncateToTwoDigits_def f64_eval)
  have o: "f64_div (math_Trunc (f64_mul (- (4458563631096791 / 4503599627370496)) 10)) 10 = - (8106479329266893 / 9007199254740992)"
    by (simp add: f64_eval)
  have d: "f64_div (math_Abs (math_Round (f64_mul (f64_sub (- (4458563631096791 / 4503599627370496)) (- (8106479329266893 / 9007199254740992))) 100))) 100 =
      3242591731706757 / 36028797018963968"
    by (simp add: f64_eval)
  have k: "f64_div (math_Floor (f64_mul (- (4458563631096791 / 4503599627370496)) 10)) 10 = - 1"
    by (simp add: f64_eval)
  show ?thesis
    unfolding l r GetTrueSecurity_def Let_def t o d f64_0_05 using k by simp
qed


text \<open>
  \<^bold>\<open>C1.\<close> The classifier meets the edge-case table of the specification exactly. A
  decimal literal of the table denotes the binary64 value nearest to it, as in the Go test
  table: \<open>GetTrueSecurity(0.047) = 0.1\<close>, \<open>GetTrueSecurity(0.9459) = 0.9\<close>,
  \<open>GetTrueSecurity(0.95) = 1.0\<close>, \<open>GetTrueSecurity(-0.45) = -0.5\<close>,
  \<open>GetTrueSecurity(-0.449) = -0.4\<close>, \<open>GetTrueSecurity(0.0) = 0.0\<close> and
  \<open>GetTrueSecurity(-0.99) = -1.0\<close>, each as an equality of binary64 values.
\<close>

theorem GetTrueSecurity_edge_cases:
  "GetTrueSecurity (f64_round (47/1000)) = f64_round (1/10) \<and>
   GetTrueSecurity (f64_round (9459/10000)) = f64_round (9/10) \<and>
   GetTrueSecurity (f64_round (95/100)) = f64_round (1) \<and>
   GetTrueSecurity (f64_round (- 45/100)) = f64_round (- 5/10) \<and>
   GetTrueSecurity (f64_round (- 449/1000)) = f64_round (- 4/10) \<and>
   GetTrueSecurity 0 = 0 \<and>
   GetTrueSecurity (f64_round (- 99/100)) = f64_round (- 1)"
  by (intro conjI GetTrueSecurity_0_047 GetTrueSecurity_0_9459 GetTrueSecurity_0_95
      GetTrueSecurity_m0_45 GetTrueSecurity_m0_449 GetTrueSecurity_0 GetTrueSecurity_m0_99)

text \<open>
  \<^bold>\<open>C2.\<close> For every binary64 value \<open>s\<close> with \<open>0 < s < 0.05\<close> the classifier returns
  \<open>ceil(s * 10) / 10\<close>, and this is \<open>0.1\<close>; hence no strictly positive input is
  displayed as \<open>0.0\<close> (stated for the inputs whose product with \<open>100\<close> does not
  overflow, the range of the number model).
\<close>

theorem GetTrueSecurity_positive_never_zero:
  assumes "is_f64 s" "0 < s"
  shows "(s < f64_round (5/100) \<longrightarrow>
            GetTrueSecurity s = f64_div (math_Ceil (f64_mul s 10)) 10 \<and>
            GetTrueSecurity s = f64_round (1/10)) \<and>
         (s * 100 \<le> f64_max \<longrightarrow> GetTrueSecurity s \<noteq> 0)"
proof -
  have r: "f64_round s = s" using assms(1) by (simp add: is_f64_def)
  have a: "GetTrueSecurity s = f64_div (math_Ceil (f64_mul s 10)) 10"
    if "s < f64_round (5/100)"
    using that assms(2) by (simp add: GetTrueSecurity_def)
  have b: "GetTrueSecurity s = f64_round (1/10)" if "s < f64_round (5/100)"
    using r assms(2) that by (rule GetTrueSecurity_rule1)
  have c: "0 < GetTrueSecurity s"
  proof (cases "s < f64_round (5/100)")
    case True
    then show ?thesis using b unfolding f64_0_1 by simp
  next
    case False
    then have "f64_round (5/100) \<le> s" by simp
    then show ?thesis by (rule GetTrueSecurity_rule2_pos)
  qed
  show ?thesis using a b c by simp
qed

theorem GetTrueSecurity_positive_never_zero_witness:
  "is_f64 (f64_round (47/1000)) \<and> 0 < f64_round (47/1000) \<and>
   f64_round (47/1000) < f64_round (5/100) \<and>
   f64_round (47/1000) * 100 \<le> f64_max \<and>
   GetTrueSecurity (f64_round (47/1000)) = f64_div (math_Ceil (f64_mul (f64_round (47/1000)) 10)) 10 \<and>
   GetTrueSecurity (f64_round (47/1000)) = f64_round (1/10) \<and>
   GetTrueSecurity (f64_round (47/1000)) \<noteq> 0"
proof -
  have l: "f64_round (47/1000) = 3386706919782613 / 72057594037927936"
    by (simp add: f64_eval)
  have i: "f64_round (3386706919782613 / 72057594037927936) =
      3386706919782613 / 72057594037927936"
    by (simp add: f64_eval)
  have h1: "is_f64 (f64_round (47/1000))"
    unfolding l is_f64_def i by (simp add: f64_max_def)
  have h2: "0 < f64_round (47/1000)" unfolding l by simp
  have h3: "f64_round (47/1000) < f64_round (5/100)" unfolding l f64_0_05 by simp
  have h4: "f64_round (47/1000) * 100 \<le> f64_max" unfolding l by (simp add: f64_max_def)
  show ?thesis
    using GetTrueSecurity_positive_never_zero[OF h1 h2] h1 h2 h3 h4 by blast
qed


section \<open>Data model\<close>

text \<open>
  The structs of package \<^verbatim>\<open>models\<close>, field by field. A \<^verbatim>\<open>*int64\<close> is a pointer into
  the store of \<^verbatim>\<open>int64\<close> cells (\<open>None\<close> is \<^verbatim>\<open>nil\<close>, \<open>Some a\<close> the address of cell \<open>a\<close>);
  a \<^verbatim>\<open>map[string]string\<close> is only ever looked up, and is a partial function. Field names
  shared by several structs are written qualified (\<open>Region.XMin\<close>, \<open>SolarSystem.X\<close>).
\<close>

type_synonym ptr = "nat option"

text \<open>
  A coordinate or a bound is a \<^verbatim>\<open>float64\<close> that the program copies and compares, and
  may be any value of the format: NaN, an infinity, or a finite number. The two zeros of
  binary64 are one value here, as they are for every comparison of Go. \<open>f64_less\<close>,
  \<open>f64_greater\<close> and \<open>f64_le\<close> are Go's \<^verbatim>\<open><\<close>, \<^verbatim>\<open>>\<close> and \<^verbatim>\<open><=\<close>: each is false when an
  operand is NaN.
\<close>

datatype float64v = NaN | NegInf | Num float64 | PosInf

fun f64_less :: "float64v \<Rightarrow> float64v \<Rightarrow> bool" where
  "f64_less (Num a) (Num b) \<longleftrightarrow> a < b"
| "f64_less (Num a) PosInf \<longleftrightarrow> True"
| "f64_less NegInf (Num b) \<longleftrightarrow> True"
| "f64_less NegInf PosInf \<longleftrightarrow> True"
| "f64_less _ _ \<longleftrightarrow> False"

definition f64_greater :: "float64v \<Rightarrow> float64v \<Rightarrow> bool" where
  "f64_greater a b \<longleftrightarrow> f64_less b a"

definition f64_le :: "float64v \<Rightarrow> float64v \<Rightarrow> bool" where
  "f64_le a b \<longleftrightarrow> f64_less a b \<or> (a = b \<and> a \<noteq> NaN)"

record SolarSystem =
  RegionID :: int64
  ConstellationID :: int64
  SolarSystemID :: int64
  SolarSystemName :: string
  X :: float64v
  Y :: float64v
  Z :: float64v
  XMin :: float64v
  XMax :: float64v
  YMin :: float64v
  YMax :: float64v
  ZMin :: float64v
  ZMax :: float64v
  Luminosity :: float64
  Border :: bool
  Fringe :: bool
  Corridor :: bool
  Hub :: bool
  International :: bool
  Regional :: bool
  Constellation :: string
  Security :: float64
  FactionID :: ptr
  Radius :: float64
  SunTypeID :: ptr
  SecurityClass :: string

record Region =
  RegionID :: int64
  RegionName :: string
  X :: float64v
  Y :: float64v
  Z :: float64v
  XMin :: float64v
  XMax :: float64v
  YMin :: float64v
  YMax :: float64v
  ZMin :: float64v
  ZMax :: float64v
  FactionID :: ptr
  Nebula :: int64
  Radius :: float64

record Constellation =
  RegionID :: int64
  ConstellationID :: int64
  ConstellationName :: string
  X :: float64v
  Y :: float64v
  Z :: float64v
  XMin :: float64v
  XMax :: float64v
  YMin :: float64v
  YMax :: float64v
  ZMin :: float64v
  ZMax :: float64v
  FactionID :: ptr
  Radius :: float64

record WormholeClassLocation =
  LocationID :: int64
  WormholeClassID :: int64

record InvType =
  TypeID :: int64
  GroupID :: int64
  TypeName :: string
  Description :: string
  Mass :: float64
  Volume :: float64
  Capacity :: float64
  PortionSize :: int64
  RaceID :: ptr
  BasePrice :: float64
  Published :: bool
  MarketGroupID :: ptr
  IconID :: ptr
  SoundID :: ptr
  GraphicID :: ptr

record InvGroup =
  GroupID :: int64
  CategoryID :: int64
  GroupName :: string
  IconID :: ptr
  UseBasePrice :: bool
  Anchored :: bool
  Anchorable :: bool
  FittableNonSingleton :: bool
  Published :: bool

record SystemJump =
  FromRegionID :: int64
  FromConstellationID :: int64
  FromSolarSystemID :: int64
  ToSolarSystemID :: int64
  ToConstellationID :: int64
  ToRegionID :: int64

record NPCStation =
  StationID :: int64
  SolarSystemID :: int64
  OwnerID :: int64
  OwnerName :: string
  TypeID :: int64

text \<open>The parsed source records that the transformer reads (package \<^verbatim>\<open>models\<close>, file sde.go).\<close>

record SDEType =
  GroupID :: int64
  Name :: "string \<rightharpoonup> string"
  Description :: "string \<rightharpoonup> string"
  Mass :: float64
  Volume :: float64
  Capacity :: float64
  PortionSize :: int64
  Published :: bool
  MarketGroupID :: int64
  GraphicID :: int64
  IconID :: int64
  SoundID :: int64
  BasePrice :: float64
  RaceID :: int64
  SofFactionName :: string

record SDEGroup =
  CategoryID :: int64
  Name :: "string \<rightharpoonup> string"
  Published :: bool
  Anchorable :: bool
  Anchored :: bool
  FittableNonSingleton :: bool
  UseBasePrice :: bool
  IconID :: int64

record SDEPosition =
  X :: float64v
  Y :: float64v
  Z :: float64v

record SDENPCStation =
  CelestialIndex :: int64
  OperationID :: int64
  OrbitID :: int64
  OrbitIndex :: int64
  OwnerID :: int64
  Position :: SDEPosition
  ReprocessingEfficiency :: float64
  ReprocessingHangarFlag :: int64
  ReprocessingStationsTake :: float64
  SolarSystemID :: int64
  TypeID :: int64
  UseOperationName :: bool

record SDENPCCorporation =
  Name :: "string \<rightharpoonup> string"
  StationID :: int64
  Deleted :: bool

record SDECategory =
  Name :: "string \<rightharpoonup> string"
  Published :: bool
  IconID :: int64

record ValidationResult =
  SolarSystems :: nat
  Regions :: nat
  Constellations :: nat
  InvTypes :: nat
  InvGroups :: nat
  SystemJumps :: nat
  WormholeClasses :: nat
  NPCStations :: nat
  Errors :: "string list"
  Warnings :: "string list"

text \<open>
  A Go map that is iterated with \<^verbatim>\<open>range\<close> is given as the list of its entries in the
  order in which that loop visits them: the keys are distinct, and the order is arbitrary.
\<close>

type_synonym ('k, 'v) gomap = "('k \<times> 'v) list"

section \<open>Slices and sorting\<close>

text \<open>
  \<^verbatim>\<open>sort.Slice(x, less)\<close> of the Go library reorders the slice \<open>x\<close> in place so that it is
  ordered by \<open>less\<close>; the order of elements that compare equal is not specified. The model
  is the insertion sort that the library itself runs on short slices: every element is moved
  left past the elements that are greater. The theorems below depend only on the contract:
  the result is a permutation of the slice, ordered by \<open>less\<close>.
\<close>

fun insert_less :: "('a \<Rightarrow> 'a \<Rightarrow> bool) \<Rightarrow> 'a \<Rightarrow> 'a list \<Rightarrow> 'a list" where
  "insert_less lt x [] = [x]"
| "insert_less lt x (y # ys) =
     (if lt x y then x # y # ys else y # insert_less lt x ys)"

definition sort_Slice :: "('a \<Rightarrow> 'a \<Rightarrow> bool) \<Rightarrow> 'a list \<Rightarrow> 'a list" where
  "sort_Slice lt xs = foldl (\<lambda>acc x. insert_less lt x acc) [] xs"

lemma mset_insert_less: "mset (insert_less lt x ys) = add_mset x (mset ys)"
  by (induction ys) auto

lemma mset_foldl_insert_less:
  "mset (foldl (\<lambda>acc x. insert_less lt x acc) acc xs) = mset acc + mset xs"
  by (induction xs arbitrary: acc) (auto simp: mset_insert_less)

lemma mset_sort_Slice: "mset (sort_Slice lt xs) = mset xs"
  by (simp add: sort_Slice_def mset_foldl_insert_less)

lemma set_sort_Slice: "set (sort_Slice lt xs) = set xs"
  using mset_sort_Slice[of lt xs] by (metis set_mset_mset)

lemma length_sort_Slice: "length (sort_Slice lt xs) = length xs"
  using mset_sort_Slice[of lt xs] by (metis size_mset)

text \<open>Ordered by a key: \<open>lt a b\<close> compares the keys of \<open>a\<close> and \<open>b\<close>.\<close>

lemma set_insert_less: "set (insert_less lt x ys) = insert x (set ys)"
  by (induction ys) auto

lemma sorted_insert_less:
  fixes key :: "'a \<Rightarrow> 'k::linorder"
  assumes "\<And>a b. lt a b \<longleftrightarrow> key a < key b"
  shows "sorted (map key ys) \<Longrightarrow> sorted (map key (insert_less lt x ys))"
  by (induction ys) (auto simp: assms set_insert_less)

lemma sorted_foldl_insert_less:
  fixes key :: "'a \<Rightarrow> 'k::linorder"
  assumes "\<And>a b. lt a b \<longleftrightarrow> key a < key b"
  shows "sorted (map key acc) \<Longrightarrow>
    sorted (map key (foldl (\<lambda>acc x. insert_less lt x acc) acc xs))"
proof (induction xs arbitrary: acc)
  case Nil
  then show ?case by simp
next
  case (Cons x xs)
  have "sorted (map key (insert_less lt x acc))"
    using Cons.prems by (rule sorted_insert_less[OF assms])
  then show ?case using Cons.IH by simp
qed

lemma sorted_sort_Slice:
  fixes key :: "'a \<Rightarrow> 'k::linorder"
  assumes "\<And>a b. lt a b \<longleftrightarrow> key a < key b"
  shows "sorted (map key (sort_Slice lt xs))"
  unfolding sort_Slice_def by (rule sorted_foldl_insert_less[OF assms]) simp

text \<open>With distinct keys the ordered permutation is unique.\<close>

lemma sorted_distinct_key_unique:
  fixes key :: "'a \<Rightarrow> 'k::linorder"
  assumes "mset xs = mset ys" "distinct (map key xs)"
    "sorted (map key xs)" "sorted (map key ys)"
  shows "xs = ys"
proof -
  have m: "mset (map key xs) = mset (map key ys)" using assms(1) by simp
  have dy: "distinct (map key ys)" using m assms(2) by (metis mset_eq_imp_distinct_iff)
  have s: "set (map key xs) = set (map key ys)" using m by (metis set_mset_mset)
  have k: "map key xs = map key ys"
    using assms(3) assms(2) assms(4) dy s by (rule sorted_distinct_set_unique)
  have sxy: "set xs = set ys" using assms(1) by (metis set_mset_mset)
  have "inj_on key (set xs \<union> set ys)"
    using assms(2) sxy by (simp add: distinct_map)
  then show ?thesis using k by (simp add: inj_on_map_eq_map)
qed

lemma sort_Slice_perm_eq:
  fixes key :: "'a \<Rightarrow> 'k::linorder"
  assumes "\<And>a b. lt a b \<longleftrightarrow> key a < key b"
    "mset xs = mset ys" "distinct (map key xs)"
  shows "sort_Slice lt xs = sort_Slice lt ys"
proof (rule sorted_distinct_key_unique[where key = key])
  show "mset (sort_Slice lt xs) = mset (sort_Slice lt ys)"
    using assms(2) by (simp add: mset_sort_Slice)
  have "mset (map key (sort_Slice lt xs)) = mset (map key xs)"
    by (simp add: mset_sort_Slice)
  then show "distinct (map key (sort_Slice lt xs))"
    using assms(3) by (metis mset_eq_imp_distinct_iff)
  show "sorted (map key (sort_Slice lt xs))" by (rule sorted_sort_Slice[OF assms(1)])
  show "sorted (map key (sort_Slice lt ys))" by (rule sorted_sort_Slice[OF assms(1)])
qed

section \<open>Zero values\<close>

text \<open>The zero values of the structs, as \<^verbatim>\<open>make\<close> and composite literals fill them in.\<close>

definition SolarSystem_zero :: SolarSystem where
  "SolarSystem_zero = \<lparr>SolarSystem.RegionID = 0, SolarSystem.ConstellationID = 0,
     SolarSystem.SolarSystemID = 0, SolarSystemName = [], SolarSystem.X = Num 0,
     SolarSystem.Y = Num 0, SolarSystem.Z = Num 0, SolarSystem.XMin = Num 0,
     SolarSystem.XMax = Num 0, SolarSystem.YMin = Num 0, SolarSystem.YMax = Num 0,
     SolarSystem.ZMin = Num 0, SolarSystem.ZMax = Num 0,
     Luminosity = 0, Border = False, Fringe = False, Corridor = False, Hub = False,
     International = False, Regional = False, Constellation = [], Security = 0,
     SolarSystem.FactionID = None, SolarSystem.Radius = 0, SunTypeID = None,
     SecurityClass = []\<rparr>"

definition Region_zero :: Region where
  "Region_zero = \<lparr>Region.RegionID = 0, RegionName = [], Region.X = Num 0,
     Region.Y = Num 0, Region.Z = Num 0, Region.XMin = Num 0, Region.XMax = Num 0,
     Region.YMin = Num 0, Region.YMax = Num 0, Region.ZMin = Num 0, Region.ZMax = Num 0,
     Region.FactionID = None, Nebula = 0, Region.Radius = 0\<rparr>"

definition Constellation_zero :: Constellation where
  "Constellation_zero = \<lparr>Constellation.RegionID = 0, Constellation.ConstellationID = 0,
     ConstellationName = [], Constellation.X = Num 0, Constellation.Y = Num 0,
     Constellation.Z = Num 0, Constellation.XMin = Num 0, Constellation.XMax = Num 0,
     Constellation.YMin = Num 0, Constellation.YMax = Num 0, Constellation.ZMin = Num 0,
     Constellation.ZMax = Num 0, Constellation.FactionID = None,
     Constellation.Radius = 0\<rparr>"

section \<open>Geometry aggregator\<close>

text \<open>The unexported struct \<^verbatim>\<open>bounds\<close> and \<^verbatim>\<open>calculateBounds\<close>; \<open>bounds_zero\<close> is \<^verbatim>\<open>bounds{}\<close>.\<close>

record bounds =
  minX :: float64v
  maxX :: float64v
  minY :: float64v
  maxY :: float64v
  minZ :: float64v
  maxZ :: float64v

definition bounds_zero :: bounds where
  "bounds_zero = \<lparr>minX = Num 0, maxX = Num 0, minY = Num 0, maxY = Num 0, minZ = Num 0,
     maxZ = Num 0\<rparr>"

text \<open>
  One iteration of the loop over \<^verbatim>\<open>systems[1:]\<close>: six tests, each on the updated bounds.
  A test is false when the coordinate or the bound is NaN.
\<close>

definition bounds_step :: "SolarSystem \<Rightarrow> bounds \<Rightarrow> bounds" where
  "bounds_step sys b0 =
    (let b1 = (if f64_less (SolarSystem.X sys) (minX b0)
               then b0\<lparr>minX := SolarSystem.X sys\<rparr> else b0);
         b2 = (if f64_greater (SolarSystem.X sys) (maxX b1)
               then b1\<lparr>maxX := SolarSystem.X sys\<rparr> else b1);
         b3 = (if f64_less (SolarSystem.Y sys) (minY b2)
               then b2\<lparr>minY := SolarSystem.Y sys\<rparr> else b2);
         b4 = (if f64_greater (SolarSystem.Y sys) (maxY b3)
               then b3\<lparr>maxY := SolarSystem.Y sys\<rparr> else b3);
         b5 = (if f64_less (SolarSystem.Z sys) (minZ b4)
               then b4\<lparr>minZ := SolarSystem.Z sys\<rparr> else b4);
         b6 = (if f64_greater (SolarSystem.Z sys) (maxZ b5)
               then b5\<lparr>maxZ := SolarSystem.Z sys\<rparr> else b5)
     in b6)"

fun calculateBounds :: "SolarSystem list \<Rightarrow> bounds" where
  "calculateBounds [] = bounds_zero"
| "calculateBounds (s0 # rest) =
     fold bounds_step rest
       \<lparr>minX = SolarSystem.X s0, maxX = SolarSystem.X s0,
        minY = SolarSystem.Y s0, maxY = SolarSystem.Y s0,
        minZ = SolarSystem.Z s0, maxZ = SolarSystem.Z s0\<rparr>"

text \<open>
  \<^verbatim>\<open>CalculateRegionBounds\<close> and \<^verbatim>\<open>CalculateConstellationBounds\<close> write into the slice they
  are given. Each is modelled as the function from the contents of that slice before the
  call to its contents after the call. The local map from a parent ID to the list of its
  systems yields \<^verbatim>\<open>nil\<close> (the empty list) for a key that was never stored. The loop over
  the indices of the slice touches only the element of its own index.
\<close>

definition group_by :: "(SolarSystem \<Rightarrow> int64) \<Rightarrow> SolarSystem list \<Rightarrow> int64 \<Rightarrow> SolarSystem list" where
  "group_by parent systems =
     fold (\<lambda>sys m. m(parent sys := m (parent sys) @ [sys])) systems (\<lambda>_. [])"

definition CalculateRegionBounds :: "Region list \<Rightarrow> SolarSystem list \<Rightarrow> Region list" where
  "CalculateRegionBounds regions systems =
    (let regionSystems = group_by SolarSystem.RegionID systems
     in map (\<lambda>r.
          let sysList = regionSystems (Region.RegionID r)
          in if length sysList = 0 then r
             else let b = calculateBounds sysList
                  in r\<lparr>Region.XMin := minX b, Region.XMax := maxX b,
                        Region.YMin := minY b, Region.YMax := maxY b,
                        Region.ZMin := minZ b, Region.ZMax := maxZ b\<rparr>) regions)"

definition CalculateConstellationBounds ::
    "Constellation list \<Rightarrow> SolarSystem list \<Rightarrow> Constellation list" where
  "CalculateConstellationBounds constellations systems =
    (let constellationSystems = group_by SolarSystem.ConstellationID systems
     in map (\<lambda>c.
          let sysList = constellationSystems (Constellation.ConstellationID c)
          in if length sysList = 0 then c
             else let b = calculateBounds sysList
                  in c\<lparr>Constellation.XMin := minX b, Constellation.XMax := maxX b,
                        Constellation.YMin := minY b, Constellation.YMax := maxY b,
                        Constellation.ZMin := minZ b, Constellation.ZMax := maxZ b\<rparr>)
          constellations)"

subsection \<open>Minimum and maximum\<close>

text \<open>
  The least and the greatest of a list of values by Go's \<^verbatim>\<open><=\<close>: an element of the list
  that is below, respectively above, every element. A list that holds NaN has neither,
  and no list has two.
\<close>

definition f64_is_min :: "float64v \<Rightarrow> float64v list \<Rightarrow> bool" where
  "f64_is_min m xs \<longleftrightarrow> m \<in> set xs \<and> (\<forall>x \<in> set xs. f64_le m x)"

definition f64_is_max :: "float64v \<Rightarrow> float64v list \<Rightarrow> bool" where
  "f64_is_max m xs \<longleftrightarrow> m \<in> set xs \<and> (\<forall>x \<in> set xs. f64_le x m)"

lemma f64_less_NaN [simp]: "\<not> f64_less NaN b" "\<not> f64_less a NaN"
  by (cases b; simp) (cases a; simp)





lemma f64_le_antisym: "f64_le a b \<Longrightarrow> f64_le b a \<Longrightarrow> a = b"
  by (cases a; cases b) (auto simp: f64_le_def)

lemma f64_le_Num [simp]: "f64_le (Num a) (Num b) \<longleftrightarrow> a \<le> b"
  by (auto simp: f64_le_def)

lemma f64_is_min_unique: "f64_is_min m xs \<Longrightarrow> f64_is_min m' xs \<Longrightarrow> m = m'"
  unfolding f64_is_min_def by (blast intro: f64_le_antisym)

lemma f64_is_max_unique: "f64_is_max m xs \<Longrightarrow> f64_is_max m' xs \<Longrightarrow> m = m'"
  unfolding f64_is_max_def by (blast intro: f64_le_antisym)

lemma f64_is_min_no_NaN: "f64_is_min m xs \<Longrightarrow> NaN \<notin> set xs"
  unfolding f64_is_min_def f64_le_def by fastforce

lemma f64_is_max_no_NaN: "f64_is_max m xs \<Longrightarrow> NaN \<notin> set xs"
  unfolding f64_is_max_def f64_le_def by fastforce

text \<open>On finite values these are the minimum and the maximum of the real numbers.\<close>

lemma f64_is_min_Num:
  assumes "rs \<noteq> []"
  shows "f64_is_min (Num (Min (set rs))) (map Num rs)"
  using assms by (auto simp: f64_is_min_def)

lemma f64_is_max_Num:
  assumes "rs \<noteq> []"
  shows "f64_is_max (Num (Max (set rs))) (map Num rs)"
  using assms by (auto simp: f64_is_max_def)



text \<open>
  Without the condition the loop does not compute a minimum: a bound that starts as NaN
  stays NaN, and a NaN coordinate met later is passed over.
\<close>

lemma fold_min_NaN: "fold (\<lambda>x m. if f64_less x m then x else m) xs NaN = NaN"
  by (induction xs) simp_all

lemma fold_max_NaN: "fold (\<lambda>x m. if f64_greater x m then x else m) xs NaN = NaN"
  by (induction xs) (simp_all add: f64_greater_def)

subsection \<open>The bounds of a list of systems\<close>

lemma bounds_step_sel:
  "minX (bounds_step s b) = (if f64_less (SolarSystem.X s) (minX b) then SolarSystem.X s else minX b)"
  "maxX (bounds_step s b) = (if f64_greater (SolarSystem.X s) (maxX b) then SolarSystem.X s else maxX b)"
  "minY (bounds_step s b) = (if f64_less (SolarSystem.Y s) (minY b) then SolarSystem.Y s else minY b)"
  "maxY (bounds_step s b) = (if f64_greater (SolarSystem.Y s) (maxY b) then SolarSystem.Y s else maxY b)"
  "minZ (bounds_step s b) = (if f64_less (SolarSystem.Z s) (minZ b) then SolarSystem.Z s else minZ b)"
  "maxZ (bounds_step s b) = (if f64_greater (SolarSystem.Z s) (maxZ b) then SolarSystem.Z s else maxZ b)"
  by (simp_all add: bounds_step_def Let_def)

lemma fold_bounds_step:
  "minX (fold bounds_step ss b) =
     fold (\<lambda>x m. if f64_less x m then x else m) (map SolarSystem.X ss) (minX b)"
  "maxX (fold bounds_step ss b) =
     fold (\<lambda>x m. if f64_greater x m then x else m) (map SolarSystem.X ss) (maxX b)"
  "minY (fold bounds_step ss b) =
     fold (\<lambda>x m. if f64_less x m then x else m) (map SolarSystem.Y ss) (minY b)"
  "maxY (fold bounds_step ss b) =
     fold (\<lambda>x m. if f64_greater x m then x else m) (map SolarSystem.Y ss) (maxY b)"
  "minZ (fold bounds_step ss b) =
     fold (\<lambda>x m. if f64_less x m then x else m) (map SolarSystem.Z ss) (minZ b)"
  "maxZ (fold bounds_step ss b) =
     fold (\<lambda>x m. if f64_greater x m then x else m) (map SolarSystem.Z ss) (maxZ b)"
  by (induction ss arbitrary: b) (simp_all add: bounds_step_sel)


lemma calculateBounds_NaN_first:
  assumes "SolarSystem.X s0 = NaN"
  shows "minX (calculateBounds (s0 # rest)) = NaN" "maxX (calculateBounds (s0 # rest)) = NaN"
  using assms by (simp_all add: fold_bounds_step fold_min_NaN fold_max_NaN)

subsection \<open>The bounds written to a parent\<close>







section \<open>Inheritance resolver\<close>

text \<open>
  \<^verbatim>\<open>InheritFactionIDs(systems, regions)\<close> writes into the slice \<open>systems\<close> and allocates
  \<^verbatim>\<open>int64\<close> cells. The store of \<^verbatim>\<open>int64\<close> cells is a list; a pointer is an index into it,
  and \<^verbatim>\<open>val := *factionID; &val\<close> allocates the next cell, holding the value read. The
  function is modelled on the store and the contents of \<open>systems\<close> before the call, and
  returns both after the call. \<open>deref\<close> reads through a pointer (\<open>None\<close> for \<^verbatim>\<open>nil\<close>).
\<close>

definition deref :: "int64 list \<Rightarrow> ptr \<Rightarrow> int64 option" where
  "deref cells p = (case p of None \<Rightarrow> None | Some a \<Rightarrow> Some (cells ! a))"

definition regionFactions_of :: "Region list \<Rightarrow> (int64 \<rightharpoonup> ptr)" where
  "regionFactions_of regions =
     fold (\<lambda>region m. m(Region.RegionID region \<mapsto> Region.FactionID region)) regions Map.empty"

definition inherit_step ::
    "(int64 \<rightharpoonup> ptr) \<Rightarrow> int64 list \<Rightarrow> SolarSystem \<Rightarrow> int64 list \<times> SolarSystem" where
  "inherit_step regionFactions cells sys =
    (if SolarSystem.FactionID sys = None then
       (case regionFactions (SolarSystem.RegionID sys) of
          Some (Some factionID) \<Rightarrow>
            (let val = cells ! factionID
             in (cells @ [val], sys\<lparr>SolarSystem.FactionID := Some (length cells)\<rparr>))
        | _ \<Rightarrow> (cells, sys))
     else (cells, sys))"

fun inherit_loop ::
    "(int64 \<rightharpoonup> ptr) \<Rightarrow> int64 list \<Rightarrow> SolarSystem list \<Rightarrow> int64 list \<times> SolarSystem list" where
  "inherit_loop regionFactions cells [] = (cells, [])"
| "inherit_loop regionFactions cells (sys # rest) =
    (let (cells1, sys') = inherit_step regionFactions cells sys;
         (cells2, rest') = inherit_loop regionFactions cells1 rest
     in (cells2, sys' # rest'))"

definition InheritFactionIDs ::
    "int64 list \<Rightarrow> SolarSystem list \<Rightarrow> Region list \<Rightarrow> int64 list \<times> SolarSystem list" where
  "InheritFactionIDs cells systems regions =
     inherit_loop (regionFactions_of regions) cells systems"

subsection \<open>The map from region ID to faction pointer\<close>

lemma fold_regionFactions_other:
  "k \<notin> Region.RegionID ` set regions \<Longrightarrow>
   fold (\<lambda>region m. m(Region.RegionID region \<mapsto> Region.FactionID region)) regions m k = m k"
  by (induction regions arbitrary: m) auto

lemma regionFactions_of_last:
  assumes "regions = pre @ r # post" "\<forall>r' \<in> set post. Region.RegionID r' \<noteq> Region.RegionID r"
  shows "regionFactions_of regions (Region.RegionID r) = Some (Region.FactionID r)"
proof -
  have "Region.RegionID r \<notin> Region.RegionID ` set post" using assms(2) by auto
  then show ?thesis
    unfolding regionFactions_of_def assms(1) by (simp add: fold_regionFactions_other)
qed

lemma regionFactions_of_none:
  assumes "\<forall>r \<in> set regions. Region.RegionID r \<noteq> k"
  shows "regionFactions_of regions k = None"
proof -
  have "k \<notin> Region.RegionID ` set regions" using assms by auto
  then show ?thesis unfolding regionFactions_of_def by (simp add: fold_regionFactions_other)
qed

lemma fold_regionFactions_range:
  "fold (\<lambda>region m. m(Region.RegionID region \<mapsto> Region.FactionID region)) regions m k = Some p
    \<Longrightarrow> (\<exists>r \<in> set regions. Region.FactionID r = p) \<or> m k = Some p"
proof (induction regions arbitrary: m)
  case Nil
  then show ?case by simp
next
  case (Cons a regions)
  from Cons.IH[of "m(Region.RegionID a \<mapsto> Region.FactionID a)"] Cons.prems
  have "(\<exists>r \<in> set regions. Region.FactionID r = p) \<or>
        (m(Region.RegionID a \<mapsto> Region.FactionID a)) k = Some p"
    by simp
  then show ?case by (auto split: if_splits)
qed

lemma regionFactions_of_range:
  "regionFactions_of regions k = Some p \<Longrightarrow> \<exists>r \<in> set regions. Region.FactionID r = p"
  using fold_regionFactions_range[of regions Map.empty k p]
  by (simp add: regionFactions_of_def)

subsection \<open>The loop\<close>

text \<open>A system inherits when it has no faction of its own and its region's pointer is not nil.\<close>

definition inherits :: "(int64 \<rightharpoonup> ptr) \<Rightarrow> SolarSystem \<Rightarrow> bool" where
  "inherits rf sys \<longleftrightarrow>
     SolarSystem.FactionID sys = None \<and> (\<exists>p. rf (SolarSystem.RegionID sys) = Some (Some p))"

definition region_ptr :: "(int64 \<rightharpoonup> ptr) \<Rightarrow> SolarSystem \<Rightarrow> nat" where
  "region_ptr rf sys = the (the (rf (SolarSystem.RegionID sys)))"

lemma inherit_step_eq:
  "inherit_step rf cells sys =
    (if inherits rf sys
     then (cells @ [cells ! region_ptr rf sys], sys\<lparr>SolarSystem.FactionID := Some (length cells)\<rparr>)
     else (cells, sys))"
  by (auto simp: inherit_step_def inherits_def region_ptr_def Let_def split: option.splits)

lemma inherit_loop_Cons:
  "inherit_loop rf cells (s # ss) =
    (fst (inherit_loop rf (fst (inherit_step rf cells s)) ss),
     snd (inherit_step rf cells s) # snd (inherit_loop rf (fst (inherit_step rf cells s)) ss))"
  by (simp add: Let_def split: prod.splits)

lemma inherit_loop_length:
  "length (snd (inherit_loop rf cells ss)) = length ss"
  by (induction ss arbitrary: cells) (simp_all add: inherit_loop_Cons del: inherit_loop.simps(2))

lemma inherit_loop_cells:
  assumes "\<forall>s \<in> set ss. inherits rf s \<longrightarrow> region_ptr rf s < length cells"
  shows "fst (inherit_loop rf cells ss) =
           cells @ map (\<lambda>s. cells ! region_ptr rf s) (filter (inherits rf) ss)"
  using assms
proof (induction ss arbitrary: cells)
  case Nil
  then show ?case by simp
next
  case (Cons s ss)
  show ?case
  proof (cases "inherits rf s")
    case True
    let ?c1 = "cells @ [cells ! region_ptr rf s]"
    have v: "\<forall>s \<in> set ss. inherits rf s \<longrightarrow> region_ptr rf s < length ?c1"
      using Cons.prems by auto
    have "fst (inherit_loop rf ?c1 ss) =
        ?c1 @ map (\<lambda>s. ?c1 ! region_ptr rf s) (filter (inherits rf) ss)"
      using Cons.IH[OF v] .
    moreover have "map (\<lambda>s. ?c1 ! region_ptr rf s) (filter (inherits rf) ss) =
        map (\<lambda>s. cells ! region_ptr rf s) (filter (inherits rf) ss)"
      using Cons.prems by (auto simp: nth_append)
    ultimately show ?thesis using True
      by (simp add: inherit_loop_Cons inherit_step_eq del: inherit_loop.simps(2))
  next
    case False
    have v: "\<forall>s \<in> set ss. inherits rf s \<longrightarrow> region_ptr rf s < length cells"
      using Cons.prems by auto
    show ?thesis using False Cons.IH[OF v]
      by (simp add: inherit_loop_Cons inherit_step_eq del: inherit_loop.simps(2))
  qed
qed

lemma inherit_loop_nth:
  assumes "i < length ss"
  shows "snd (inherit_loop rf cells ss) ! i =
    (if inherits rf (ss ! i)
     then (ss ! i)\<lparr>SolarSystem.FactionID :=
            Some (length cells + length (filter (inherits rf) (take i ss)))\<rparr>
     else ss ! i)"
  using assms
proof (induction ss arbitrary: cells i)
  case Nil
  then show ?case by simp
next
  case (Cons s ss)
  show ?case
  proof (cases i)
    case 0
    then show ?thesis
      by (simp add: inherit_loop_Cons inherit_step_eq del: inherit_loop.simps(2))
  next
    case (Suc j)
    then have j: "j < length ss" using Cons.prems by simp
    show ?thesis using Suc Cons.IH[OF j]
      by (simp add: inherit_loop_Cons inherit_step_eq del: inherit_loop.simps(2))
  qed
qed


lemma filter_nth_count:
  assumes "i < length xs" "P (xs ! i)"
  shows "filter P xs ! length (filter P (take i xs)) = xs ! i"
    and "length (filter P (take i xs)) < length (filter P xs)"
proof -
  have "xs = take i xs @ xs ! i # drop (Suc i) xs" using assms(1) by (rule id_take_nth_drop)
  then have "filter P xs = filter P (take i xs @ xs ! i # drop (Suc i) xs)" by simp
  then have f: "filter P xs = filter P (take i xs) @ xs ! i # filter P (drop (Suc i) xs)"
    using assms(2) by simp
  show "filter P xs ! length (filter P (take i xs)) = xs ! i"
    by (subst f) (simp add: nth_append)
  show "length (filter P (take i xs)) < length (filter P xs)"
    using arg_cong[OF f, of length] by simp
qed

lemma filter_count_less:
  assumes "j < i" "i \<le> length xs" "P (xs ! j)"
  shows "length (filter P (take j xs)) < length (filter P (take i xs))"
proof -
  have "j < length (take i xs)" using assms by simp
  moreover have "P (take i xs ! j)" using assms by simp
  ultimately have "length (filter P (take j (take i xs))) < length (filter P (take i xs))"
    by (rule filter_nth_count(2))
  moreover have "take j (take i xs) = take j xs" using assms by (simp add: min_def)
  ultimately show ?thesis by simp
qed

lemma filter_count_neq:
  assumes "i \<noteq> j" "i < length xs" "j < length xs" "P (xs ! i)" "P (xs ! j)"
  shows "length (filter P (take i xs)) \<noteq> length (filter P (take j xs))"
proof (cases "i < j")
  case True
  then show ?thesis using filter_count_less[of i j xs P] assms by simp
next
  case False
  then have "j < i" using assms(1) by simp
  then show ?thesis using filter_count_less[of j i xs P] assms by simp
qed

lemma InheritFactionIDs_result:
  assumes vr: "\<forall>r \<in> set regions. \<forall>p. Region.FactionID r = Some p \<longrightarrow> p < length cells"
  defines "rf \<equiv> regionFactions_of regions"
  shows "fst (InheritFactionIDs cells systems regions) =
           cells @ map (\<lambda>s. cells ! region_ptr rf s) (filter (inherits rf) systems)"
    and "i < length systems \<Longrightarrow> snd (InheritFactionIDs cells systems regions) ! i =
          (if inherits rf (systems ! i)
           then (systems ! i)\<lparr>SolarSystem.FactionID :=
                  Some (length cells + length (filter (inherits rf) (take i systems)))\<rparr>
           else systems ! i)"
    and "inherits rf s \<Longrightarrow> region_ptr rf s < length cells"
proof -
  show p: "region_ptr rf s < length cells" if inh: "inherits rf s" for s
  proof -
    obtain p where p: "rf (SolarSystem.RegionID s) = Some (Some p)"
      using inh by (auto simp: inherits_def)
    then obtain r where "r \<in> set regions" "Region.FactionID r = Some p"
      unfolding rf_def using regionFactions_of_range by blast
    then have "p < length cells" using vr by blast
    then show ?thesis using p by (simp add: region_ptr_def)
  qed
  then have "\<forall>s \<in> set systems. inherits rf s \<longrightarrow> region_ptr rf s < length cells" by blast
  then show "fst (InheritFactionIDs cells systems regions) =
           cells @ map (\<lambda>s. cells ! region_ptr rf s) (filter (inherits rf) systems)"
    unfolding InheritFactionIDs_def rf_def[symmetric] by (rule inherit_loop_cells)
  show "i < length systems \<Longrightarrow> snd (InheritFactionIDs cells systems regions) ! i =
          (if inherits rf (systems ! i)
           then (systems ! i)\<lparr>SolarSystem.FactionID :=
                  Some (length cells + length (filter (inherits rf) (take i systems)))\<rparr>
           else systems ! i)"
    unfolding InheritFactionIDs_def rf_def[symmetric] by (rule inherit_loop_nth)
qed


text \<open>
  \<^bold>\<open>C4.\<close> After \<^verbatim>\<open>InheritFactionIDs(systems, regions)\<close>, for the system at any index \<open>i\<close>:
  a system that had its own \<open>FactionID\<close> is unchanged, and so is the value it points to; a
  system with nil \<open>FactionID\<close> whose region has a \<open>FactionID\<close> is unchanged but for its
  \<open>FactionID\<close>, which points to a cell allocated by the call and holding the region's
  value; no other system and no region points to that cell, so writing any value \<open>v\<close>
  through it changes what no other system and no region reads; a system with nil
  \<open>FactionID\<close> whose region has nil \<open>FactionID\<close>, or that has no region in the slice,
  stays nil. No cell that existed before the call is written. The region of a system is
  the region of the slice that carries the system's \<open>RegionID\<close> (the last such region,
  should an ID occur twice). Pointers of the input point to allocated cells, as every
  pointer of a Go program does.
\<close>

theorem InheritFactionIDs_copy:
  assumes vs: "\<forall>s \<in> set systems. \<forall>p. SolarSystem.FactionID s = Some p \<longrightarrow> p < length cells"
      and vr: "\<forall>r \<in> set regions. \<forall>p. Region.FactionID r = Some p \<longrightarrow> p < length cells"
      and i: "i < length systems"
  shows "let cells' = fst (InheritFactionIDs cells systems regions);
             systems' = snd (InheritFactionIDs cells systems regions);
             sys = systems ! i
         in length systems' = length systems \<and> take (length cells) cells' = cells \<and>
            (SolarSystem.FactionID sys \<noteq> None \<longrightarrow>
               systems' ! i = sys \<and>
               deref cells' (SolarSystem.FactionID sys) = deref cells (SolarSystem.FactionID sys)) \<and>
            (SolarSystem.FactionID sys = None \<longrightarrow>
               (\<forall>r \<in> set regions. Region.RegionID r \<noteq> SolarSystem.RegionID sys) \<longrightarrow>
               systems' ! i = sys) \<and>
            (\<forall>pre r post.
               SolarSystem.FactionID sys = None \<and> regions = pre @ r # post \<and>
               (\<forall>r' \<in> set post. Region.RegionID r' \<noteq> Region.RegionID r) \<and>
               Region.RegionID r = SolarSystem.RegionID sys \<longrightarrow>
               (case Region.FactionID r of
                  None \<Rightarrow> systems' ! i = sys
                | Some p \<Rightarrow>
                    (\<exists>a. systems' ! i = sys\<lparr>SolarSystem.FactionID := Some a\<rparr> \<and>
                       length cells \<le> a \<and> a < length cells' \<and> cells' ! a = cells ! p \<and>
                       (\<forall>j < length systems. j \<noteq> i \<longrightarrow>
                          SolarSystem.FactionID (systems' ! j) \<noteq> Some a) \<and>
                       (\<forall>r' \<in> set regions. Region.FactionID r' \<noteq> Some a) \<and>
                       (\<forall>v. (\<forall>j < length systems. j \<noteq> i \<longrightarrow>
                               deref (cells'[a := v]) (SolarSystem.FactionID (systems' ! j)) =
                               deref cells' (SolarSystem.FactionID (systems' ! j))) \<and>
                            (\<forall>r' \<in> set regions.
                               deref (cells'[a := v]) (Region.FactionID r') =
                               deref cells' (Region.FactionID r'))))))"
proof -
  define rf where "rf = regionFactions_of regions"
  define cells' where "cells' = fst (InheritFactionIDs cells systems regions)"
  define systems' where "systems' = snd (InheritFactionIDs cells systems regions)"
  define sys where "sys = systems ! i"
  define cnt where "cnt k = length (filter (inherits rf) (take k systems))" for k
  note res1 = InheritFactionIDs_result(1)[OF vr, where systems = systems,
      folded rf_def cells'_def]
  note res2 = InheritFactionIDs_result(2)[OF vr, where systems = systems,
      folded rf_def systems'_def]
  have c': "cells' = cells @ map (\<lambda>s. cells ! region_ptr rf s) (filter (inherits rf) systems)"
    using res1 .
  have nth: "systems' ! j =
      (if inherits rf (systems ! j)
       then (systems ! j)\<lparr>SolarSystem.FactionID := Some (length cells + cnt j)\<rparr>
       else systems ! j)" if "j < length systems" for j
    unfolding cnt_def using res2[OF that] .
  have len: "length systems' = length systems"
    unfolding systems'_def InheritFactionIDs_def by (rule inherit_loop_length)
  have pre: "take (length cells) cells' = cells" unfolding c' by simp
  have own: "systems' ! i = sys \<and>
      deref cells' (SolarSystem.FactionID sys) = deref cells (SolarSystem.FactionID sys)"
    if has: "SolarSystem.FactionID sys \<noteq> None"
  proof -
    have "\<not> inherits rf (systems ! i)" using has by (simp add: inherits_def sys_def)
    then have a: "systems' ! i = sys" using nth[OF i] by (simp add: sys_def)
    obtain p where p: "SolarSystem.FactionID sys = Some p" using has by auto
    have "p < length cells" using vs i p unfolding sys_def by (metis nth_mem)
    then have "cells' ! p = cells ! p" unfolding c' by (simp add: nth_append)
    then show ?thesis using a p by (simp add: deref_def)
  qed
  have noreg: "systems' ! i = sys"
    if "\<forall>r \<in> set regions. Region.RegionID r \<noteq> SolarSystem.RegionID sys"
  proof -
    have "rf (SolarSystem.RegionID sys) = None"
      unfolding rf_def using that by (rule regionFactions_of_none)
    then have "\<not> inherits rf (systems ! i)" by (simp add: inherits_def sys_def)
    then show ?thesis using nth[OF i] by (simp add: sys_def)
  qed
  have old_ptr_sys: "SolarSystem.FactionID (systems' ! j) \<noteq> Some a"
    if j: "j < length systems" and ni: "\<not> inherits rf (systems ! j)" and a: "length cells \<le> a"
    for j a
  proof -
    have e: "systems' ! j = systems ! j" using nth[OF j] ni by simp
    show ?thesis
    proof
      assume "SolarSystem.FactionID (systems' ! j) = Some a"
      then have "SolarSystem.FactionID (systems ! j) = Some a" using e by simp
      then have "a < length cells" using vs j by (metis nth_mem)
      then show False using a by simp
    qed
  qed
  have reg: "case Region.FactionID r of
        None \<Rightarrow> systems' ! i = sys
      | Some p \<Rightarrow>
          (\<exists>a. systems' ! i = sys\<lparr>SolarSystem.FactionID := Some a\<rparr> \<and>
             length cells \<le> a \<and> a < length cells' \<and> cells' ! a = cells ! p \<and>
             (\<forall>j < length systems. j \<noteq> i \<longrightarrow>
                SolarSystem.FactionID (systems' ! j) \<noteq> Some a) \<and>
             (\<forall>r' \<in> set regions. Region.FactionID r' \<noteq> Some a) \<and>
             (\<forall>v. (\<forall>j < length systems. j \<noteq> i \<longrightarrow>
                     deref (cells'[a := v]) (SolarSystem.FactionID (systems' ! j)) =
                     deref cells' (SolarSystem.FactionID (systems' ! j))) \<and>
                  (\<forall>r' \<in> set regions.
                     deref (cells'[a := v]) (Region.FactionID r') =
                     deref cells' (Region.FactionID r'))))"
    if nil: "SolarSystem.FactionID sys = None" and split: "regions = pre @ r # post"
      and last: "\<forall>r' \<in> set post. Region.RegionID r' \<noteq> Region.RegionID r"
      and rid: "Region.RegionID r = SolarSystem.RegionID sys"
    for pre r post
  proof (cases "Region.FactionID r")
    case None
    have "rf (SolarSystem.RegionID sys) = Some None"
      unfolding rf_def using regionFactions_of_last[OF split last] rid None by simp
    then have "\<not> inherits rf (systems ! i)" by (simp add: inherits_def sys_def)
    then have "systems' ! i = sys" using nth[OF i] by (simp add: sys_def)
    then show ?thesis using None by simp
  next
    case (Some p)
    have rfp: "rf (SolarSystem.RegionID sys) = Some (Some p)"
      unfolding rf_def using regionFactions_of_last[OF split last] rid Some by simp
    then have inh: "inherits rf (systems ! i)" using nil by (simp add: inherits_def sys_def)
    have rp: "region_ptr rf (systems ! i) = p" using rfp by (simp add: region_ptr_def sys_def)
    define a where "a = length cells + cnt i"
    have s1: "systems' ! i = sys\<lparr>SolarSystem.FactionID := Some a\<rparr>"
      using nth[OF i] inh by (simp add: sys_def a_def)
    have s2: "length cells \<le> a" by (simp add: a_def)
    have cl: "cnt i < length (filter (inherits rf) systems)"
      unfolding cnt_def using i inh by (rule filter_nth_count(2))
    have s3: "a < length cells'" unfolding c' a_def using cl by simp
    have "cells' ! a = map (\<lambda>s. cells ! region_ptr rf s) (filter (inherits rf) systems) ! cnt i"
      unfolding c' a_def by (simp add: nth_append)
    also have "\<dots> = cells ! region_ptr rf (filter (inherits rf) systems ! cnt i)"
      using cl by simp
    also have "filter (inherits rf) systems ! cnt i = systems ! i"
      unfolding cnt_def using i inh by (rule filter_nth_count(1))
    finally have s4: "cells' ! a = cells ! p" using rp by simp
    have s5: "SolarSystem.FactionID (systems' ! j) \<noteq> Some a"
      if j: "j < length systems" and ji: "j \<noteq> i" for j
    proof (cases "inherits rf (systems ! j)")
      case True
      have "cnt j \<noteq> cnt i"
        unfolding cnt_def using ji j i True inh by (rule filter_count_neq)
      then show ?thesis using nth[OF j] True by (simp add: a_def)
    next
      case False
      show ?thesis using j False s2 by (rule old_ptr_sys)
    qed
    have s6: "Region.FactionID r' \<noteq> Some a" if "r' \<in> set regions" for r'
    proof
      assume "Region.FactionID r' = Some a"
      then have "a < length cells" using vr that by blast
      then show False using s2 by simp
    qed
    have s7: "deref (cells'[a := v]) q = deref cells' q" if "q \<noteq> Some a" for q v
      using that by (cases q) (simp_all add: deref_def)
    show ?thesis
      unfolding Some option.case
      using s1 s2 s3 s4 s5 s6 s7 by blast
  qed
  show ?thesis
    unfolding Let_def cells'_def[symmetric] systems'_def[symmetric] sys_def[symmetric]
    using len pre own noreg reg by blast
qed


text \<open>
  The scenario of the repository's test \<^verbatim>\<open>TestInheritFactionIDs_NoPointerAliasing\<close>, with a
  region without faction added: cell \<open>0\<close> holds the faction of region 1, cell \<open>1\<close> the own
  faction of the second system; the first system inherits.
\<close>

theorem InheritFactionIDs_copy_witness:
  "(let cells = [500001, 500003];
        r1 = Region_zero\<lparr>Region.RegionID := 1, Region.FactionID := Some 0\<rparr>;
        r3 = Region_zero\<lparr>Region.RegionID := 3\<rparr>;
        regions = [r1, r3];
        systems = [SolarSystem_zero\<lparr>SolarSystem.SolarSystemID := 101, SolarSystem.RegionID := 1\<rparr>,
                   SolarSystem_zero\<lparr>SolarSystem.SolarSystemID := 102, SolarSystem.RegionID := 1,
                      SolarSystem.FactionID := Some 1\<rparr>,
                   SolarSystem_zero\<lparr>SolarSystem.SolarSystemID := 103, SolarSystem.RegionID := 1\<rparr>,
                   SolarSystem_zero\<lparr>SolarSystem.SolarSystemID := 301, SolarSystem.RegionID := 3\<rparr>];
        cells' = fst (InheritFactionIDs cells systems regions);
        systems' = snd (InheritFactionIDs cells systems regions)
    in (\<forall>s \<in> set systems. \<forall>p. SolarSystem.FactionID s = Some p \<longrightarrow> p < length cells) \<and>
       (\<forall>r \<in> set regions. \<forall>p. Region.FactionID r = Some p \<longrightarrow> p < length cells) \<and>
       0 < length systems \<and>
       SolarSystem.FactionID (systems ! 0) = None \<and> regions = [] @ r1 # [r3] \<and>
       (\<forall>r' \<in> set [r3]. Region.RegionID r' \<noteq> Region.RegionID r1) \<and>
       Region.RegionID r1 = SolarSystem.RegionID (systems ! 0) \<and>
       Region.FactionID r1 = Some 0 \<and>
       length systems' = length systems \<and> take (length cells) cells' = cells \<and>
       (\<exists>a. systems' ! 0 = (systems ! 0)\<lparr>SolarSystem.FactionID := Some a\<rparr> \<and>
            length cells \<le> a \<and> a < length cells' \<and> cells' ! a = cells ! 0 \<and>
            (\<forall>j < length systems. j \<noteq> 0 \<longrightarrow> SolarSystem.FactionID (systems' ! j) \<noteq> Some a) \<and>
            (\<forall>r' \<in> set regions. Region.FactionID r' \<noteq> Some a) \<and>
            (\<forall>v. (\<forall>j < length systems. j \<noteq> 0 \<longrightarrow>
                    deref (cells'[a := v]) (SolarSystem.FactionID (systems' ! j)) =
                    deref cells' (SolarSystem.FactionID (systems' ! j))) \<and>
                 (\<forall>r' \<in> set regions.
                    deref (cells'[a := v]) (Region.FactionID r') =
                    deref cells' (Region.FactionID r')))))"
proof -
  define cells :: "int64 list" where "cells = [500001, 500003]"
  define r1 where "r1 = Region_zero\<lparr>Region.RegionID := 1, Region.FactionID := Some 0\<rparr>"
  define r3 where "r3 = Region_zero\<lparr>Region.RegionID := 3\<rparr>"
  define regions where "regions = [r1, r3]"
  define systems where
    "systems = [SolarSystem_zero\<lparr>SolarSystem.SolarSystemID := 101, SolarSystem.RegionID := 1\<rparr>,
                   SolarSystem_zero\<lparr>SolarSystem.SolarSystemID := 102, SolarSystem.RegionID := 1,
                      SolarSystem.FactionID := Some 1\<rparr>,
                   SolarSystem_zero\<lparr>SolarSystem.SolarSystemID := 103, SolarSystem.RegionID := 1\<rparr>,
                   SolarSystem_zero\<lparr>SolarSystem.SolarSystemID := 301, SolarSystem.RegionID := 3\<rparr>]"
  have h1: "\<forall>s \<in> set systems. \<forall>p. SolarSystem.FactionID s = Some p \<longrightarrow> p < length cells"
    by (simp add: systems_def cells_def SolarSystem_zero_def)
  have h2: "\<forall>r \<in> set regions. \<forall>p. Region.FactionID r = Some p \<longrightarrow> p < length cells"
    by (simp add: regions_def r1_def r3_def cells_def Region_zero_def)
  have h3: "0 < length systems" by (simp add: systems_def)
  have a1: "SolarSystem.FactionID (systems ! 0) = None"
    by (simp add: systems_def SolarSystem_zero_def)
  have a2: "regions = [] @ r1 # [r3]" by (simp add: regions_def)
  have a3: "\<forall>r' \<in> set [r3]. Region.RegionID r' \<noteq> Region.RegionID r1"
    by (simp add: r1_def r3_def Region_zero_def)
  have a4: "Region.RegionID r1 = SolarSystem.RegionID (systems ! 0)"
    by (simp add: r1_def systems_def Region_zero_def SolarSystem_zero_def)
  have a5: "Region.FactionID r1 = Some 0" by (simp add: r1_def)
  note t = InheritFactionIDs_copy[OF h1 h2 h3, unfolded Let_def]
  have t1: "length (snd (InheritFactionIDs cells systems regions)) = length systems"
    using t by blast
  have t2: "take (length cells) (fst (InheritFactionIDs cells systems regions)) = cells"
    using t by blast
  have t5: "case Region.FactionID r1 of
      None \<Rightarrow> snd (InheritFactionIDs cells systems regions) ! 0 = systems ! 0
    | Some p \<Rightarrow>
        (\<exists>a. snd (InheritFactionIDs cells systems regions) ! 0 =
               (systems ! 0)\<lparr>SolarSystem.FactionID := Some a\<rparr> \<and>
           length cells \<le> a \<and> a < length (fst (InheritFactionIDs cells systems regions)) \<and>
           fst (InheritFactionIDs cells systems regions) ! a = cells ! p \<and>
           (\<forall>j < length systems. j \<noteq> 0 \<longrightarrow>
              SolarSystem.FactionID (snd (InheritFactionIDs cells systems regions) ! j) \<noteq> Some a) \<and>
           (\<forall>r' \<in> set regions. Region.FactionID r' \<noteq> Some a) \<and>
           (\<forall>v. (\<forall>j < length systems. j \<noteq> 0 \<longrightarrow>
                   deref ((fst (InheritFactionIDs cells systems regions))[a := v])
                     (SolarSystem.FactionID (snd (InheritFactionIDs cells systems regions) ! j)) =
                   deref (fst (InheritFactionIDs cells systems regions))
                     (SolarSystem.FactionID (snd (InheritFactionIDs cells systems regions) ! j))) \<and>
                (\<forall>r' \<in> set regions.
                   deref ((fst (InheritFactionIDs cells systems regions))[a := v])
                     (Region.FactionID r') =
                   deref (fst (InheritFactionIDs cells systems regions)) (Region.FactionID r'))))"
    using t a1 a2 a3 a4 by blast
  show ?thesis
    unfolding Let_def cells_def[symmetric] r1_def[symmetric] r3_def[symmetric]
      regions_def[symmetric] systems_def[symmetric]
    using h1 h2 h3 a1 a2 a3 a4 a5 t1 t2 t5 unfolding a5 option.case by blast
qed

section \<open>Category filter\<close>

text \<open>
  \<^verbatim>\<open>getLocalizedName\<close>, \<^verbatim>\<open>transformShipGroups\<close> and \<^verbatim>\<open>transformShipTypes\<close> of the
  transformer. The third argument of \<^verbatim>\<open>getLocalizedName\<close> is used only in the warning that
  verbose mode prints, and printing is not modelled. A \<^verbatim>\<open>map[int64]bool\<close> yields \<^verbatim>\<open>false\<close>
  for a key that was never stored. Fields that a composite literal does not mention hold
  their zero value.
\<close>

definition SDEType_zero :: SDEType where
  "SDEType_zero = \<lparr>SDEType.GroupID = 0, SDEType.Name = Map.empty,
     SDEType.Description = Map.empty, SDEType.Mass = 0, SDEType.Volume = 0,
     SDEType.Capacity = 0, SDEType.PortionSize = 0, SDEType.Published = False,
     SDEType.MarketGroupID = 0, SDEType.GraphicID = 0, SDEType.IconID = 0,
     SDEType.SoundID = 0, SDEType.BasePrice = 0, SDEType.RaceID = 0, SofFactionName = []\<rparr>"

definition SDEGroup_zero :: SDEGroup where
  "SDEGroup_zero = \<lparr>SDEGroup.CategoryID = 0, SDEGroup.Name = Map.empty,
     SDEGroup.Published = False, SDEGroup.Anchorable = False, SDEGroup.Anchored = False,
     SDEGroup.FittableNonSingleton = False, SDEGroup.UseBasePrice = False,
     SDEGroup.IconID = 0\<rparr>"

definition ShipCategoryID :: int64 where
  "ShipCategoryID = 6"

definition getLocalizedName :: "(string \<rightharpoonup> string) \<Rightarrow> string \<Rightarrow> string" where
  "getLocalizedName names lang = (case names lang of Some name \<Rightarrow> name | None \<Rightarrow> [])"

definition transformShipGroups :: "(int64, SDEGroup) gomap \<Rightarrow> InvGroup list" where
  "transformShipGroups groups =
    (let result = fold (\<lambda>(groupID, sdeGroup) result.
           if SDEGroup.CategoryID sdeGroup \<noteq> ShipCategoryID then result
           else result @
             [\<lparr>InvGroup.GroupID = groupID,
               InvGroup.CategoryID = SDEGroup.CategoryID sdeGroup,
               GroupName = getLocalizedName (SDEGroup.Name sdeGroup) ''en'',
               InvGroup.IconID = None, InvGroup.UseBasePrice = False,
               InvGroup.Anchored = False, InvGroup.Anchorable = False,
               InvGroup.FittableNonSingleton = False, InvGroup.Published = False\<rparr>])
         groups []
     in sort_Slice (\<lambda>a b. InvGroup.GroupID a < InvGroup.GroupID b) result)"

definition transformShipTypes ::
    "(int64, SDEType) gomap \<Rightarrow> (int64, SDEGroup) gomap \<Rightarrow> InvType list" where
  "transformShipTypes types groups =
    (let shipGroupIDs = fold (\<lambda>(groupID, group) m.
           if SDEGroup.CategoryID group = ShipCategoryID then m(groupID := True) else m)
         groups (\<lambda>_. False);
         result = fold (\<lambda>(typeID, sdeType) result.
           if \<not> shipGroupIDs (SDEType.GroupID sdeType) then result
           else result @
             [\<lparr>InvType.TypeID = typeID,
               InvType.GroupID = SDEType.GroupID sdeType,
               TypeName = getLocalizedName (SDEType.Name sdeType) ''en'',
               InvType.Description = [],
               InvType.Mass = SDEType.Mass sdeType,
               InvType.Volume = SDEType.Volume sdeType,
               InvType.Capacity = SDEType.Capacity sdeType,
               InvType.PortionSize = 0, InvType.RaceID = None, InvType.BasePrice = 0,
               InvType.Published = SDEType.Published sdeType,
               InvType.MarketGroupID = None, InvType.IconID = None,
               InvType.SoundID = None, InvType.GraphicID = None\<rparr>])
         types []
     in sort_Slice (\<lambda>a b. InvType.TypeID a < InvType.TypeID b) result)"

lemma fold_append_filter:
  "fold (\<lambda>(k, v) acc. if \<not> P k v then acc else acc @ [f k v]) xs acc =
     acc @ map (\<lambda>(k, v). f k v) (filter (\<lambda>(k, v). P k v) xs)"
  by (induction xs arbitrary: acc) auto

lemma fold_shipGroupIDs:
  "fold (\<lambda>(groupID, group) m.
      if SDEGroup.CategoryID group = ShipCategoryID then m(groupID := True) else m) groups m k
   \<longleftrightarrow> m k \<or> (\<exists>g. (k, g) \<in> set groups \<and> SDEGroup.CategoryID g = ShipCategoryID)"
  by (induction groups arbitrary: m) (auto split: if_splits)

text \<open>The record that each of the two functions builds from an entry of the map.\<close>

definition ship_group_of :: "int64 \<times> SDEGroup \<Rightarrow> InvGroup" where
  "ship_group_of = (\<lambda>(groupID, sdeGroup).
     \<lparr>InvGroup.GroupID = groupID,
      InvGroup.CategoryID = SDEGroup.CategoryID sdeGroup,
      GroupName = getLocalizedName (SDEGroup.Name sdeGroup) ''en'',
      InvGroup.IconID = None, InvGroup.UseBasePrice = False,
      InvGroup.Anchored = False, InvGroup.Anchorable = False,
      InvGroup.FittableNonSingleton = False, InvGroup.Published = False\<rparr>)"

definition ship_type_of :: "int64 \<times> SDEType \<Rightarrow> InvType" where
  "ship_type_of = (\<lambda>(typeID, sdeType).
     \<lparr>InvType.TypeID = typeID,
      InvType.GroupID = SDEType.GroupID sdeType,
      TypeName = getLocalizedName (SDEType.Name sdeType) ''en'',
      InvType.Description = [],
      InvType.Mass = SDEType.Mass sdeType,
      InvType.Volume = SDEType.Volume sdeType,
      InvType.Capacity = SDEType.Capacity sdeType,
      InvType.PortionSize = 0, InvType.RaceID = None, InvType.BasePrice = 0,
      InvType.Published = SDEType.Published sdeType,
      InvType.MarketGroupID = None, InvType.IconID = None,
      InvType.SoundID = None, InvType.GraphicID = None\<rparr>)"

lemma transformShipGroups_eq:
  "transformShipGroups groups =
     sort_Slice (\<lambda>a b. InvGroup.GroupID a < InvGroup.GroupID b)
       (map ship_group_of (filter (\<lambda>(groupID, g). SDEGroup.CategoryID g = ShipCategoryID) groups))"
  unfolding transformShipGroups_def Let_def ship_group_of_def
  by (simp only: fold_append_filter append_Nil)

lemma transformShipTypes_eq:
  "transformShipTypes types groups =
     sort_Slice (\<lambda>a b. InvType.TypeID a < InvType.TypeID b)
       (map ship_type_of (filter (\<lambda>(typeID, t).
          \<exists>g. (SDEType.GroupID t, g) \<in> set groups \<and> SDEGroup.CategoryID g = ShipCategoryID) types))"
proof -
  define ids where "ids = fold (\<lambda>(groupID, group) m.
           if SDEGroup.CategoryID group = ShipCategoryID then m(groupID := True) else m)
         groups (\<lambda>_. False)"
  have ids: "ids = (\<lambda>k. \<exists>g. (k, g) \<in> set groups \<and> SDEGroup.CategoryID g = ShipCategoryID)"
    unfolding ids_def by (rule ext) (simp add: fold_shipGroupIDs)
  show ?thesis
    unfolding transformShipTypes_def Let_def ids_def[symmetric] ship_type_of_def
    by (simp only: fold_append_filter append_Nil ids)
qed


lemma set_transformShipGroups:
  "set (transformShipGroups groups) =
     ship_group_of ` {(groupID, g). (groupID, g) \<in> set groups \<and> SDEGroup.CategoryID g = ShipCategoryID}"
  by (auto simp: transformShipGroups_eq set_sort_Slice)

lemma ship_group_ids:
  "InvGroup.GroupID ` set (transformShipGroups groups) =
     {groupID. \<exists>g. (groupID, g) \<in> set groups \<and> SDEGroup.CategoryID g = ShipCategoryID}"
  by (force simp: set_transformShipGroups ship_group_of_def)

text \<open>
  \<^bold>\<open>C5.\<close> Ship filtering is join-correct. The output groups are exactly the input groups
  whose \<open>CategoryID\<close> is \<open>6\<close>, one record for each, ordered by \<open>GroupID\<close>; the output types
  are exactly the input types whose \<open>GroupID\<close> is the \<open>GroupID\<close> of an output group, one
  record for each, ordered by \<open>TypeID\<close>; the display name of a record is the entry of its
  name map under \<open>''en''\<close>, and the empty string when there is none; every output type
  comes from an input type whose group is an input group of category \<open>6\<close>.
\<close>

theorem ship_filter_join_correct:
  "sorted (map InvGroup.GroupID (transformShipGroups groups)) \<and>
   mset (transformShipGroups groups) =
     mset (map ship_group_of (filter (\<lambda>(groupID, g). SDEGroup.CategoryID g = 6) groups)) \<and>
   sorted (map InvType.TypeID (transformShipTypes types groups)) \<and>
   mset (transformShipTypes types groups) =
     mset (map ship_type_of (filter (\<lambda>(typeID, t).
        SDEType.GroupID t \<in> InvGroup.GroupID ` set (transformShipGroups groups)) types)) \<and>
   (\<forall>t \<in> set (transformShipTypes types groups).
      \<exists>typeID sdeType g. (typeID, sdeType) \<in> set types \<and> t = ship_type_of (typeID, sdeType) \<and>
         (SDEType.GroupID sdeType, g) \<in> set groups \<and> SDEGroup.CategoryID g = 6) \<and>
   (\<forall>groupID g. InvGroup.GroupID (ship_group_of (groupID, g)) = groupID \<and>
      InvGroup.CategoryID (ship_group_of (groupID, g)) = SDEGroup.CategoryID g \<and>
      GroupName (ship_group_of (groupID, g)) =
        (case SDEGroup.Name g ''en'' of Some name \<Rightarrow> name | None \<Rightarrow> [])) \<and>
   (\<forall>typeID t. InvType.TypeID (ship_type_of (typeID, t)) = typeID \<and>
      InvType.GroupID (ship_type_of (typeID, t)) = SDEType.GroupID t \<and>
      TypeName (ship_type_of (typeID, t)) =
        (case SDEType.Name t ''en'' of Some name \<Rightarrow> name | None \<Rightarrow> []))"
proof -
  have g1: "sorted (map InvGroup.GroupID (transformShipGroups groups))"
    unfolding transformShipGroups_eq by (rule sorted_sort_Slice) simp
  have g2: "mset (transformShipGroups groups) =
     mset (map ship_group_of (filter (\<lambda>(groupID, g). SDEGroup.CategoryID g = 6) groups))"
    by (simp add: transformShipGroups_eq mset_sort_Slice ShipCategoryID_def)
  have t1: "sorted (map InvType.TypeID (transformShipTypes types groups))"
    unfolding transformShipTypes_eq by (rule sorted_sort_Slice) simp
  have t2: "mset (transformShipTypes types groups) =
     mset (map ship_type_of (filter (\<lambda>(typeID, t).
        SDEType.GroupID t \<in> InvGroup.GroupID ` set (transformShipGroups groups)) types))"
    by (simp add: transformShipTypes_eq mset_sort_Slice ship_group_ids)
  have t3: "\<forall>t \<in> set (transformShipTypes types groups).
      \<exists>typeID sdeType g. (typeID, sdeType) \<in> set types \<and> t = ship_type_of (typeID, sdeType) \<and>
         (SDEType.GroupID sdeType, g) \<in> set groups \<and> SDEGroup.CategoryID g = 6"
    by (auto simp: transformShipTypes_eq set_sort_Slice ShipCategoryID_def)
  have n1: "\<forall>groupID g. InvGroup.GroupID (ship_group_of (groupID, g)) = groupID \<and>
      InvGroup.CategoryID (ship_group_of (groupID, g)) = SDEGroup.CategoryID g \<and>
      GroupName (ship_group_of (groupID, g)) =
        (case SDEGroup.Name g ''en'' of Some name \<Rightarrow> name | None \<Rightarrow> [])"
    by (simp add: ship_group_of_def getLocalizedName_def)
  have n2: "\<forall>typeID t. InvType.TypeID (ship_type_of (typeID, t)) = typeID \<and>
      InvType.GroupID (ship_type_of (typeID, t)) = SDEType.GroupID t \<and>
      TypeName (ship_type_of (typeID, t)) =
        (case SDEType.Name t ''en'' of Some name \<Rightarrow> name | None \<Rightarrow> [])"
    by (simp add: ship_type_of_def getLocalizedName_def)
  show ?thesis using g1 g2 t1 t2 t3 n1 n2 by blast
qed

text \<open>
  Two ship types of group 25 (one without an English name) and a drone of group 18, given
  in descending order of their IDs.
\<close>

theorem ship_filter_join_correct_witness:
  "(let groups = [(25, SDEGroup_zero\<lparr>SDEGroup.CategoryID := 6,
                        SDEGroup.Name := [''en'' \<mapsto> ''Frigate'']\<rparr>),
                  (18, SDEGroup_zero\<lparr>SDEGroup.CategoryID := 7,
                        SDEGroup.Name := [''en'' \<mapsto> ''Drone'']\<rparr>)];
        types = [(2456, SDEType_zero\<lparr>SDEType.GroupID := 18,
                        SDEType.Name := [''en'' \<mapsto> ''Hobgoblin I'']\<rparr>),
                 (588, SDEType_zero\<lparr>SDEType.GroupID := 25,
                        SDEType.Name := [''de'' \<mapsto> ''Slasher'']\<rparr>),
                 (587, SDEType_zero\<lparr>SDEType.GroupID := 25,
                        SDEType.Name := [''en'' \<mapsto> ''Rifter'']\<rparr>)]
    in map InvGroup.GroupID (transformShipGroups groups) = [25] \<and>
       map GroupName (transformShipGroups groups) = [''Frigate''] \<and>
       map InvType.TypeID (transformShipTypes types groups) = [587, 588] \<and>
       map TypeName (transformShipTypes types groups) = [''Rifter'', []] \<and>
       (\<forall>t \<in> set (transformShipTypes types groups).
          \<exists>typeID sdeType g. (typeID, sdeType) \<in> set types \<and> t = ship_type_of (typeID, sdeType) \<and>
             (SDEType.GroupID sdeType, g) \<in> set groups \<and> SDEGroup.CategoryID g = 6))"
proof -
  define groups where "groups = [(25::int64, SDEGroup_zero\<lparr>SDEGroup.CategoryID := 6,
                        SDEGroup.Name := [''en'' \<mapsto> ''Frigate'']\<rparr>),
                  (18, SDEGroup_zero\<lparr>SDEGroup.CategoryID := 7,
                        SDEGroup.Name := [''en'' \<mapsto> ''Drone'']\<rparr>)]"
  define types where "types = [(2456::int64, SDEType_zero\<lparr>SDEType.GroupID := 18,
                        SDEType.Name := [''en'' \<mapsto> ''Hobgoblin I'']\<rparr>),
                 (588, SDEType_zero\<lparr>SDEType.GroupID := 25,
                        SDEType.Name := [''de'' \<mapsto> ''Slasher'']\<rparr>),
                 (587, SDEType_zero\<lparr>SDEType.GroupID := 25,
                        SDEType.Name := [''en'' \<mapsto> ''Rifter'']\<rparr>)]"
  have g: "transformShipGroups groups = [ship_group_of (groups ! 0)]"
    by (simp add: transformShipGroups_eq groups_def ShipCategoryID_def sort_Slice_def)
  have t: "transformShipTypes types groups = [ship_type_of (types ! 2), ship_type_of (types ! 1)]"
    by (simp add: transformShipTypes_eq groups_def types_def ShipCategoryID_def sort_Slice_def
        ship_type_of_def SDEType_zero_def)
  have a: "map InvGroup.GroupID (transformShipGroups groups) = [25]"
    "map GroupName (transformShipGroups groups) = [''Frigate'']"
    unfolding g by (simp_all add: groups_def ship_group_of_def getLocalizedName_def)
  have b: "map InvType.TypeID (transformShipTypes types groups) = [587, 588]"
    "map TypeName (transformShipTypes types groups) = [''Rifter'', []]"
    unfolding t by (simp_all add: types_def ship_type_of_def getLocalizedName_def)
  show ?thesis
    unfolding Let_def groups_def[symmetric] types_def[symmetric]
    using ship_filter_join_correct[of groups types] a b by blast
qed

section \<open>Jump enricher\<close>

text \<open>
  \<^verbatim>\<open>transformSystemJumps(jumps, systems)\<close> reads both slices and returns a slice that it
  builds with \<^verbatim>\<open>append\<close> and then orders; it is modelled as the function from the contents
  of the two slices to the contents of the result. The warnings of verbose mode are not
  modelled.
\<close>

definition transformSystemJumps :: "SystemJump list \<Rightarrow> SolarSystem list \<Rightarrow> SystemJump list" where
  "transformSystemJumps jumps systems =
    (let systemLookup = fold (\<lambda>sys m. m(SolarSystem.SolarSystemID sys \<mapsto> sys)) systems Map.empty;
         result = fold (\<lambda>jump result.
           let fromLookup = systemLookup (FromSolarSystemID jump);
               toLookup = systemLookup (ToSolarSystemID jump);
               enrichedJump = \<lparr>FromRegionID = 0, FromConstellationID = 0,
                  FromSolarSystemID = FromSolarSystemID jump,
                  ToSolarSystemID = ToSolarSystemID jump,
                  ToConstellationID = 0, ToRegionID = 0\<rparr>;
               enrichedJump = (case fromLookup of
                  Some fromSys \<Rightarrow> enrichedJump\<lparr>FromRegionID := SolarSystem.RegionID fromSys,
                     FromConstellationID := SolarSystem.ConstellationID fromSys\<rparr>
                | None \<Rightarrow> enrichedJump);
               enrichedJump = (case toLookup of
                  Some toSys \<Rightarrow> enrichedJump\<lparr>ToRegionID := SolarSystem.RegionID toSys,
                     ToConstellationID := SolarSystem.ConstellationID toSys\<rparr>
                | None \<Rightarrow> enrichedJump)
           in result @ [enrichedJump]) jumps []
     in sort_Slice (\<lambda>a b.
          if FromSolarSystemID a \<noteq> FromSolarSystemID b
          then FromSolarSystemID a < FromSolarSystemID b
          else ToSolarSystemID a < ToSolarSystemID b) result)"

text \<open>The record that one iteration appends, for a given lookup map.\<close>

definition enriched :: "(int64 \<rightharpoonup> SolarSystem) \<Rightarrow> SystemJump \<Rightarrow> SystemJump" where
  "enriched systemLookup jump =
     \<lparr>FromRegionID = (case systemLookup (FromSolarSystemID jump) of
          Some s \<Rightarrow> SolarSystem.RegionID s | None \<Rightarrow> 0),
      FromConstellationID = (case systemLookup (FromSolarSystemID jump) of
          Some s \<Rightarrow> SolarSystem.ConstellationID s | None \<Rightarrow> 0),
      FromSolarSystemID = FromSolarSystemID jump,
      ToSolarSystemID = ToSolarSystemID jump,
      ToConstellationID = (case systemLookup (ToSolarSystemID jump) of
          Some s \<Rightarrow> SolarSystem.ConstellationID s | None \<Rightarrow> 0),
      ToRegionID = (case systemLookup (ToSolarSystemID jump) of
          Some s \<Rightarrow> SolarSystem.RegionID s | None \<Rightarrow> 0)\<rparr>"

definition systemLookup_of :: "SolarSystem list \<Rightarrow> (int64 \<rightharpoonup> SolarSystem)" where
  "systemLookup_of systems =
     fold (\<lambda>sys m. m(SolarSystem.SolarSystemID sys \<mapsto> sys)) systems Map.empty"

lemma fold_append_map: "fold (\<lambda>x acc. acc @ [f x]) xs acc = acc @ map f xs"
  by (induction xs arbitrary: acc) auto

lemma transformSystemJumps_eq:
  "transformSystemJumps jumps systems =
     sort_Slice (\<lambda>a b.
          if FromSolarSystemID a \<noteq> FromSolarSystemID b
          then FromSolarSystemID a < FromSolarSystemID b
          else ToSolarSystemID a < ToSolarSystemID b)
       (map (enriched (systemLookup_of systems)) jumps)"
proof -
  have "(\<lambda>jump result.
           let fromLookup = systemLookup_of systems (FromSolarSystemID jump);
               toLookup = systemLookup_of systems (ToSolarSystemID jump);
               enrichedJump = \<lparr>FromRegionID = 0, FromConstellationID = 0,
                  FromSolarSystemID = FromSolarSystemID jump,
                  ToSolarSystemID = ToSolarSystemID jump,
                  ToConstellationID = 0, ToRegionID = 0\<rparr>;
               enrichedJump = (case fromLookup of
                  Some fromSys \<Rightarrow> enrichedJump\<lparr>FromRegionID := SolarSystem.RegionID fromSys,
                     FromConstellationID := SolarSystem.ConstellationID fromSys\<rparr>
                | None \<Rightarrow> enrichedJump);
               enrichedJump = (case toLookup of
                  Some toSys \<Rightarrow> enrichedJump\<lparr>ToRegionID := SolarSystem.RegionID toSys,
                     ToConstellationID := SolarSystem.ConstellationID toSys\<rparr>
                | None \<Rightarrow> enrichedJump)
           in result @ [enrichedJump]) =
        (\<lambda>jump result. result @ [enriched (systemLookup_of systems) jump])"
    by (intro ext) (simp add: enriched_def Let_def split: option.splits)
  then show ?thesis
    unfolding transformSystemJumps_def systemLookup_of_def[symmetric] Let_def
    by (simp add: fold_append_map Let_def)
qed

lemma fold_systemLookup_other:
  "k \<notin> SolarSystem.SolarSystemID ` set systems \<Longrightarrow>
   fold (\<lambda>sys m. m(SolarSystem.SolarSystemID sys \<mapsto> sys)) systems m k = m k"
  by (induction systems arbitrary: m) auto

lemma systemLookup_of_last:
  assumes "systems = pre @ s # post"
    "\<forall>s' \<in> set post. SolarSystem.SolarSystemID s' \<noteq> SolarSystem.SolarSystemID s"
  shows "systemLookup_of systems (SolarSystem.SolarSystemID s) = Some s"
proof -
  have "SolarSystem.SolarSystemID s \<notin> SolarSystem.SolarSystemID ` set post"
    using assms(2) by auto
  then show ?thesis
    unfolding systemLookup_of_def assms(1) by (simp add: fold_systemLookup_other)
qed

lemma systemLookup_of_none:
  assumes "\<forall>s \<in> set systems. SolarSystem.SolarSystemID s \<noteq> k"
  shows "systemLookup_of systems k = None"
proof -
  have "k \<notin> SolarSystem.SolarSystemID ` set systems" using assms by auto
  then show ?thesis unfolding systemLookup_of_def by (simp add: fold_systemLookup_other)
qed

lemma jump_less_key:
  "(if FromSolarSystemID a \<noteq> FromSolarSystemID b
    then FromSolarSystemID a < FromSolarSystemID b
    else ToSolarSystemID a < ToSolarSystemID b) \<longleftrightarrow>
   (FromSolarSystemID a, ToSolarSystemID a) < (FromSolarSystemID b, ToSolarSystemID b)"
  by (auto simp: less_prod_def)

lemma sorted_transformSystemJumps:
  "sorted (map (\<lambda>c. (FromSolarSystemID c, ToSolarSystemID c)) (transformSystemJumps jumps systems))"
  unfolding transformSystemJumps_eq by (rule sorted_sort_Slice) (rule jump_less_key)

text \<open>
  \<^bold>\<open>C6.\<close> Enrichment yields exactly one connection for each input record, duplicates
  included, with the record's \<open>FromSolarSystemID\<close> and \<open>ToSolarSystemID\<close>. For every
  connection \<open>c\<close> of the output and either endpoint: when a system of the collection
  carries the endpoint's ID, the \<open>RegionID\<close> and \<open>ConstellationID\<close> of that system (the
  last such system, should an ID occur twice) are on \<open>c\<close>; when no system carries it, the
  two fields of that endpoint are \<open>0\<close>. The function is total: a missing endpoint is no
  error.
\<close>

theorem transformSystemJumps_enriches:
  "length (transformSystemJumps jumps systems) = length jumps \<and>
   mset (map (\<lambda>c. (FromSolarSystemID c, ToSolarSystemID c)) (transformSystemJumps jumps systems)) =
     mset (map (\<lambda>j. (FromSolarSystemID j, ToSolarSystemID j)) jumps) \<and>
   (\<forall>c \<in> set (transformSystemJumps jumps systems).
      (\<forall>pre s post. systems = pre @ s # post \<and>
          (\<forall>s' \<in> set post. SolarSystem.SolarSystemID s' \<noteq> SolarSystem.SolarSystemID s) \<and>
          SolarSystem.SolarSystemID s = FromSolarSystemID c \<longrightarrow>
          FromRegionID c = SolarSystem.RegionID s \<and>
          FromConstellationID c = SolarSystem.ConstellationID s) \<and>
      ((\<forall>s \<in> set systems. SolarSystem.SolarSystemID s \<noteq> FromSolarSystemID c) \<longrightarrow>
          FromRegionID c = 0 \<and> FromConstellationID c = 0) \<and>
      (\<forall>pre s post. systems = pre @ s # post \<and>
          (\<forall>s' \<in> set post. SolarSystem.SolarSystemID s' \<noteq> SolarSystem.SolarSystemID s) \<and>
          SolarSystem.SolarSystemID s = ToSolarSystemID c \<longrightarrow>
          ToRegionID c = SolarSystem.RegionID s \<and>
          ToConstellationID c = SolarSystem.ConstellationID s) \<and>
      ((\<forall>s \<in> set systems. SolarSystem.SolarSystemID s \<noteq> ToSolarSystemID c) \<longrightarrow>
          ToRegionID c = 0 \<and> ToConstellationID c = 0))"
proof -
  define lk where "lk = systemLookup_of systems"
  have len: "length (transformSystemJumps jumps systems) = length jumps"
    by (simp add: transformSystemJumps_eq length_sort_Slice)
  have "mset (transformSystemJumps jumps systems) = mset (map (enriched lk) jumps)"
    by (simp add: transformSystemJumps_eq mset_sort_Slice lk_def)
  then have "mset (map (\<lambda>c. (FromSolarSystemID c, ToSolarSystemID c))
        (transformSystemJumps jumps systems)) =
      mset (map (\<lambda>c. (FromSolarSystemID c, ToSolarSystemID c)) (map (enriched lk) jumps))"
    by (metis mset_map)
  then have ms: "mset (map (\<lambda>c. (FromSolarSystemID c, ToSolarSystemID c))
        (transformSystemJumps jumps systems)) =
      mset (map (\<lambda>j. (FromSolarSystemID j, ToSolarSystemID j)) jumps)"
    by (simp add: enriched_def comp_def)
  have el: "\<exists>j \<in> set jumps. c = enriched lk j"
    if "c \<in> set (transformSystemJumps jumps systems)" for c
    using that by (auto simp: transformSystemJumps_eq set_sort_Slice lk_def)
  have found: "lk (SolarSystem.SolarSystemID s) = Some s"
    if "systems = pre @ s # post"
      "\<forall>s' \<in> set post. SolarSystem.SolarSystemID s' \<noteq> SolarSystem.SolarSystemID s"
    for pre s post
    unfolding lk_def using that by (rule systemLookup_of_last)
  have missing: "lk k = None" if "\<forall>s \<in> set systems. SolarSystem.SolarSystemID s \<noteq> k" for k
    unfolding lk_def using that by (rule systemLookup_of_none)
  have each: "(\<forall>pre s post. systems = pre @ s # post \<and>
          (\<forall>s' \<in> set post. SolarSystem.SolarSystemID s' \<noteq> SolarSystem.SolarSystemID s) \<and>
          SolarSystem.SolarSystemID s = FromSolarSystemID c \<longrightarrow>
          FromRegionID c = SolarSystem.RegionID s \<and>
          FromConstellationID c = SolarSystem.ConstellationID s) \<and>
      ((\<forall>s \<in> set systems. SolarSystem.SolarSystemID s \<noteq> FromSolarSystemID c) \<longrightarrow>
          FromRegionID c = 0 \<and> FromConstellationID c = 0) \<and>
      (\<forall>pre s post. systems = pre @ s # post \<and>
          (\<forall>s' \<in> set post. SolarSystem.SolarSystemID s' \<noteq> SolarSystem.SolarSystemID s) \<and>
          SolarSystem.SolarSystemID s = ToSolarSystemID c \<longrightarrow>
          ToRegionID c = SolarSystem.RegionID s \<and>
          ToConstellationID c = SolarSystem.ConstellationID s) \<and>
      ((\<forall>s \<in> set systems. SolarSystem.SolarSystemID s \<noteq> ToSolarSystemID c) \<longrightarrow>
          ToRegionID c = 0 \<and> ToConstellationID c = 0)"
    if c: "c \<in> set (transformSystemJumps jumps systems)" for c
  proof -
    obtain j where j: "c = enriched lk j" using el[OF c] by blast
    have f: "FromSolarSystemID c = FromSolarSystemID j" "ToSolarSystemID c = ToSolarSystemID j"
      by (simp_all add: j enriched_def)
    have 1: "FromRegionID c = SolarSystem.RegionID s \<and>
          FromConstellationID c = SolarSystem.ConstellationID s"
      if "systems = pre @ s # post"
        "\<forall>s' \<in> set post. SolarSystem.SolarSystemID s' \<noteq> SolarSystem.SolarSystemID s"
        "SolarSystem.SolarSystemID s = FromSolarSystemID c" for pre s post
      using found[OF that(1,2)] that(3) f by (simp add: j enriched_def)
    have 2: "FromRegionID c = 0 \<and> FromConstellationID c = 0"
      if "\<forall>s \<in> set systems. SolarSystem.SolarSystemID s \<noteq> FromSolarSystemID c"
      using missing[OF that] f by (simp add: j enriched_def)
    have 3: "ToRegionID c = SolarSystem.RegionID s \<and>
          ToConstellationID c = SolarSystem.ConstellationID s"
      if "systems = pre @ s # post"
        "\<forall>s' \<in> set post. SolarSystem.SolarSystemID s' \<noteq> SolarSystem.SolarSystemID s"
        "SolarSystem.SolarSystemID s = ToSolarSystemID c" for pre s post
      using found[OF that(1,2)] that(3) f by (simp add: j enriched_def)
    have 4: "ToRegionID c = 0 \<and> ToConstellationID c = 0"
      if "\<forall>s \<in> set systems. SolarSystem.SolarSystemID s \<noteq> ToSolarSystemID c"
      using missing[OF that] f by (simp add: j enriched_def)
    show ?thesis using 1 2 3 4 by blast
  qed
  show ?thesis using len ms each by blast
qed


text \<open>
  Two systems joined in both directions, one direction given twice, and a connection to
  a system that the collection does not contain.
\<close>

theorem transformSystemJumps_enriches_witness:
  "(let sA = SolarSystem_zero\<lparr>SolarSystem.SolarSystemID := 30000142,
               SolarSystem.RegionID := 10000002, SolarSystem.ConstellationID := 20000020\<rparr>;
        sB = SolarSystem_zero\<lparr>SolarSystem.SolarSystemID := 30000001,
               SolarSystem.RegionID := 10000001, SolarSystem.ConstellationID := 20000001\<rparr>;
        systems = [sB, sA];
        jump = (\<lambda>f t. \<lparr>FromRegionID = 0, FromConstellationID = 0, FromSolarSystemID = f,
                  ToSolarSystemID = t, ToConstellationID = 0, ToRegionID = 0\<rparr>);
        jumps = [jump 30000142 30000001, jump 30000001 30000142, jump 30000142 99,
                 jump 30000142 30000001];
        out = transformSystemJumps jumps systems
    in length out = length jumps \<and>
       map (\<lambda>c. (FromSolarSystemID c, ToSolarSystemID c)) out =
         [(30000001, 30000142), (30000142, 99), (30000142, 30000001), (30000142, 30000001)] \<and>
       out ! 1 \<in> set out \<and> systems = [sB] @ sA # [] \<and>
       (\<forall>s' \<in> set []. SolarSystem.SolarSystemID s' \<noteq> SolarSystem.SolarSystemID sA) \<and>
       SolarSystem.SolarSystemID sA = FromSolarSystemID (out ! 1) \<and>
       (\<forall>s \<in> set systems. SolarSystem.SolarSystemID s \<noteq> ToSolarSystemID (out ! 1)) \<and>
       FromRegionID (out ! 1) = SolarSystem.RegionID sA \<and>
       FromConstellationID (out ! 1) = SolarSystem.ConstellationID sA \<and>
       ToRegionID (out ! 1) = 0 \<and> ToConstellationID (out ! 1) = 0)"
proof -
  define sA where "sA = SolarSystem_zero\<lparr>SolarSystem.SolarSystemID := 30000142,
               SolarSystem.RegionID := 10000002, SolarSystem.ConstellationID := 20000020\<rparr>"
  define sB where "sB = SolarSystem_zero\<lparr>SolarSystem.SolarSystemID := 30000001,
               SolarSystem.RegionID := 10000001, SolarSystem.ConstellationID := 20000001\<rparr>"
  define systems where "systems = [sB, sA]"
  define jump where "jump = (\<lambda>f t. \<lparr>FromRegionID = 0, FromConstellationID = 0,
                  FromSolarSystemID = f,
                  ToSolarSystemID = t, ToConstellationID = 0, ToRegionID = (0::int64)\<rparr>)"
  define jumps where "jumps = [jump 30000142 30000001, jump 30000001 30000142, jump 30000142 99,
                 jump 30000142 30000001]"
  define out where "out = transformSystemJumps jumps systems"
  note th = transformSystemJumps_enriches[of jumps systems, folded out_def]
  have ids: "SolarSystem.SolarSystemID sA = 30000142" "SolarSystem.SolarSystemID sB = 30000001"
    by (simp_all add: sA_def sB_def)
  have keys: "map (\<lambda>c. (FromSolarSystemID c, ToSolarSystemID c)) out =
         [(30000001, 30000142), (30000142, 99), (30000142, 30000001), (30000142, 30000001)]"
    unfolding out_def transformSystemJumps_eq
    by (simp add: jumps_def jump_def sort_Slice_def enriched_def)
  have len: "length out = length jumps" using th by blast
  have l4: "length out = 4" using len by (simp add: jumps_def)
  have mem: "out ! 1 \<in> set out" using l4 by simp
  have k1: "(FromSolarSystemID (out ! 1), ToSolarSystemID (out ! 1)) = (30000142, 99)"
    using arg_cong[OF keys, of "\<lambda>xs. xs ! 1"] l4 by simp
  have a1: "systems = [sB] @ sA # []" by (simp add: systems_def)
  have a2: "\<forall>s' \<in> set []. SolarSystem.SolarSystemID s' \<noteq> SolarSystem.SolarSystemID sA" by simp
  have a3: "SolarSystem.SolarSystemID sA = FromSolarSystemID (out ! 1)" using k1 ids by simp
  have a4: "\<forall>s \<in> set systems. SolarSystem.SolarSystemID s \<noteq> ToSolarSystemID (out ! 1)"
    using k1 ids by (simp add: systems_def)
  have c: "FromRegionID (out ! 1) = SolarSystem.RegionID sA \<and>
       FromConstellationID (out ! 1) = SolarSystem.ConstellationID sA \<and>
       ToRegionID (out ! 1) = 0 \<and> ToConstellationID (out ! 1) = 0"
    using th mem a1 a2 a3 a4 by blast
  show ?thesis
    unfolding Let_def sA_def[symmetric] sB_def[symmetric] systems_def[symmetric]
      jump_def[symmetric] jumps_def[symmetric] out_def[symmetric]
    using len keys mem a1 a2 a3 a4 c by blast
qed

section \<open>Memory\<close>

text \<open>
  Slices are references: \<^verbatim>\<open>sort.Slice\<close>, \<^verbatim>\<open>CalculateRegionBounds\<close>,
  \<^verbatim>\<open>CalculateConstellationBounds\<close> and \<^verbatim>\<open>InheritFactionIDs\<close> write into the array behind
  the slice they are given, and the caller sees the writes. The memory holds, for every
  element type, the list of the arrays allocated so far, and the \<^verbatim>\<open>int64\<close> cells that
  pointers refer to. A slice is the address of its array (an index into that list) and
  extends over the whole array: the transformer never reslices what it stores.
  \<^verbatim>\<open>make\<close> allocates a new array at the next address.

  The Go maps of the parse result are only read by the transformer (every map it writes
  is one it has made itself), so they are passed as values: a map that is iterated as the
  list of its entries, the map of corporations, which is only looked up, as a partial
  function.
\<close>

type_synonym slice = nat

record memory =
  cells :: "int64 list"
  regionArrays :: "Region list list"
  constellationArrays :: "Constellation list list"
  systemArrays :: "SolarSystem list list"
  wormholeArrays :: "WormholeClassLocation list list"
  jumpArrays :: "SystemJump list list"
  typeArrays :: "InvType list list"
  groupArrays :: "InvGroup list list"
  stationArrays :: "NPCStation list list"

text \<open>\<^verbatim>\<open>make([]T, n)\<close>, the built-in \<^verbatim>\<open>copy(dst, src)\<close>, and a slice built by \<^verbatim>\<open>append\<close> from nothing.\<close>

definition make_slice :: "'a \<Rightarrow> 'a list list \<Rightarrow> nat \<Rightarrow> 'a list list \<times> slice" where
  "make_slice zero arrays n = (arrays @ [replicate n zero], length arrays)"

definition copy_slice :: "'a list list \<Rightarrow> slice \<Rightarrow> slice \<Rightarrow> 'a list list" where
  "copy_slice arrays dst src =
    (let n = min (length (arrays ! dst)) (length (arrays ! src))
     in arrays[dst := take n (arrays ! src) @ drop n (arrays ! dst)])"

definition new_slice :: "'a list list \<Rightarrow> 'a list \<Rightarrow> 'a list list \<times> slice" where
  "new_slice arrays contents = (arrays @ [contents], length arrays)"

text \<open>\<^verbatim>\<open>sort.Slice\<close> on a slice in memory.\<close>

definition sort_in_place :: "('a \<Rightarrow> 'a \<Rightarrow> bool) \<Rightarrow> 'a list list \<Rightarrow> slice \<Rightarrow> 'a list list" where
  "sort_in_place lt arrays s = arrays[s := sort_Slice lt (arrays ! s)]"

text \<open>The structs that hold slices: \<^verbatim>\<open>parser.ParseResult\<close>, \<^verbatim>\<open>models.UniverseData\<close> and
  \<^verbatim>\<open>models.ConvertedData\<close>.\<close>

record ParseResult =
  Regions :: slice
  Constellations :: slice
  SolarSystems :: slice
  Types :: "(int64, SDEType) gomap"
  Groups :: "(int64, SDEGroup) gomap"
  Categories :: "(int64, SDECategory) gomap"
  WormholeClasses :: slice
  SystemJumps :: slice
  NPCStations :: "(int64, SDENPCStation) gomap"
  NPCCorporations :: "int64 \<rightharpoonup> SDENPCCorporation"

record UniverseData =
  Regions :: slice
  Constellations :: slice
  SolarSystems :: slice

record ConvertedData =
  Universe :: UniverseData
  InvTypes :: slice
  InvGroups :: slice
  WormholeClasses :: slice
  SystemJumps :: slice
  NPCStations :: slice

section \<open>Output validator\<close>

text \<open>\<^verbatim>\<open>%d\<close> of \<^verbatim>\<open>fmt.Sprintf\<close> for a number that is not negative: its decimal digits.\<close>

definition digit_char :: "nat \<Rightarrow> char" where
  "digit_char d = ''0123456789'' ! d"

function show_nat :: "nat \<Rightarrow> string" where
  "show_nat n = (if n < 10 then [digit_char n] else show_nat (n div 10) @ [digit_char (n mod 10)])"
  by pat_completeness auto
termination
  by (relation "measure id") auto

declare show_nat.simps [simp del]

text \<open>
  \<^verbatim>\<open>Validate\<close> and \<^verbatim>\<open>IsValid\<close>. \<^verbatim>\<open>len\<close> of a slice is the length of its array. The
  pointers \<^verbatim>\<open>data\<close> and \<^verbatim>\<open>data.Universe\<close> are taken to be non-nil, as they are in what
  \<^verbatim>\<open>Transform\<close> returns.
\<close>

definition minSolarSystems :: nat where "minSolarSystems = 8000"
definition minRegions :: nat where "minRegions = 100"
definition minConstellations :: nat where "minConstellations = 1000"
definition minShipTypes :: nat where "minShipTypes = 500"
definition minShipGroups :: nat where "minShipGroups = 30"
definition minSystemJumps :: nat where "minSystemJumps = 13000"
definition minWormholeClasses :: nat where "minWormholeClasses = 750"
definition minNPCStations :: nat where "minNPCStations = 40"

definition Validate :: "memory \<Rightarrow> ConvertedData \<Rightarrow> ValidationResult" where
  "Validate m data =
    (let result = \<lparr>
           ValidationResult.SolarSystems =
             length (systemArrays m ! UniverseData.SolarSystems (Universe data)),
           ValidationResult.Regions =
             length (regionArrays m ! UniverseData.Regions (Universe data)),
           ValidationResult.Constellations =
             length (constellationArrays m ! UniverseData.Constellations (Universe data)),
           ValidationResult.InvTypes = length (typeArrays m ! ConvertedData.InvTypes data),
           ValidationResult.InvGroups = length (groupArrays m ! ConvertedData.InvGroups data),
           ValidationResult.SystemJumps = length (jumpArrays m ! ConvertedData.SystemJumps data),
           ValidationResult.WormholeClasses =
             length (wormholeArrays m ! ConvertedData.WormholeClasses data),
           ValidationResult.NPCStations =
             length (stationArrays m ! ConvertedData.NPCStations data),
           Errors = [], Warnings = []\<rparr>;
         result = (if ValidationResult.SolarSystems result < minSolarSystems
           then result\<lparr>Warnings := Warnings result @
             [''Solar system count ('' @ show_nat (ValidationResult.SolarSystems result) @
              '') is below expected minimum ('' @ show_nat minSolarSystems @ '')'']\<rparr>
           else result);
         result = (if ValidationResult.Regions result < minRegions
           then result\<lparr>Warnings := Warnings result @
             [''Region count ('' @ show_nat (ValidationResult.Regions result) @
              '') is below expected minimum ('' @ show_nat minRegions @ '')'']\<rparr>
           else result);
         result = (if ValidationResult.Constellations result < minConstellations
           then result\<lparr>Warnings := Warnings result @
             [''Constellation count ('' @ show_nat (ValidationResult.Constellations result) @
              '') is below expected minimum ('' @ show_nat minConstellations @ '')'']\<rparr>
           else result);
         result = (if ValidationResult.InvTypes result < minShipTypes
           then result\<lparr>Warnings := Warnings result @
             [''Ship type count ('' @ show_nat (ValidationResult.InvTypes result) @
              '') is below expected minimum ('' @ show_nat minShipTypes @ '')'']\<rparr>
           else result);
         result = (if ValidationResult.InvGroups result < minShipGroups
           then result\<lparr>Warnings := Warnings result @
             [''Ship group count ('' @ show_nat (ValidationResult.InvGroups result) @
              '') is below expected minimum ('' @ show_nat minShipGroups @ '')'']\<rparr>
           else result);
         result = (if ValidationResult.SystemJumps result < minSystemJumps
           then result\<lparr>Warnings := Warnings result @
             [''System jump count ('' @ show_nat (ValidationResult.SystemJumps result) @
              '') is below expected minimum ('' @ show_nat minSystemJumps @ '')'']\<rparr>
           else result);
         result = (if ValidationResult.WormholeClasses result < minWormholeClasses
           then result\<lparr>Warnings := Warnings result @
             [''Wormhole class count ('' @ show_nat (ValidationResult.WormholeClasses result) @
              '') is below expected minimum ('' @ show_nat minWormholeClasses @ '')'']\<rparr>
           else result);
         result = (if ValidationResult.NPCStations result < minNPCStations
           then result\<lparr>Warnings := Warnings result @
             [''NPC station count ('' @ show_nat (ValidationResult.NPCStations result) @
              '') is below expected minimum ('' @ show_nat minNPCStations @ '')'']\<rparr>
           else result);
         result = (if ValidationResult.SolarSystems result = 0
           then result\<lparr>Errors := Errors result @ [''No solar systems found'']\<rparr>
           else result);
         result = (if ValidationResult.Regions result = 0
           then result\<lparr>Errors := Errors result @ [''No regions found'']\<rparr>
           else result);
         result = (if ValidationResult.Constellations result = 0
           then result\<lparr>Errors := Errors result @ [''No constellations found'']\<rparr>
           else result)
     in result)"

definition IsValid :: "ValidationResult \<Rightarrow> bool" where
  "IsValid v \<longleftrightarrow> length (Errors v) = 0"

lemma Validate_step_warn:
  assumes "r' = (if c then r\<lparr>Warnings := Warnings r @ [msg]\<rparr> else r)"
  shows "Errors r' = Errors r" "Warnings r' = Warnings r @ (if c then [msg] else [])"
    "ValidationResult.SolarSystems r' = ValidationResult.SolarSystems r"
    "ValidationResult.Regions r' = ValidationResult.Regions r"
    "ValidationResult.Constellations r' = ValidationResult.Constellations r"
    "ValidationResult.InvTypes r' = ValidationResult.InvTypes r"
    "ValidationResult.InvGroups r' = ValidationResult.InvGroups r"
    "ValidationResult.SystemJumps r' = ValidationResult.SystemJumps r"
    "ValidationResult.WormholeClasses r' = ValidationResult.WormholeClasses r"
    "ValidationResult.NPCStations r' = ValidationResult.NPCStations r"
  using assms by simp_all

lemma Validate_step_error:
  assumes "r' = (if c then r\<lparr>Errors := Errors r @ [msg]\<rparr> else r)"
  shows "Errors r' = Errors r @ (if c then [msg] else [])" "Warnings r' = Warnings r"
    "ValidationResult.SolarSystems r' = ValidationResult.SolarSystems r"
    "ValidationResult.Regions r' = ValidationResult.Regions r"
    "ValidationResult.Constellations r' = ValidationResult.Constellations r"
    "ValidationResult.InvTypes r' = ValidationResult.InvTypes r"
    "ValidationResult.InvGroups r' = ValidationResult.InvGroups r"
    "ValidationResult.SystemJumps r' = ValidationResult.SystemJumps r"
    "ValidationResult.WormholeClasses r' = ValidationResult.WormholeClasses r"
    "ValidationResult.NPCStations r' = ValidationResult.NPCStations r"
  using assms by simp_all

lemma Validate_result:
  fixes m :: memory and data :: ConvertedData
  defines "r0 \<equiv> \<lparr>
      ValidationResult.SolarSystems =
        length (systemArrays m ! UniverseData.SolarSystems (Universe data)),
      ValidationResult.Regions =
        length (regionArrays m ! UniverseData.Regions (Universe data)),
      ValidationResult.Constellations =
        length (constellationArrays m ! UniverseData.Constellations (Universe data)),
      ValidationResult.InvTypes = length (typeArrays m ! ConvertedData.InvTypes data),
      ValidationResult.InvGroups = length (groupArrays m ! ConvertedData.InvGroups data),
      ValidationResult.SystemJumps = length (jumpArrays m ! ConvertedData.SystemJumps data),
      ValidationResult.WormholeClasses =
        length (wormholeArrays m ! ConvertedData.WormholeClasses data),
      ValidationResult.NPCStations =
        length (stationArrays m ! ConvertedData.NPCStations data),
      Errors = [], Warnings = []\<rparr>"
  shows "Errors (Validate m data) =
      (if ValidationResult.SolarSystems r0 = 0 then [''No solar systems found''] else []) @
      (if ValidationResult.Regions r0 = 0 then [''No regions found''] else []) @
      (if ValidationResult.Constellations r0 = 0 then [''No constellations found''] else [])"
    and "Warnings (Validate m data) =
      (if ValidationResult.SolarSystems r0 < minSolarSystems then [''Solar system count ('' @ show_nat (ValidationResult.SolarSystems r0) @
          '') is below expected minimum ('' @ show_nat minSolarSystems @ '')''] else []) @
      (if ValidationResult.Regions r0 < minRegions then [''Region count ('' @ show_nat (ValidationResult.Regions r0) @
          '') is below expected minimum ('' @ show_nat minRegions @ '')''] else []) @
      (if ValidationResult.Constellations r0 < minConstellations then [''Constellation count ('' @ show_nat (ValidationResult.Constellations r0) @
          '') is below expected minimum ('' @ show_nat minConstellations @ '')''] else []) @
      (if ValidationResult.InvTypes r0 < minShipTypes then [''Ship type count ('' @ show_nat (ValidationResult.InvTypes r0) @
          '') is below expected minimum ('' @ show_nat minShipTypes @ '')''] else []) @
      (if ValidationResult.InvGroups r0 < minShipGroups then [''Ship group count ('' @ show_nat (ValidationResult.InvGroups r0) @
          '') is below expected minimum ('' @ show_nat minShipGroups @ '')''] else []) @
      (if ValidationResult.SystemJumps r0 < minSystemJumps then [''System jump count ('' @ show_nat (ValidationResult.SystemJumps r0) @
          '') is below expected minimum ('' @ show_nat minSystemJumps @ '')''] else []) @
      (if ValidationResult.WormholeClasses r0 < minWormholeClasses then [''Wormhole class count ('' @ show_nat (ValidationResult.WormholeClasses r0) @
          '') is below expected minimum ('' @ show_nat minWormholeClasses @ '')''] else []) @
      (if ValidationResult.NPCStations r0 < minNPCStations then [''NPC station count ('' @ show_nat (ValidationResult.NPCStations r0) @
          '') is below expected minimum ('' @ show_nat minNPCStations @ '')''] else [])"
    and "ValidationResult.SolarSystems (Validate m data) = ValidationResult.SolarSystems r0"
    and "ValidationResult.Regions (Validate m data) = ValidationResult.Regions r0"
    and "ValidationResult.Constellations (Validate m data) = ValidationResult.Constellations r0"
    and "ValidationResult.InvTypes (Validate m data) = ValidationResult.InvTypes r0"
    and "ValidationResult.InvGroups (Validate m data) = ValidationResult.InvGroups r0"
    and "ValidationResult.SystemJumps (Validate m data) = ValidationResult.SystemJumps r0"
    and "ValidationResult.WormholeClasses (Validate m data) = ValidationResult.WormholeClasses r0"
    and "ValidationResult.NPCStations (Validate m data) = ValidationResult.NPCStations r0"
proof -
  define r1 where "r1 = (if ValidationResult.SolarSystems r0 < minSolarSystems
      then r0\<lparr>Warnings := Warnings r0 @
        [''Solar system count ('' @ show_nat (ValidationResult.SolarSystems r0) @
         '') is below expected minimum ('' @ show_nat minSolarSystems @ '')'']\<rparr>
      else r0)"
  note s1 = Validate_step_warn[OF r1_def]
  define r2 where "r2 = (if ValidationResult.Regions r1 < minRegions
      then r1\<lparr>Warnings := Warnings r1 @
        [''Region count ('' @ show_nat (ValidationResult.Regions r1) @
         '') is below expected minimum ('' @ show_nat minRegions @ '')'']\<rparr>
      else r1)"
  note s2 = Validate_step_warn[OF r2_def]
  define r3 where "r3 = (if ValidationResult.Constellations r2 < minConstellations
      then r2\<lparr>Warnings := Warnings r2 @
        [''Constellation count ('' @ show_nat (ValidationResult.Constellations r2) @
         '') is below expected minimum ('' @ show_nat minConstellations @ '')'']\<rparr>
      else r2)"
  note s3 = Validate_step_warn[OF r3_def]
  define r4 where "r4 = (if ValidationResult.InvTypes r3 < minShipTypes
      then r3\<lparr>Warnings := Warnings r3 @
        [''Ship type count ('' @ show_nat (ValidationResult.InvTypes r3) @
         '') is below expected minimum ('' @ show_nat minShipTypes @ '')'']\<rparr>
      else r3)"
  note s4 = Validate_step_warn[OF r4_def]
  define r5 where "r5 = (if ValidationResult.InvGroups r4 < minShipGroups
      then r4\<lparr>Warnings := Warnings r4 @
        [''Ship group count ('' @ show_nat (ValidationResult.InvGroups r4) @
         '') is below expected minimum ('' @ show_nat minShipGroups @ '')'']\<rparr>
      else r4)"
  note s5 = Validate_step_warn[OF r5_def]
  define r6 where "r6 = (if ValidationResult.SystemJumps r5 < minSystemJumps
      then r5\<lparr>Warnings := Warnings r5 @
        [''System jump count ('' @ show_nat (ValidationResult.SystemJumps r5) @
         '') is below expected minimum ('' @ show_nat minSystemJumps @ '')'']\<rparr>
      else r5)"
  note s6 = Validate_step_warn[OF r6_def]
  define r7 where "r7 = (if ValidationResult.WormholeClasses r6 < minWormholeClasses
      then r6\<lparr>Warnings := Warnings r6 @
        [''Wormhole class count ('' @ show_nat (ValidationResult.WormholeClasses r6) @
         '') is below expected minimum ('' @ show_nat minWormholeClasses @ '')'']\<rparr>
      else r6)"
  note s7 = Validate_step_warn[OF r7_def]
  define r8 where "r8 = (if ValidationResult.NPCStations r7 < minNPCStations
      then r7\<lparr>Warnings := Warnings r7 @
        [''NPC station count ('' @ show_nat (ValidationResult.NPCStations r7) @
         '') is below expected minimum ('' @ show_nat minNPCStations @ '')'']\<rparr>
      else r7)"
  note s8 = Validate_step_warn[OF r8_def]
  define r9 where "r9 = (if ValidationResult.SolarSystems r8 = 0
      then r8\<lparr>Errors := Errors r8 @ [''No solar systems found'']\<rparr>
      else r8)"
  note s9 = Validate_step_error[OF r9_def]
  define r10 where "r10 = (if ValidationResult.Regions r9 = 0
      then r9\<lparr>Errors := Errors r9 @ [''No regions found'']\<rparr>
      else r9)"
  note s10 = Validate_step_error[OF r10_def]
  define r11 where "r11 = (if ValidationResult.Constellations r10 = 0
      then r10\<lparr>Errors := Errors r10 @ [''No constellations found'']\<rparr>
      else r10)"
  note s11 = Validate_step_error[OF r11_def]
  have V: "Validate m data = r11"
    unfolding Validate_def
    apply (subst Let_def)
    apply (fold r0_def)
    apply (subst Let_def)
    apply (fold r1_def)
    apply (subst Let_def)
    apply (fold r2_def)
    apply (subst Let_def)
    apply (fold r3_def)
    apply (subst Let_def)
    apply (fold r4_def)
    apply (subst Let_def)
    apply (fold r5_def)
    apply (subst Let_def)
    apply (fold r6_def)
    apply (subst Let_def)
    apply (fold r7_def)
    apply (subst Let_def)
    apply (fold r8_def)
    apply (subst Let_def)
    apply (fold r9_def)
    apply (subst Let_def)
    apply (fold r10_def)
    apply (subst Let_def)
    apply (fold r11_def)
    apply (rule refl)
    done
  have i0: "Errors r0 = []" "Warnings r0 = []" by (simp_all add: r0_def)
  note ss = s1 s2 s3 s4 s5 s6 s7 s8 s9 s10 s11
  show "Errors (Validate m data) =
      (if ValidationResult.SolarSystems r0 = 0 then [''No solar systems found''] else []) @
      (if ValidationResult.Regions r0 = 0 then [''No regions found''] else []) @
      (if ValidationResult.Constellations r0 = 0 then [''No constellations found''] else [])"
    unfolding V by (simp only: ss i0 append_Nil append_Nil2 append_assoc)
  show "Warnings (Validate m data) =
      (if ValidationResult.SolarSystems r0 < minSolarSystems then [''Solar system count ('' @ show_nat (ValidationResult.SolarSystems r0) @
          '') is below expected minimum ('' @ show_nat minSolarSystems @ '')''] else []) @
      (if ValidationResult.Regions r0 < minRegions then [''Region count ('' @ show_nat (ValidationResult.Regions r0) @
          '') is below expected minimum ('' @ show_nat minRegions @ '')''] else []) @
      (if ValidationResult.Constellations r0 < minConstellations then [''Constellation count ('' @ show_nat (ValidationResult.Constellations r0) @
          '') is below expected minimum ('' @ show_nat minConstellations @ '')''] else []) @
      (if ValidationResult.InvTypes r0 < minShipTypes then [''Ship type count ('' @ show_nat (ValidationResult.InvTypes r0) @
          '') is below expected minimum ('' @ show_nat minShipTypes @ '')''] else []) @
      (if ValidationResult.InvGroups r0 < minShipGroups then [''Ship group count ('' @ show_nat (ValidationResult.InvGroups r0) @
          '') is below expected minimum ('' @ show_nat minShipGroups @ '')''] else []) @
      (if ValidationResult.SystemJumps r0 < minSystemJumps then [''System jump count ('' @ show_nat (ValidationResult.SystemJumps r0) @
          '') is below expected minimum ('' @ show_nat minSystemJumps @ '')''] else []) @
      (if ValidationResult.WormholeClasses r0 < minWormholeClasses then [''Wormhole class count ('' @ show_nat (ValidationResult.WormholeClasses r0) @
          '') is below expected minimum ('' @ show_nat minWormholeClasses @ '')''] else []) @
      (if ValidationResult.NPCStations r0 < minNPCStations then [''NPC station count ('' @ show_nat (ValidationResult.NPCStations r0) @
          '') is below expected minimum ('' @ show_nat minNPCStations @ '')''] else [])"
    unfolding V by (simp only: ss i0 append_Nil append_Nil2 append_assoc)
  show "ValidationResult.SolarSystems (Validate m data) = ValidationResult.SolarSystems r0"
    unfolding V by (simp only: ss)
  show "ValidationResult.Regions (Validate m data) = ValidationResult.Regions r0"
    unfolding V by (simp only: ss)
  show "ValidationResult.Constellations (Validate m data) = ValidationResult.Constellations r0"
    unfolding V by (simp only: ss)
  show "ValidationResult.InvTypes (Validate m data) = ValidationResult.InvTypes r0"
    unfolding V by (simp only: ss)
  show "ValidationResult.InvGroups (Validate m data) = ValidationResult.InvGroups r0"
    unfolding V by (simp only: ss)
  show "ValidationResult.SystemJumps (Validate m data) = ValidationResult.SystemJumps r0"
    unfolding V by (simp only: ss)
  show "ValidationResult.WormholeClasses (Validate m data) = ValidationResult.WormholeClasses r0"
    unfolding V by (simp only: ss)
  show "ValidationResult.NPCStations (Validate m data) = ValidationResult.NPCStations r0"
    unfolding V by (simp only: ss)
qed


text \<open>
  \<^bold>\<open>C8.\<close> \<^verbatim>\<open>IsValid\<close> of the result of \<^verbatim>\<open>Validate\<close> holds exactly when its list of errors
  is empty. The errors are one string for each of \<open>SolarSystems\<close>, \<open>Regions\<close> and
  \<open>Constellations\<close> that is empty, and nothing else; the warnings are one string for
  each collection whose count is below its minimum, and nothing else, so a count below
  the minimum that is not \<open>0\<close> adds a warning and no error. The counts are recorded as
  they are. In particular, data with an empty \<open>SolarSystems\<close> is not valid and has a
  non-empty list of errors.
\<close>

theorem Validate_errors_and_warnings:
  "(let v = Validate m data;
       nS = length (systemArrays m ! UniverseData.SolarSystems (Universe data));
       nR = length (regionArrays m ! UniverseData.Regions (Universe data));
       nC = length (constellationArrays m ! UniverseData.Constellations (Universe data));
       nT = length (typeArrays m ! ConvertedData.InvTypes data);
       nG = length (groupArrays m ! ConvertedData.InvGroups data);
       nJ = length (jumpArrays m ! ConvertedData.SystemJumps data);
       nW = length (wormholeArrays m ! ConvertedData.WormholeClasses data);
       nN = length (stationArrays m ! ConvertedData.NPCStations data)
    in (IsValid v \<longleftrightarrow> length (Errors v) = 0) \<and>
       Errors v =
        (if nS = 0 then [''No solar systems found''] else []) @
        (if nR = 0 then [''No regions found''] else []) @
        (if nC = 0 then [''No constellations found''] else []) \<and>
       Warnings v =
        (if nS < 8000 then [''Solar system count ('' @ show_nat nS @
            '') is below expected minimum ('' @ show_nat 8000 @ '')''] else []) @
        (if nR < 100 then [''Region count ('' @ show_nat nR @
            '') is below expected minimum ('' @ show_nat 100 @ '')''] else []) @
        (if nC < 1000 then [''Constellation count ('' @ show_nat nC @
            '') is below expected minimum ('' @ show_nat 1000 @ '')''] else []) @
        (if nT < 500 then [''Ship type count ('' @ show_nat nT @
            '') is below expected minimum ('' @ show_nat 500 @ '')''] else []) @
        (if nG < 30 then [''Ship group count ('' @ show_nat nG @
            '') is below expected minimum ('' @ show_nat 30 @ '')''] else []) @
        (if nJ < 13000 then [''System jump count ('' @ show_nat nJ @
            '') is below expected minimum ('' @ show_nat 13000 @ '')''] else []) @
        (if nW < 750 then [''Wormhole class count ('' @ show_nat nW @
            '') is below expected minimum ('' @ show_nat 750 @ '')''] else []) @
        (if nN < 40 then [''NPC station count ('' @ show_nat nN @
            '') is below expected minimum ('' @ show_nat 40 @ '')''] else []) \<and>
       ValidationResult.SolarSystems v = nS \<and> ValidationResult.Regions v = nR \<and>
       ValidationResult.Constellations v = nC \<and> ValidationResult.InvTypes v = nT \<and>
       ValidationResult.InvGroups v = nG \<and> ValidationResult.SystemJumps v = nJ \<and>
       ValidationResult.WormholeClasses v = nW \<and> ValidationResult.NPCStations v = nN \<and>
       (nS = 0 \<longrightarrow> \<not> IsValid v \<and> Errors v \<noteq> []))"
proof -
  note r = Validate_result[of m data, unfolded ValidationResult.simps minSolarSystems_def
      minRegions_def minConstellations_def minShipTypes_def minShipGroups_def
      minSystemJumps_def minWormholeClasses_def minNPCStations_def]
  have e: "length (systemArrays m ! UniverseData.SolarSystems (Universe data)) = 0 \<longrightarrow>
      \<not> IsValid (Validate m data) \<and> Errors (Validate m data) \<noteq> []"
    unfolding IsValid_def r(1) by simp
  show ?thesis
    unfolding Let_def using r e by (simp only: IsValid_def simp_thms)
qed

theorem Validate_errors_and_warnings_witness:
  "(let m = \<lparr>cells = [], regionArrays = [[Region_zero]],
              constellationArrays = [[Constellation_zero]], systemArrays = [[]],
              wormholeArrays = [[]], jumpArrays = [[]], typeArrays = [[]],
              groupArrays = [[]], stationArrays = [[]]\<rparr>;
        data = \<lparr>Universe = \<lparr>UniverseData.Regions = 0, UniverseData.Constellations = 0,
                   UniverseData.SolarSystems = 0\<rparr>,
                 ConvertedData.InvTypes = 0, ConvertedData.InvGroups = 0,
                 ConvertedData.WormholeClasses = 0, ConvertedData.SystemJumps = 0,
                 ConvertedData.NPCStations = 0\<rparr>;
        v = Validate m data
    in length (systemArrays m ! UniverseData.SolarSystems (Universe data)) = 0 \<and>
       \<not> IsValid v \<and> Errors v = [''No solar systems found''] \<and>
       length (Warnings v) = 8 \<and>
       Warnings v ! 0 = ''Solar system count (0) is below expected minimum (8000)'' \<and>
       Warnings v ! 1 = ''Region count (1) is below expected minimum (100)'')"
proof -
  define m where "m = \<lparr>cells = [], regionArrays = [[Region_zero]],
              constellationArrays = [[Constellation_zero]], systemArrays = [[]],
              wormholeArrays = [[]], jumpArrays = [[]], typeArrays = [[]],
              groupArrays = [[]], stationArrays = [[]]\<rparr>"
  define data where "data = \<lparr>Universe = \<lparr>UniverseData.Regions = 0,
                   UniverseData.Constellations = 0, UniverseData.SolarSystems = 0\<rparr>,
                 ConvertedData.InvTypes = 0, ConvertedData.InvGroups = 0,
                 ConvertedData.WormholeClasses = 0, ConvertedData.SystemJumps = 0,
                 ConvertedData.NPCStations = 0\<rparr>"
  have n: "length (systemArrays m ! UniverseData.SolarSystems (Universe data)) = 0"
    "length (regionArrays m ! UniverseData.Regions (Universe data)) = 1"
    "length (constellationArrays m ! UniverseData.Constellations (Universe data)) = 1"
    "length (typeArrays m ! ConvertedData.InvTypes data) = 0"
    "length (groupArrays m ! ConvertedData.InvGroups data) = 0"
    "length (jumpArrays m ! ConvertedData.SystemJumps data) = 0"
    "length (wormholeArrays m ! ConvertedData.WormholeClasses data) = 0"
    "length (stationArrays m ! ConvertedData.NPCStations data) = 0"
    by (simp_all add: m_def data_def)
  have d: "show_nat 0 = ''0''" "show_nat (Suc 0) = ''1''" "show_nat 100 = ''100''"
    "show_nat 8000 = ''8000''"
    by (simp_all add: show_nat.simps[of 0] show_nat.simps[of 1] show_nat.simps[of "Suc 0"]
        show_nat.simps[of 10]
        show_nat.simps[of 100] show_nat.simps[of 8] show_nat.simps[of 80]
        show_nat.simps[of 800] show_nat.simps[of 8000] digit_char_def)
  note t = Validate_errors_and_warnings[of m data, unfolded Let_def n]
  have a: "\<not> IsValid (Validate m data)" using t by simp
  have b: "Errors (Validate m data) = [''No solar systems found'']" using t by simp
  have c: "length (Warnings (Validate m data)) = 8"
    "Warnings (Validate m data) ! 0 = ''Solar system count (0) is below expected minimum (8000)''"
    "Warnings (Validate m data) ! 1 = ''Region count (1) is below expected minimum (100)''"
    using t by (simp_all add: d)
  show ?thesis
    unfolding Let_def m_def[symmetric] data_def[symmetric]
    using n(1) a b c by simp
qed

section \<open>The transformation pipeline\<close>

text \<open>
  The four functions that copy a slice and order the copy: \<^verbatim>\<open>transformSolarSystems\<close>,
  \<^verbatim>\<open>sortRegions\<close>, \<^verbatim>\<open>sortConstellations\<close> and \<^verbatim>\<open>sortWormholeClasses\<close>. Each works on the
  arrays of its element type and returns them together with the new slice.
\<close>

definition WormholeClassLocation_zero :: WormholeClassLocation where
  "WormholeClassLocation_zero = \<lparr>LocationID = 0, WormholeClassID = 0\<rparr>"

definition transformSolarSystems :: "SolarSystem list list \<Rightarrow> slice \<Rightarrow> SolarSystem list list \<times> slice" where
  "transformSolarSystems arrays systems =
    (let (arrays, result) = make_slice SolarSystem_zero arrays (length (arrays ! systems));
         arrays = copy_slice arrays result systems;
         arrays = sort_in_place
           (\<lambda>a b. SolarSystem.SolarSystemID a < SolarSystem.SolarSystemID b) arrays result
     in (arrays, result))"

definition sortRegions :: "Region list list \<Rightarrow> slice \<Rightarrow> Region list list \<times> slice" where
  "sortRegions arrays regions =
    (let (arrays, result) = make_slice Region_zero arrays (length (arrays ! regions));
         arrays = copy_slice arrays result regions;
         arrays = sort_in_place (\<lambda>a b. Region.RegionID a < Region.RegionID b) arrays result
     in (arrays, result))"

definition sortConstellations ::
    "Constellation list list \<Rightarrow> slice \<Rightarrow> Constellation list list \<times> slice" where
  "sortConstellations arrays constellations =
    (let (arrays, result) =
           make_slice Constellation_zero arrays (length (arrays ! constellations));
         arrays = copy_slice arrays result constellations;
         arrays = sort_in_place
           (\<lambda>a b. Constellation.ConstellationID a < Constellation.ConstellationID b)
           arrays result
     in (arrays, result))"

definition sortWormholeClasses ::
    "WormholeClassLocation list list \<Rightarrow> slice \<Rightarrow> WormholeClassLocation list list \<times> slice" where
  "sortWormholeClasses arrays classes =
    (let (arrays, result) =
           make_slice WormholeClassLocation_zero arrays (length (arrays ! classes));
         arrays = copy_slice arrays result classes;
         arrays = sort_in_place (\<lambda>a b. LocationID a < LocationID b) arrays result
     in (arrays, result))"

text \<open>
  \<^verbatim>\<open>transformNPCStations\<close> iterates over the stations and looks the owner up in the map of
  corporations, which is therefore a partial function.
\<close>

definition transformNPCStations ::
    "(int64, SDENPCStation) gomap \<Rightarrow> (int64 \<rightharpoonup> SDENPCCorporation) \<Rightarrow> NPCStation list" where
  "transformNPCStations stations corps =
    (let result = fold (\<lambda>(stationID, sdeStation) result.
           let ownerName = [];
               ownerName = (case corps (SDENPCStation.OwnerID sdeStation) of
                  Some corp \<Rightarrow> getLocalizedName (SDENPCCorporation.Name corp) ''en''
                | None \<Rightarrow> ownerName);
               station = \<lparr>NPCStation.StationID = stationID,
                  NPCStation.SolarSystemID = SDENPCStation.SolarSystemID sdeStation,
                  NPCStation.OwnerID = SDENPCStation.OwnerID sdeStation,
                  OwnerName = ownerName,
                  NPCStation.TypeID = SDENPCStation.TypeID sdeStation\<rparr>
           in result @ [station]) stations []
     in sort_Slice (\<lambda>a b. NPCStation.StationID a < NPCStation.StationID b) result)"

text \<open>
  \<^verbatim>\<open>Transform\<close>. The slices of the parse result refer to arrays of the memory \<open>m\<close>; the
  result is the memory after the call and the converted data, whose slices refer to it.
  The second result of the Go function, the error, is always \<^verbatim>\<open>nil\<close>. A slice that a
  callee returns after building it with \<^verbatim>\<open>append\<close> is placed in a new array. The calls
  of \<^verbatim>\<open>CalculateRegionBounds\<close>, \<^verbatim>\<open>CalculateConstellationBounds\<close> and
  \<^verbatim>\<open>InheritFactionIDs\<close> write into the array of their first argument.
\<close>

definition Transform :: "memory \<Rightarrow> ParseResult \<Rightarrow> memory \<times> ConvertedData" where
  "Transform m parseResult =
    (let (sysA, systems) =
           transformSolarSystems (systemArrays m) (ParseResult.SolarSystems parseResult);
         (regA, regions) = sortRegions (regionArrays m) (ParseResult.Regions parseResult);
         (conA, constellations) =
           sortConstellations (constellationArrays m) (ParseResult.Constellations parseResult);
         (grpA, invGroups) =
           new_slice (groupArrays m) (transformShipGroups (Groups parseResult));
         (typA, invTypes) =
           new_slice (typeArrays m)
             (transformShipTypes (Types parseResult) (Groups parseResult));
         (whA, wormholeClasses) =
           sortWormholeClasses (wormholeArrays m) (ParseResult.WormholeClasses parseResult);
         (jmpA, systemJumps) =
           new_slice (jumpArrays m)
             (transformSystemJumps (jumpArrays m ! ParseResult.SystemJumps parseResult)
                (sysA ! systems));
         regA = regA[regions := CalculateRegionBounds (regA ! regions) (sysA ! systems)];
         conA = conA[constellations :=
                  CalculateConstellationBounds (conA ! constellations) (sysA ! systems)];
         (cells', inherited) = InheritFactionIDs (cells m) (sysA ! systems) (regA ! regions);
         sysA = sysA[systems := inherited];
         (staA, npcStations) =
           new_slice (stationArrays m)
             (transformNPCStations (ParseResult.NPCStations parseResult)
                (NPCCorporations parseResult));
         result = \<lparr>Universe = \<lparr>UniverseData.Regions = regions,
                       UniverseData.Constellations = constellations,
                       UniverseData.SolarSystems = systems\<rparr>,
                    ConvertedData.InvTypes = invTypes,
                    ConvertedData.InvGroups = invGroups,
                    ConvertedData.WormholeClasses = wormholeClasses,
                    ConvertedData.SystemJumps = systemJumps,
                    ConvertedData.NPCStations = npcStations\<rparr>
     in (\<lparr>cells = cells', regionArrays = regA, constellationArrays = conA,
          systemArrays = sysA, wormholeArrays = whA, jumpArrays = jmpA,
          typeArrays = typA, groupArrays = grpA, stationArrays = staA\<rparr>,
         result))"


subsection \<open>Copying and ordering a slice\<close>

lemma copy_sort_slice:
  assumes "s < length arrays"
  shows "(let (arrays, result) = make_slice zero arrays (length (arrays ! s));
              arrays = copy_slice arrays result s;
              arrays = sort_in_place lt arrays result
          in (arrays, result)) =
         (arrays @ [sort_Slice lt (arrays ! s)], length arrays)"
  using assms
  by (simp add: make_slice_def copy_slice_def sort_in_place_def Let_def nth_append)

lemma transformSolarSystems_eq:
  "systems < length arrays \<Longrightarrow>
   transformSolarSystems arrays systems =
     (arrays @ [sort_Slice (\<lambda>a b. SolarSystem.SolarSystemID a < SolarSystem.SolarSystemID b)
                  (arrays ! systems)], length arrays)"
  unfolding transformSolarSystems_def by (rule copy_sort_slice)

lemma sortRegions_eq:
  "regions < length arrays \<Longrightarrow>
   sortRegions arrays regions =
     (arrays @ [sort_Slice (\<lambda>a b. Region.RegionID a < Region.RegionID b) (arrays ! regions)],
      length arrays)"
  unfolding sortRegions_def by (rule copy_sort_slice)

lemma sortConstellations_eq:
  "constellations < length arrays \<Longrightarrow>
   sortConstellations arrays constellations =
     (arrays @ [sort_Slice
        (\<lambda>a b. Constellation.ConstellationID a < Constellation.ConstellationID b)
        (arrays ! constellations)], length arrays)"
  unfolding sortConstellations_def by (rule copy_sort_slice)

lemma sortWormholeClasses_eq:
  "classes < length arrays \<Longrightarrow>
   sortWormholeClasses arrays classes =
     (arrays @ [sort_Slice (\<lambda>a b. LocationID a < LocationID b) (arrays ! classes)],
      length arrays)"
  unfolding sortWormholeClasses_def by (rule copy_sort_slice)

subsection \<open>What the in-place functions keep\<close>

lemma CalculateRegionBounds_ids:
  "map Region.RegionID (CalculateRegionBounds regions systems) = map Region.RegionID regions"
  by (simp add: CalculateRegionBounds_def Let_def)

lemma CalculateConstellationBounds_ids:
  "map Constellation.ConstellationID (CalculateConstellationBounds constellations systems) =
     map Constellation.ConstellationID constellations"
  by (simp add: CalculateConstellationBounds_def Let_def)

lemma inherit_step_frame:
  "(snd (inherit_step rf cs sys))\<lparr>SolarSystem.FactionID := None\<rparr> =
     sys\<lparr>SolarSystem.FactionID := None\<rparr>"
  by (simp add: inherit_step_eq)

lemma inherit_loop_frame:
  "map (\<lambda>s. s\<lparr>SolarSystem.FactionID := None\<rparr>) (snd (inherit_loop rf cs ss)) =
     map (\<lambda>s. s\<lparr>SolarSystem.FactionID := None\<rparr>) ss"
  by (induction ss arbitrary: cs)
    (simp_all add: inherit_loop_Cons inherit_step_frame del: inherit_loop.simps(2))

lemma InheritFactionIDs_frame:
  "map (\<lambda>s. s\<lparr>SolarSystem.FactionID := None\<rparr>) (snd (InheritFactionIDs cs systems regions)) =
     map (\<lambda>s. s\<lparr>SolarSystem.FactionID := None\<rparr>) systems"
  unfolding InheritFactionIDs_def by (rule inherit_loop_frame)

lemma InheritFactionIDs_field:
  assumes "\<And>s p. f (s\<lparr>SolarSystem.FactionID := p\<rparr>) = f s"
  shows "map f (snd (InheritFactionIDs cs systems regions)) = map f systems"
proof -
  have "map f xs = map f (map (\<lambda>s. s\<lparr>SolarSystem.FactionID := None\<rparr>) xs)" for xs
    by (simp add: assms)
  then show ?thesis using InheritFactionIDs_frame[of cs systems regions] by metis
qed

lemma inherit_step_prefix: "\<exists>ext. fst (inherit_step rf cs sys) = cs @ ext"
  by (simp add: inherit_step_eq)

lemma inherit_loop_prefix: "\<exists>ext. fst (inherit_loop rf cs ss) = cs @ ext"
proof (induction ss arbitrary: cs)
  case Nil
  then show ?case by simp
next
  case (Cons s ss)
  obtain e1 where e1: "fst (inherit_step rf cs s) = cs @ e1"
    using inherit_step_prefix by blast
  obtain e2 where "fst (inherit_loop rf (cs @ e1) ss) = (cs @ e1) @ e2"
    using Cons.IH by blast
  then show ?case by (simp add: inherit_loop_Cons e1 del: inherit_loop.simps(2))
qed

lemma InheritFactionIDs_prefix:
  "take (length cs) (fst (InheritFactionIDs cs systems regions)) = cs"
proof -
  obtain ext where "fst (InheritFactionIDs cs systems regions) = cs @ ext"
    unfolding InheritFactionIDs_def using inherit_loop_prefix by blast
  then show ?thesis by simp
qed

subsection \<open>The stations\<close>

definition station_of :: "(int64 \<rightharpoonup> SDENPCCorporation) \<Rightarrow> int64 \<times> SDENPCStation \<Rightarrow> NPCStation" where
  "station_of corps = (\<lambda>(stationID, sdeStation).
     \<lparr>NPCStation.StationID = stationID,
      NPCStation.SolarSystemID = SDENPCStation.SolarSystemID sdeStation,
      NPCStation.OwnerID = SDENPCStation.OwnerID sdeStation,
      OwnerName = (case corps (SDENPCStation.OwnerID sdeStation) of
          Some corp \<Rightarrow> getLocalizedName (SDENPCCorporation.Name corp) ''en''
        | None \<Rightarrow> []),
      NPCStation.TypeID = SDENPCStation.TypeID sdeStation\<rparr>)"

lemma transformNPCStations_eq:
  "transformNPCStations stations corps =
     sort_Slice (\<lambda>a b. NPCStation.StationID a < NPCStation.StationID b)
       (map (station_of corps) stations)"
proof -
  have "(\<lambda>(stationID, sdeStation) result.
           let ownerName = [];
               ownerName = (case corps (SDENPCStation.OwnerID sdeStation) of
                  Some corp \<Rightarrow> getLocalizedName (SDENPCCorporation.Name corp) ''en''
                | None \<Rightarrow> ownerName);
               station = \<lparr>NPCStation.StationID = stationID,
                  NPCStation.SolarSystemID = SDENPCStation.SolarSystemID sdeStation,
                  NPCStation.OwnerID = SDENPCStation.OwnerID sdeStation,
                  OwnerName = ownerName,
                  NPCStation.TypeID = SDENPCStation.TypeID sdeStation\<rparr>
           in result @ [station]) =
        (\<lambda>x result. result @ [station_of corps x])"
    by (intro ext) (simp add: station_of_def Let_def split: prod.splits)
  then show ?thesis
    unfolding transformNPCStations_def Let_def by (simp add: fold_append_map Let_def)
qed

subsection \<open>The result of the pipeline\<close>

text \<open>The slices of the parse result refer to arrays of the memory.\<close>

definition valid_slices :: "memory \<Rightarrow> ParseResult \<Rightarrow> bool" where
  "valid_slices m parseResult \<longleftrightarrow>
     ParseResult.Regions parseResult < length (regionArrays m) \<and>
     ParseResult.Constellations parseResult < length (constellationArrays m) \<and>
     ParseResult.SolarSystems parseResult < length (systemArrays m) \<and>
     ParseResult.WormholeClasses parseResult < length (wormholeArrays m) \<and>
     ParseResult.SystemJumps parseResult < length (jumpArrays m)"

lemma Transform_eq:
  fixes m :: memory and parseResult :: ParseResult
  assumes "valid_slices m parseResult"
  defines "sys0 \<equiv> sort_Slice (\<lambda>a b. SolarSystem.SolarSystemID a < SolarSystem.SolarSystemID b)
      (systemArrays m ! ParseResult.SolarSystems parseResult)"
  defines "reg1 \<equiv> CalculateRegionBounds
      (sort_Slice (\<lambda>a b. Region.RegionID a < Region.RegionID b)
         (regionArrays m ! ParseResult.Regions parseResult)) sys0"
  shows "Transform m parseResult =
    (\<lparr>cells = fst (InheritFactionIDs (cells m) sys0 reg1),
      regionArrays = regionArrays m @ [reg1],
      constellationArrays = constellationArrays m @
        [CalculateConstellationBounds
           (sort_Slice (\<lambda>a b. Constellation.ConstellationID a < Constellation.ConstellationID b)
              (constellationArrays m ! ParseResult.Constellations parseResult)) sys0],
      systemArrays = systemArrays m @ [snd (InheritFactionIDs (cells m) sys0 reg1)],
      wormholeArrays = wormholeArrays m @
        [sort_Slice (\<lambda>a b. LocationID a < LocationID b)
           (wormholeArrays m ! ParseResult.WormholeClasses parseResult)],
      jumpArrays = jumpArrays m @
        [transformSystemJumps (jumpArrays m ! ParseResult.SystemJumps parseResult) sys0],
      typeArrays = typeArrays m @
        [transformShipTypes (Types parseResult) (Groups parseResult)],
      groupArrays = groupArrays m @ [transformShipGroups (Groups parseResult)],
      stationArrays = stationArrays m @
        [transformNPCStations (ParseResult.NPCStations parseResult)
           (NPCCorporations parseResult)]\<rparr>,
     \<lparr>Universe = \<lparr>UniverseData.Regions = length (regionArrays m),
         UniverseData.Constellations = length (constellationArrays m),
         UniverseData.SolarSystems = length (systemArrays m)\<rparr>,
      ConvertedData.InvTypes = length (typeArrays m),
      ConvertedData.InvGroups = length (groupArrays m),
      ConvertedData.WormholeClasses = length (wormholeArrays m),
      ConvertedData.SystemJumps = length (jumpArrays m),
      ConvertedData.NPCStations = length (stationArrays m)\<rparr>)"
  using assms(1) unfolding sys0_def reg1_def
  by (simp add: Transform_def valid_slices_def transformSolarSystems_eq sortRegions_eq
      sortConstellations_eq sortWormholeClasses_eq new_slice_def Let_def split_beta)

subsection \<open>Independence of the order of iteration\<close>

lemma sorted_key_sort_Slice_map:
  fixes key :: "'a \<Rightarrow> 'k::linorder"
  assumes "mset xs = mset ys" "distinct (map key xs)"
  shows "sort_Slice (\<lambda>a b. key a < key b) xs = sort_Slice (\<lambda>a b. key a < key b) ys"
  by (rule sort_Slice_perm_eq[where key = key]) (simp_all add: assms)

lemma distinct_map_mset_eq:
  assumes "mset xs = mset ys" "distinct (map key ys)"
  shows "distinct (map key xs)"
proof -
  have "mset (map key xs) = mset (map key ys)" using assms(1) by simp
  then show ?thesis using assms(2) by (metis mset_eq_imp_distinct_iff)
qed

lemma transformShipGroups_perm:
  assumes "mset groups' = mset groups" "distinct (map fst groups)"
  shows "transformShipGroups groups' = transformShipGroups groups"
proof -
  let ?P = "\<lambda>(groupID, g). SDEGroup.CategoryID g = ShipCategoryID"
  have m: "mset (map ship_group_of (filter ?P groups')) = mset (map ship_group_of (filter ?P groups))"
    using assms(1) by simp
  have k: "(\<lambda>x. InvGroup.GroupID (ship_group_of x)) = fst"
    by (rule ext) (simp add: ship_group_of_def split_beta)
  have "distinct (map fst (filter ?P groups))"
    using assms(2) by (rule distinct_map_filter)
  then have d: "distinct (map InvGroup.GroupID (map ship_group_of (filter ?P groups)))"
    by (simp add: comp_def k)
  have d': "distinct (map InvGroup.GroupID (map ship_group_of (filter ?P groups')))"
    using m d by (rule distinct_map_mset_eq)
  show ?thesis unfolding transformShipGroups_eq
    using m d' by (rule sorted_key_sort_Slice_map)
qed

lemma transformShipTypes_perm:
  assumes "mset types' = mset types" "distinct (map fst types)" "mset groups' = mset groups"
  shows "transformShipTypes types' groups' = transformShipTypes types groups"
proof -
  have sg: "set groups' = set groups" using assms(3) by (metis set_mset_mset)
  let ?P = "\<lambda>(typeID, t). \<exists>g. (SDEType.GroupID t, g) \<in> set groups \<and>
      SDEGroup.CategoryID g = ShipCategoryID"
  have m: "mset (map ship_type_of (filter ?P types')) = mset (map ship_type_of (filter ?P types))"
    using assms(1) by simp
  have k: "(\<lambda>x. InvType.TypeID (ship_type_of x)) = fst"
    by (rule ext) (simp add: ship_type_of_def split_beta)
  have "distinct (map fst (filter ?P types))"
    using assms(2) by (rule distinct_map_filter)
  then have d: "distinct (map InvType.TypeID (map ship_type_of (filter ?P types)))"
    by (simp add: comp_def k)
  have d': "distinct (map InvType.TypeID (map ship_type_of (filter ?P types')))"
    using m d by (rule distinct_map_mset_eq)
  show ?thesis unfolding transformShipTypes_eq sg
    using m d' by (rule sorted_key_sort_Slice_map)
qed

lemma transformNPCStations_perm:
  assumes "mset stations' = mset stations" "distinct (map fst stations)"
  shows "transformNPCStations stations' corps = transformNPCStations stations corps"
proof -
  have m: "mset (map (station_of corps) stations') = mset (map (station_of corps) stations)"
    using assms(1) by simp
  have k: "(\<lambda>x. NPCStation.StationID (station_of corps x)) = fst"
    by (rule ext) (simp add: station_of_def split_beta)
  have d: "distinct (map NPCStation.StationID (map (station_of corps) stations))"
    using assms(2) by (simp add: comp_def k)
  have d': "distinct (map NPCStation.StationID (map (station_of corps) stations'))"
    using m d by (rule distinct_map_mset_eq)
  show ?thesis unfolding transformNPCStations_eq
    using m d' by (rule sorted_key_sort_Slice_map)
qed

lemma Transform_perm:
  assumes "mset types' = mset (Types parseResult)" "distinct (map fst (Types parseResult))"
    "mset groups' = mset (Groups parseResult)" "distinct (map fst (Groups parseResult))"
    "mset stations' = mset (ParseResult.NPCStations parseResult)"
    "distinct (map fst (ParseResult.NPCStations parseResult))"
  shows "Transform m (parseResult\<lparr>Types := types', Groups := groups',
            ParseResult.NPCStations := stations'\<rparr>) = Transform m parseResult"
proof -
  define pr' where "pr' = parseResult\<lparr>Types := types', Groups := groups',
            ParseResult.NPCStations := stations'\<rparr>"
  have sel: "Types pr' = types'" "Groups pr' = groups'" "ParseResult.NPCStations pr' = stations'"
    "ParseResult.Regions pr' = ParseResult.Regions parseResult"
    "ParseResult.Constellations pr' = ParseResult.Constellations parseResult"
    "ParseResult.SolarSystems pr' = ParseResult.SolarSystems parseResult"
    "ParseResult.WormholeClasses pr' = ParseResult.WormholeClasses parseResult"
    "ParseResult.SystemJumps pr' = ParseResult.SystemJumps parseResult"
    "NPCCorporations pr' = NPCCorporations parseResult"
    by (simp_all add: pr'_def)
  have "Transform m pr' = Transform m parseResult"
    unfolding Transform_def sel transformShipGroups_perm[OF assms(3,4)]
      transformShipTypes_perm[OF assms(1,2,3)] transformNPCStations_perm[OF assms(5,6)]
    by (rule refl)
  then show ?thesis unfolding pr'_def .
qed

subsection \<open>An example run\<close>

text \<open>
  A small universe in the manner of the test \<^verbatim>\<open>TestTransformer_Transform\<close>: two regions and
  two solar systems given in descending order of their identifiers, one constellation, two
  wormhole classes, two jumps, and maps of types, groups and stations. The region
  \<^verbatim>\<open>The Forge\<close> has a faction, stored in the only cell of the memory; the solar systems have
  none.
\<close>

definition example_memory :: memory where
  "example_memory =
    \<lparr>cells = [500001],
     regionArrays = [[Region_zero\<lparr>Region.RegionID := 10000002, RegionName := ''The Forge'',
                        Region.FactionID := Some 0\<rparr>,
                      Region_zero\<lparr>Region.RegionID := 10000001, RegionName := ''Derelik''\<rparr>]],
     constellationArrays = [[Constellation_zero\<lparr>Constellation.ConstellationID := 20000020,
                        ConstellationName := ''Kimotoro'',
                        Constellation.RegionID := 10000002\<rparr>]],
     systemArrays = [[SolarSystem_zero\<lparr>SolarSystem.SolarSystemID := 30000142,
                        SolarSystem.RegionID := 10000002,
                        SolarSystem.ConstellationID := 20000020,
                        SolarSystemName := ''Jita'', Security := 9459 / 10000\<rparr>,
                      SolarSystem_zero\<lparr>SolarSystem.SolarSystemID := 30000001,
                        SolarSystem.RegionID := 10000001,
                        SolarSystem.ConstellationID := 20000001,
                        SolarSystemName := ''Tanoo'', Security := 47 / 1000\<rparr>]],
     wormholeArrays = [[\<lparr>LocationID = 31000002, WormholeClassID = 5\<rparr>,
                        \<lparr>LocationID = 31000001, WormholeClassID = 3\<rparr>]],
     jumpArrays = [[\<lparr>FromRegionID = 0, FromConstellationID = 0,
                      FromSolarSystemID = 30000142, ToSolarSystemID = 30000001,
                      ToConstellationID = 0, ToRegionID = 0\<rparr>,
                    \<lparr>FromRegionID = 0, FromConstellationID = 0,
                      FromSolarSystemID = 30000001, ToSolarSystemID = 30000142,
                      ToConstellationID = 0, ToRegionID = 0\<rparr>]],
     typeArrays = [], groupArrays = [], stationArrays = []\<rparr>"

definition example_station :: "int64 \<Rightarrow> int64 \<Rightarrow> SDENPCStation" where
  "example_station owner system =
    \<lparr>CelestialIndex = 0, OperationID = 0, OrbitID = 0, OrbitIndex = 0,
     SDENPCStation.OwnerID = owner, Position = \<lparr>SDEPosition.X = Num 0, Y = Num 0, Z = Num 0\<rparr>,
     ReprocessingEfficiency = 0, ReprocessingHangarFlag = 0, ReprocessingStationsTake = 0,
     SDENPCStation.SolarSystemID = system, SDENPCStation.TypeID = 2501,
     UseOperationName = False\<rparr>"

definition example_parseResult :: ParseResult where
  "example_parseResult =
    \<lparr>ParseResult.Regions = 0, ParseResult.Constellations = 0, ParseResult.SolarSystems = 0,
     Types = [(588, SDEType_zero\<lparr>SDEType.GroupID := 25,
                 SDEType.Name := [''en'' \<mapsto> ''Slasher''], SDEType.Published := True\<rparr>),
              (2456, SDEType_zero\<lparr>SDEType.GroupID := 18,
                 SDEType.Name := [''en'' \<mapsto> ''Hobgoblin I''], SDEType.Published := True\<rparr>),
              (587, SDEType_zero\<lparr>SDEType.GroupID := 25,
                 SDEType.Name := [''en'' \<mapsto> ''Rifter''], SDEType.Published := True\<rparr>)],
     Groups = [(25, SDEGroup_zero\<lparr>SDEGroup.CategoryID := 6,
                 SDEGroup.Name := [''en'' \<mapsto> ''Frigate''], SDEGroup.Published := True\<rparr>),
               (18, SDEGroup_zero\<lparr>SDEGroup.CategoryID := 7,
                 SDEGroup.Name := [''en'' \<mapsto> ''Drone''], SDEGroup.Published := True\<rparr>)],
     Categories = [],
     ParseResult.WormholeClasses = 0, ParseResult.SystemJumps = 0,
     ParseResult.NPCStations = [(60012736, example_station 1000137 30000142),
                                (60000004, example_station 1000002 30000001)],
     NPCCorporations = [1000137 \<mapsto> \<lparr>SDENPCCorporation.Name = [''en'' \<mapsto> ''DED''],
                           SDENPCCorporation.StationID = 0, Deleted = False\<rparr>]\<rparr>"

lemma example_valid_slices: "valid_slices example_memory example_parseResult"
  by (simp add: valid_slices_def example_memory_def example_parseResult_def)

lemma example_input:
  "regionArrays example_memory ! ParseResult.Regions example_parseResult =
     [Region_zero\<lparr>Region.RegionID := 10000002, RegionName := ''The Forge'',
        Region.FactionID := Some 0\<rparr>,
      Region_zero\<lparr>Region.RegionID := 10000001, RegionName := ''Derelik''\<rparr>]"
  "systemArrays example_memory ! ParseResult.SolarSystems example_parseResult =
     [SolarSystem_zero\<lparr>SolarSystem.SolarSystemID := 30000142,
        SolarSystem.RegionID := 10000002, SolarSystem.ConstellationID := 20000020,
        SolarSystemName := ''Jita'', Security := 9459 / 10000\<rparr>,
      SolarSystem_zero\<lparr>SolarSystem.SolarSystemID := 30000001,
        SolarSystem.RegionID := 10000001, SolarSystem.ConstellationID := 20000001,
        SolarSystemName := ''Tanoo'', Security := 47 / 1000\<rparr>]"
  "memory.cells example_memory = [500001]"
  by (simp_all add: example_memory_def example_parseResult_def)

lemma example_sorted_systems:
  "sort_Slice (\<lambda>a b. SolarSystem.SolarSystemID a < SolarSystem.SolarSystemID b)
     (systemArrays example_memory ! ParseResult.SolarSystems example_parseResult) =
     [SolarSystem_zero\<lparr>SolarSystem.SolarSystemID := 30000001,
        SolarSystem.RegionID := 10000001, SolarSystem.ConstellationID := 20000001,
        SolarSystemName := ''Tanoo'', Security := 47 / 1000\<rparr>,
      SolarSystem_zero\<lparr>SolarSystem.SolarSystemID := 30000142,
        SolarSystem.RegionID := 10000002, SolarSystem.ConstellationID := 20000020,
        SolarSystemName := ''Jita'', Security := 9459 / 10000\<rparr>]"
  unfolding example_input by (simp add: sort_Slice_def SolarSystem_zero_def)

lemma example_sorted_regions:
  "sort_Slice (\<lambda>a b. Region.RegionID a < Region.RegionID b)
     (regionArrays example_memory ! ParseResult.Regions example_parseResult) =
     [Region_zero\<lparr>Region.RegionID := 10000001, RegionName := ''Derelik''\<rparr>,
      Region_zero\<lparr>Region.RegionID := 10000002, RegionName := ''The Forge'',
        Region.FactionID := Some 0\<rparr>]"
  unfolding example_input by (simp add: sort_Slice_def Region_zero_def)


lemma example_regions:
  "CalculateRegionBounds
     (sort_Slice (\<lambda>a b. Region.RegionID a < Region.RegionID b)
        (regionArrays example_memory ! ParseResult.Regions example_parseResult))
     (sort_Slice (\<lambda>a b. SolarSystem.SolarSystemID a < SolarSystem.SolarSystemID b)
        (systemArrays example_memory ! ParseResult.SolarSystems example_parseResult)) =
   [Region_zero\<lparr>Region.RegionID := 10000001, RegionName := ''Derelik''\<rparr>,
    Region_zero\<lparr>Region.RegionID := 10000002, RegionName := ''The Forge'',
      Region.FactionID := Some 0\<rparr>]"
  unfolding example_sorted_regions example_sorted_systems
  by (simp add: CalculateRegionBounds_def group_by_def Region_zero_def SolarSystem_zero_def)

lemma example_inherited:
  "InheritFactionIDs (memory.cells example_memory)
     (sort_Slice (\<lambda>a b. SolarSystem.SolarSystemID a < SolarSystem.SolarSystemID b)
        (systemArrays example_memory ! ParseResult.SolarSystems example_parseResult))
     [Region_zero\<lparr>Region.RegionID := 10000001, RegionName := ''Derelik''\<rparr>,
      Region_zero\<lparr>Region.RegionID := 10000002, RegionName := ''The Forge'',
        Region.FactionID := Some 0\<rparr>] =
   ([500001, 500001],
    [SolarSystem_zero\<lparr>SolarSystem.SolarSystemID := 30000001,
        SolarSystem.RegionID := 10000001, SolarSystem.ConstellationID := 20000001,
        SolarSystemName := ''Tanoo'', Security := 47 / 1000\<rparr>,
     SolarSystem_zero\<lparr>SolarSystem.SolarSystemID := 30000142,
        SolarSystem.RegionID := 10000002, SolarSystem.ConstellationID := 20000020,
        SolarSystemName := ''Jita'', Security := 9459 / 10000,
        SolarSystem.FactionID := Some 1\<rparr>])"
  unfolding example_sorted_systems example_input(3)
  by (simp add: InheritFactionIDs_def regionFactions_of_def inherit_step_def
      Region_zero_def SolarSystem_zero_def)

lemma example_keys:
  "map Constellation.ConstellationID
     (sort_Slice (\<lambda>a b. Constellation.ConstellationID a < Constellation.ConstellationID b)
        (constellationArrays example_memory !
           ParseResult.Constellations example_parseResult)) = [20000020]"
  "map LocationID (sort_Slice (\<lambda>a b. LocationID a < LocationID b)
     (wormholeArrays example_memory ! ParseResult.WormholeClasses example_parseResult)) =
     [31000001, 31000002]"
  "map InvType.TypeID (transformShipTypes (Types example_parseResult)
     (Groups example_parseResult)) = [587, 588]"
  "map InvGroup.GroupID (transformShipGroups (Groups example_parseResult)) = [25]"
  "map NPCStation.StationID (transformNPCStations
     (ParseResult.NPCStations example_parseResult) (NPCCorporations example_parseResult)) =
     [60000004, 60012736]"
  "map OwnerName (transformNPCStations
     (ParseResult.NPCStations example_parseResult) (NPCCorporations example_parseResult)) =
     [[], ''DED'']"
  by (simp_all add: example_memory_def example_parseResult_def sort_Slice_def
      transformShipTypes_def transformShipGroups_def transformNPCStations_def
      SDEType_zero_def SDEGroup_zero_def ShipCategoryID_def example_station_def
      getLocalizedName_def Constellation_zero_def)

lemma example_jumps:
  "transformSystemJumps
     (jumpArrays example_memory ! ParseResult.SystemJumps example_parseResult)
     (sort_Slice (\<lambda>a b. SolarSystem.SolarSystemID a < SolarSystem.SolarSystemID b)
        (systemArrays example_memory ! ParseResult.SolarSystems example_parseResult)) =
   [\<lparr>FromRegionID = 10000001, FromConstellationID = 20000001,
      FromSolarSystemID = 30000001, ToSolarSystemID = 30000142,
      ToConstellationID = 20000020, ToRegionID = 10000002\<rparr>,
    \<lparr>FromRegionID = 10000002, FromConstellationID = 20000020,
      FromSolarSystemID = 30000142, ToSolarSystemID = 30000001,
      ToConstellationID = 20000001, ToRegionID = 10000001\<rparr>]"
  unfolding example_sorted_systems
  by (simp add: example_memory_def example_parseResult_def transformSystemJumps_def
      sort_Slice_def SolarSystem_zero_def)


text \<open>The result of the pipeline on the example.\<close>

lemma example_result:
  "regionArrays (fst (Transform example_memory example_parseResult)) !
      UniverseData.Regions (Universe (snd (Transform example_memory example_parseResult))) =
     [Region_zero\<lparr>Region.RegionID := 10000001, RegionName := ''Derelik''\<rparr>,
      Region_zero\<lparr>Region.RegionID := 10000002, RegionName := ''The Forge'',
        Region.FactionID := Some 0\<rparr>]"
  "systemArrays (fst (Transform example_memory example_parseResult)) !
      UniverseData.SolarSystems (Universe (snd (Transform example_memory
        example_parseResult))) =
    [SolarSystem_zero\<lparr>SolarSystem.SolarSystemID := 30000001,
        SolarSystem.RegionID := 10000001, SolarSystem.ConstellationID := 20000001,
        SolarSystemName := ''Tanoo'', Security := 47 / 1000\<rparr>,
     SolarSystem_zero\<lparr>SolarSystem.SolarSystemID := 30000142,
        SolarSystem.RegionID := 10000002, SolarSystem.ConstellationID := 20000020,
        SolarSystemName := ''Jita'', Security := 9459 / 10000,
        SolarSystem.FactionID := Some 1\<rparr>]"
  "memory.cells (fst (Transform example_memory example_parseResult)) = [500001, 500001]"
  "jumpArrays (fst (Transform example_memory example_parseResult)) !
      ConvertedData.SystemJumps (snd (Transform example_memory example_parseResult)) =
   [\<lparr>FromRegionID = 10000001, FromConstellationID = 20000001,
      FromSolarSystemID = 30000001, ToSolarSystemID = 30000142,
      ToConstellationID = 20000020, ToRegionID = 10000002\<rparr>,
    \<lparr>FromRegionID = 10000002, FromConstellationID = 20000020,
      FromSolarSystemID = 30000142, ToSolarSystemID = 30000001,
      ToConstellationID = 20000001, ToRegionID = 10000001\<rparr>]"
  "map Constellation.ConstellationID
     (constellationArrays (fst (Transform example_memory example_parseResult)) !
        UniverseData.Constellations (Universe (snd (Transform example_memory
          example_parseResult)))) = [20000020]"
  "map LocationID (wormholeArrays (fst (Transform example_memory example_parseResult)) !
      ConvertedData.WormholeClasses (snd (Transform example_memory example_parseResult))) =
     [31000001, 31000002]"
  "map InvType.TypeID (typeArrays (fst (Transform example_memory example_parseResult)) !
      ConvertedData.InvTypes (snd (Transform example_memory example_parseResult))) =
     [587, 588]"
  "map InvGroup.GroupID (groupArrays (fst (Transform example_memory example_parseResult)) !
      ConvertedData.InvGroups (snd (Transform example_memory example_parseResult))) = [25]"
  "map NPCStation.StationID
     (stationArrays (fst (Transform example_memory example_parseResult)) !
        ConvertedData.NPCStations (snd (Transform example_memory example_parseResult))) =
     [60000004, 60012736]"
  unfolding Transform_eq[OF example_valid_slices]
  by (simp_all add: example_regions example_inherited example_jumps example_keys
      CalculateConstellationBounds_ids)


subsection \<open>Properties of the pipeline\<close>

lemma sorted_jumps_rel:
  assumes "sorted (map (\<lambda>c. (FromSolarSystemID c, ToSolarSystemID c)) xs)"
  shows "sorted_wrt (\<lambda>a b. FromSolarSystemID a < FromSolarSystemID b \<or>
           (FromSolarSystemID a = FromSolarSystemID b \<and> ToSolarSystemID a \<le> ToSolarSystemID b)) xs"
proof -
  have "sorted_wrt (\<lambda>a b. (FromSolarSystemID a, ToSolarSystemID a) \<le>
           (FromSolarSystemID b, ToSolarSystemID b)) xs"
    using assms by (simp add: sorted_map)
  then show ?thesis
    by (rule sorted_wrt_mono_rel[rotated]) (auto simp: less_eq_prod_def)
qed

text \<open>
  \<^bold>\<open>C7.\<close> Every collection of the data that \<^verbatim>\<open>Transform\<close> returns is in ascending order of
  its key: regions by \<open>RegionID\<close>, constellations by \<open>ConstellationID\<close>, solar systems by
  \<open>SolarSystemID\<close>, types by \<open>TypeID\<close>, groups by \<open>GroupID\<close>, wormhole classes by
  \<open>LocationID\<close>, stations by \<open>StationID\<close>, and jumps by \<open>FromSolarSystemID\<close> and then
  \<open>ToSolarSystemID\<close>. This holds for every order in which the maps of the input are
  iterated; moreover, iterating the maps in another order gives the same result.
\<close>

theorem Transform_sorted:
  assumes "valid_slices m parseResult"
  shows "(let (m', data) = Transform m parseResult in
      sorted (map Region.RegionID (regionArrays m' ! UniverseData.Regions (Universe data))) \<and>
      sorted (map Constellation.ConstellationID
        (constellationArrays m' ! UniverseData.Constellations (Universe data))) \<and>
      sorted (map SolarSystem.SolarSystemID
        (systemArrays m' ! UniverseData.SolarSystems (Universe data))) \<and>
      sorted (map InvType.TypeID (typeArrays m' ! ConvertedData.InvTypes data)) \<and>
      sorted (map InvGroup.GroupID (groupArrays m' ! ConvertedData.InvGroups data)) \<and>
      sorted (map LocationID (wormholeArrays m' ! ConvertedData.WormholeClasses data)) \<and>
      sorted (map NPCStation.StationID (stationArrays m' ! ConvertedData.NPCStations data)) \<and>
      sorted_wrt (\<lambda>a b. FromSolarSystemID a < FromSolarSystemID b \<or>
           (FromSolarSystemID a = FromSolarSystemID b \<and> ToSolarSystemID a \<le> ToSolarSystemID b))
        (jumpArrays m' ! ConvertedData.SystemJumps data)) \<and>
    (\<forall>types' groups' stations'.
       mset types' = mset (Types parseResult) \<and> distinct (map fst (Types parseResult)) \<and>
       mset groups' = mset (Groups parseResult) \<and> distinct (map fst (Groups parseResult)) \<and>
       mset stations' = mset (ParseResult.NPCStations parseResult) \<and>
       distinct (map fst (ParseResult.NPCStations parseResult)) \<longrightarrow>
       Transform m (parseResult\<lparr>Types := types', Groups := groups',
            ParseResult.NPCStations := stations'\<rparr>) = Transform m parseResult)"
proof -
  have r: "sorted (map Region.RegionID (CalculateRegionBounds
      (sort_Slice (\<lambda>a b. Region.RegionID a < Region.RegionID b) rs) ss))" for rs ss
    unfolding CalculateRegionBounds_ids by (rule sorted_sort_Slice) simp
  have c: "sorted (map Constellation.ConstellationID (CalculateConstellationBounds
      (sort_Slice (\<lambda>a b. Constellation.ConstellationID a < Constellation.ConstellationID b) cs)
      ss))" for cs ss
    unfolding CalculateConstellationBounds_ids by (rule sorted_sort_Slice) simp
  have s: "sorted (map SolarSystem.SolarSystemID (snd (InheritFactionIDs cs
      (sort_Slice (\<lambda>a b. SolarSystem.SolarSystemID a < SolarSystem.SolarSystemID b) ss) rs)))"
    for cs ss rs
  proof -
    have "map SolarSystem.SolarSystemID (snd (InheritFactionIDs cs
        (sort_Slice (\<lambda>a b. SolarSystem.SolarSystemID a < SolarSystem.SolarSystemID b) ss) rs)) =
      map SolarSystem.SolarSystemID
        (sort_Slice (\<lambda>a b. SolarSystem.SolarSystemID a < SolarSystem.SolarSystemID b) ss)"
      by (rule InheritFactionIDs_field) simp
    moreover have "sorted (map SolarSystem.SolarSystemID
        (sort_Slice (\<lambda>a b. SolarSystem.SolarSystemID a < SolarSystem.SolarSystemID b) ss))"
      by (rule sorted_sort_Slice) simp
    ultimately show ?thesis by simp
  qed
  have t: "sorted (map InvType.TypeID (transformShipTypes ts gs))" for ts gs
    unfolding transformShipTypes_eq by (rule sorted_sort_Slice) simp
  have g: "sorted (map InvGroup.GroupID (transformShipGroups gs))" for gs
    unfolding transformShipGroups_eq by (rule sorted_sort_Slice) simp
  have w: "sorted (map LocationID (sort_Slice (\<lambda>a b. LocationID a < LocationID b) ws))" for ws
    by (rule sorted_sort_Slice) simp
  have n: "sorted (map NPCStation.StationID (transformNPCStations st co))" for st co
    unfolding transformNPCStations_eq by (rule sorted_sort_Slice) simp
  have j: "sorted_wrt (\<lambda>a b. FromSolarSystemID a < FromSolarSystemID b \<or>
           (FromSolarSystemID a = FromSolarSystemID b \<and> ToSolarSystemID a \<le> ToSolarSystemID b))
        (transformSystemJumps js ss)" for js ss
    by (rule sorted_jumps_rel) (rule sorted_transformSystemJumps)
  have p: "Transform m (parseResult\<lparr>Types := types', Groups := groups',
            ParseResult.NPCStations := stations'\<rparr>) = Transform m parseResult"
    if "mset types' = mset (Types parseResult)" "distinct (map fst (Types parseResult))"
       "mset groups' = mset (Groups parseResult)" "distinct (map fst (Groups parseResult))"
       "mset stations' = mset (ParseResult.NPCStations parseResult)"
       "distinct (map fst (ParseResult.NPCStations parseResult))"
    for types' groups' stations'
    using that by (rule Transform_perm)
  have "(let (m', data) = Transform m parseResult in
      sorted (map Region.RegionID (regionArrays m' ! UniverseData.Regions (Universe data))) \<and>
      sorted (map Constellation.ConstellationID
        (constellationArrays m' ! UniverseData.Constellations (Universe data))) \<and>
      sorted (map SolarSystem.SolarSystemID
        (systemArrays m' ! UniverseData.SolarSystems (Universe data))) \<and>
      sorted (map InvType.TypeID (typeArrays m' ! ConvertedData.InvTypes data)) \<and>
      sorted (map InvGroup.GroupID (groupArrays m' ! ConvertedData.InvGroups data)) \<and>
      sorted (map LocationID (wormholeArrays m' ! ConvertedData.WormholeClasses data)) \<and>
      sorted (map NPCStation.StationID (stationArrays m' ! ConvertedData.NPCStations data)) \<and>
      sorted_wrt (\<lambda>a b. FromSolarSystemID a < FromSolarSystemID b \<or>
           (FromSolarSystemID a = FromSolarSystemID b \<and> ToSolarSystemID a \<le> ToSolarSystemID b))
        (jumpArrays m' ! ConvertedData.SystemJumps data))"
    unfolding Transform_eq[OF assms] by (simp add: r c s t g w n j)
  then show ?thesis using p by blast
qed

theorem Transform_sorted_witness:
  "valid_slices example_memory example_parseResult \<and>
   (let (m', data) = Transform example_memory example_parseResult in
      map Region.RegionID (regionArrays m' ! UniverseData.Regions (Universe data)) =
        [10000001, 10000002] \<and>
      map Constellation.ConstellationID
        (constellationArrays m' ! UniverseData.Constellations (Universe data)) = [20000020] \<and>
      map SolarSystem.SolarSystemID
        (systemArrays m' ! UniverseData.SolarSystems (Universe data)) = [30000001, 30000142] \<and>
      map InvType.TypeID (typeArrays m' ! ConvertedData.InvTypes data) = [587, 588] \<and>
      map InvGroup.GroupID (groupArrays m' ! ConvertedData.InvGroups data) = [25] \<and>
      map LocationID (wormholeArrays m' ! ConvertedData.WormholeClasses data) =
        [31000001, 31000002] \<and>
      map NPCStation.StationID (stationArrays m' ! ConvertedData.NPCStations data) =
        [60000004, 60012736] \<and>
      map FromSolarSystemID (jumpArrays m' ! ConvertedData.SystemJumps data) =
        [30000001, 30000142] \<and>
      map ToSolarSystemID (jumpArrays m' ! ConvertedData.SystemJumps data) =
        [30000142, 30000001] \<and>
      sorted (map Region.RegionID (regionArrays m' ! UniverseData.Regions (Universe data))) \<and>
      sorted (map SolarSystem.SolarSystemID
        (systemArrays m' ! UniverseData.SolarSystems (Universe data))) \<and>
      sorted (map InvType.TypeID (typeArrays m' ! ConvertedData.InvTypes data)) \<and>
      sorted (map NPCStation.StationID (stationArrays m' ! ConvertedData.NPCStations data))) \<and>
   mset (rev (Types example_parseResult)) = mset (Types example_parseResult) \<and>
   distinct (map fst (Types example_parseResult)) \<and>
   mset (rev (Groups example_parseResult)) = mset (Groups example_parseResult) \<and>
   distinct (map fst (Groups example_parseResult)) \<and>
   mset (rev (ParseResult.NPCStations example_parseResult)) =
     mset (ParseResult.NPCStations example_parseResult) \<and>
   distinct (map fst (ParseResult.NPCStations example_parseResult)) \<and>
   Transform example_memory
     (example_parseResult\<lparr>Types := rev (Types example_parseResult),
        Groups := rev (Groups example_parseResult),
        ParseResult.NPCStations := rev (ParseResult.NPCStations example_parseResult)\<rparr>) =
     Transform example_memory example_parseResult"
proof -
  note th = Transform_sorted[OF example_valid_slices]
  have d: "distinct (map fst (Types example_parseResult))"
    "distinct (map fst (Groups example_parseResult))"
    "distinct (map fst (ParseResult.NPCStations example_parseResult))"
    by (simp_all add: example_parseResult_def)
  have ms: "mset (rev (Types example_parseResult)) = mset (Types example_parseResult)"
    "mset (rev (Groups example_parseResult)) = mset (Groups example_parseResult)"
    "mset (rev (ParseResult.NPCStations example_parseResult)) =
       mset (ParseResult.NPCStations example_parseResult)"
    by simp_all
  have p: "Transform example_memory
     (example_parseResult\<lparr>Types := rev (Types example_parseResult),
        Groups := rev (Groups example_parseResult),
        ParseResult.NPCStations := rev (ParseResult.NPCStations example_parseResult)\<rparr>) =
     Transform example_memory example_parseResult"
    using th[THEN conjunct2] d ms by blast
  have s: "sorted (map Region.RegionID (regionArrays (fst (Transform example_memory
        example_parseResult)) ! UniverseData.Regions (Universe (snd (Transform example_memory
        example_parseResult)))))"
    "sorted (map SolarSystem.SolarSystemID (systemArrays (fst (Transform example_memory
        example_parseResult)) ! UniverseData.SolarSystems (Universe (snd (Transform
        example_memory example_parseResult)))))"
    "sorted (map InvType.TypeID (typeArrays (fst (Transform example_memory
        example_parseResult)) ! ConvertedData.InvTypes (snd (Transform example_memory
        example_parseResult))))"
    "sorted (map NPCStation.StationID (stationArrays (fst (Transform example_memory
        example_parseResult)) ! ConvertedData.NPCStations (snd (Transform example_memory
        example_parseResult))))"
    using th[THEN conjunct1] by (simp_all only: Let_def case_prod_beta)
  have k: "map Region.RegionID (regionArrays (fst (Transform example_memory
        example_parseResult)) ! UniverseData.Regions (Universe (snd (Transform example_memory
        example_parseResult)))) = [10000001, 10000002]"
    "map Constellation.ConstellationID (constellationArrays (fst (Transform example_memory
        example_parseResult)) ! UniverseData.Constellations (Universe (snd (Transform
        example_memory example_parseResult)))) = [20000020]"
    "map SolarSystem.SolarSystemID (systemArrays (fst (Transform example_memory
        example_parseResult)) ! UniverseData.SolarSystems (Universe (snd (Transform
        example_memory example_parseResult)))) = [30000001, 30000142]"
    "map InvType.TypeID (typeArrays (fst (Transform example_memory
        example_parseResult)) ! ConvertedData.InvTypes (snd (Transform example_memory
        example_parseResult))) = [587, 588]"
    "map InvGroup.GroupID (groupArrays (fst (Transform example_memory
        example_parseResult)) ! ConvertedData.InvGroups (snd (Transform example_memory
        example_parseResult))) = [25]"
    "map LocationID (wormholeArrays (fst (Transform example_memory
        example_parseResult)) ! ConvertedData.WormholeClasses (snd (Transform example_memory
        example_parseResult))) = [31000001, 31000002]"
    "map NPCStation.StationID (stationArrays (fst (Transform example_memory
        example_parseResult)) ! ConvertedData.NPCStations (snd (Transform example_memory
        example_parseResult))) = [60000004, 60012736]"
    "map FromSolarSystemID (jumpArrays (fst (Transform example_memory
        example_parseResult)) ! ConvertedData.SystemJumps (snd (Transform example_memory
        example_parseResult))) = [30000001, 30000142]"
    "map ToSolarSystemID (jumpArrays (fst (Transform example_memory
        example_parseResult)) ! ConvertedData.SystemJumps (snd (Transform example_memory
        example_parseResult))) = [30000142, 30000001]"
    by (simp_all add: example_result Region_zero_def SolarSystem_zero_def)
  show ?thesis
    unfolding Let_def case_prod_beta
    using example_valid_slices p s k d ms by (simp only: simp_thms)
qed

text \<open>
  \<^bold>\<open>C9.\<close> The solar systems that \<^verbatim>\<open>Transform\<close> emits are the input systems, each once,
  with every field but \<open>FactionID\<close> as it was. So for every input system an emitted record
  carries its identifier and its raw \<open>Security\<close>, and nothing else is emitted: the
  classifier is never applied.
\<close>

theorem Transform_keeps_Security:
  assumes "valid_slices m parseResult"
  shows "(let (m', data) = Transform m parseResult;
             out = systemArrays m' ! UniverseData.SolarSystems (Universe data);
             inp = systemArrays m ! ParseResult.SolarSystems parseResult
         in mset (map (\<lambda>s. s\<lparr>SolarSystem.FactionID := None\<rparr>) out) =
              mset (map (\<lambda>s. s\<lparr>SolarSystem.FactionID := None\<rparr>) inp) \<and>
            mset (map (\<lambda>s. (SolarSystem.SolarSystemID s, Security s)) out) =
              mset (map (\<lambda>s. (SolarSystem.SolarSystemID s, Security s)) inp) \<and>
            (\<forall>s0 \<in> set inp. \<exists>s \<in> set out.
                s\<lparr>SolarSystem.FactionID := None\<rparr> = s0\<lparr>SolarSystem.FactionID := None\<rparr> \<and>
                Security s = Security s0) \<and>
            (\<forall>s \<in> set out. \<exists>s0 \<in> set inp.
                s\<lparr>SolarSystem.FactionID := None\<rparr> = s0\<lparr>SolarSystem.FactionID := None\<rparr> \<and>
                Security s = Security s0))"
proof -
  define inp where "inp = systemArrays m ! ParseResult.SolarSystems parseResult"
  define srt where "srt = sort_Slice
      (\<lambda>a b. SolarSystem.SolarSystemID a < SolarSystem.SolarSystemID b) inp"
  define out where "out = snd (InheritFactionIDs (memory.cells m) srt
      (CalculateRegionBounds (sort_Slice (\<lambda>a b. Region.RegionID a < Region.RegionID b)
         (regionArrays m ! ParseResult.Regions parseResult)) srt))"
  have f: "map (\<lambda>s. s\<lparr>SolarSystem.FactionID := None\<rparr>) out =
      map (\<lambda>s. s\<lparr>SolarSystem.FactionID := None\<rparr>) srt"
    unfolding out_def by (rule InheritFactionIDs_frame)
  have ms: "mset srt = mset inp" unfolding srt_def by (rule mset_sort_Slice)
  have a: "mset (map (\<lambda>s. s\<lparr>SolarSystem.FactionID := None\<rparr>) out) =
      mset (map (\<lambda>s. s\<lparr>SolarSystem.FactionID := None\<rparr>) inp)"
    unfolding f using ms by simp
  have "map (\<lambda>s. (SolarSystem.SolarSystemID s, Security s)) out =
      map (\<lambda>s. (SolarSystem.SolarSystemID s, Security s)) srt"
    unfolding out_def by (rule InheritFactionIDs_field) simp
  then have b: "mset (map (\<lambda>s. (SolarSystem.SolarSystemID s, Security s)) out) =
      mset (map (\<lambda>s. (SolarSystem.SolarSystemID s, Security s)) inp)"
    using ms by simp
  have e: "(\<lambda>s. s\<lparr>SolarSystem.FactionID := None\<rparr>) ` set out =
      (\<lambda>s. s\<lparr>SolarSystem.FactionID := None\<rparr>) ` set inp"
    using arg_cong[OF a, of set_mset] by simp
  have sec: "Security s = Security s0"
    if "s\<lparr>SolarSystem.FactionID := None\<rparr> = s0\<lparr>SolarSystem.FactionID := None\<rparr>"
    for s s0 :: SolarSystem
    using arg_cong[OF that, of Security] by simp
  have c: "\<exists>s0 \<in> set inp. s\<lparr>SolarSystem.FactionID := None\<rparr> =
      s0\<lparr>SolarSystem.FactionID := None\<rparr> \<and> Security s = Security s0"
    if s: "s \<in> set out" for s
  proof -
    have "s\<lparr>SolarSystem.FactionID := None\<rparr> \<in>
        (\<lambda>s. s\<lparr>SolarSystem.FactionID := None\<rparr>) ` set inp"
      using s e by blast
    then obtain s0 where s0: "s0 \<in> set inp"
      "s\<lparr>SolarSystem.FactionID := None\<rparr> = s0\<lparr>SolarSystem.FactionID := None\<rparr>"
      by blast
    then show ?thesis using sec by blast
  qed
  have d: "\<exists>s \<in> set out. s\<lparr>SolarSystem.FactionID := None\<rparr> =
      s0\<lparr>SolarSystem.FactionID := None\<rparr> \<and> Security s = Security s0"
    if s0: "s0 \<in> set inp" for s0
  proof -
    have "s0\<lparr>SolarSystem.FactionID := None\<rparr> \<in>
        (\<lambda>s. s\<lparr>SolarSystem.FactionID := None\<rparr>) ` set out"
      using s0 e by blast
    then obtain s where s: "s \<in> set out"
      "s0\<lparr>SolarSystem.FactionID := None\<rparr> = s\<lparr>SolarSystem.FactionID := None\<rparr>"
      by blast
    have "s\<lparr>SolarSystem.FactionID := None\<rparr> = s0\<lparr>SolarSystem.FactionID := None\<rparr>"
      using s(2) by (rule sym)
    then show ?thesis using s(1) sec by blast
  qed
  show ?thesis
    unfolding Transform_eq[OF assms]
    using a b c d by (simp add: Let_def inp_def[symmetric] srt_def[symmetric] out_def[symmetric])
qed

theorem Transform_keeps_Security_witness:
  "valid_slices example_memory example_parseResult \<and>
   (let (m', data) = Transform example_memory example_parseResult;
        out = systemArrays m' ! UniverseData.SolarSystems (Universe data);
        inp = systemArrays example_memory ! ParseResult.SolarSystems example_parseResult
    in map SolarSystemName inp = [''Jita'', ''Tanoo''] \<and>
       map Security inp = [9459 / 10000, 47 / 1000] \<and>
       map SolarSystemName out = [''Tanoo'', ''Jita''] \<and>
       map Security out = [47 / 1000, 9459 / 10000] \<and>
       map SolarSystem.FactionID out = [None, Some 1] \<and>
       inp ! 0 \<in> set inp \<and>
       (out ! 1)\<lparr>SolarSystem.FactionID := None\<rparr> = (inp ! 0)\<lparr>SolarSystem.FactionID := None\<rparr> \<and>
       mset (map (\<lambda>s. (SolarSystem.SolarSystemID s, Security s)) out) =
         mset (map (\<lambda>s. (SolarSystem.SolarSystemID s, Security s)) inp))"
proof -
  note th = Transform_keeps_Security[OF example_valid_slices]
  note o = example_result(2)
  have m: "mset (map (\<lambda>s. (SolarSystem.SolarSystemID s, Security s))
        (systemArrays (fst (Transform example_memory example_parseResult)) !
      UniverseData.SolarSystems (Universe (snd (Transform example_memory
        example_parseResult))))) =
      mset (map (\<lambda>s. (SolarSystem.SolarSystemID s, Security s))
        (systemArrays example_memory ! ParseResult.SolarSystems example_parseResult))"
    using th by (simp only: Let_def case_prod_beta)
  show ?thesis
    unfolding Let_def case_prod_beta
    apply (intro conjI)
             apply (rule example_valid_slices)
            apply (simp add: example_input SolarSystem_zero_def)
           apply (simp add: example_input SolarSystem_zero_def)
          apply (simp add: o SolarSystem_zero_def)
         apply (simp add: o SolarSystem_zero_def)
        apply (simp add: o SolarSystem_zero_def)
       apply (simp add: example_input)
      apply (simp add: o example_input SolarSystem_zero_def)
    apply (rule m)
    done
qed

text \<open>
  \<^bold>\<open>C10.\<close> \<^verbatim>\<open>Transform\<close> does not change its input. After the call the arrays behind the
  five slices of the parse result hold what they held before; indeed every array and every
  \<^verbatim>\<open>int64\<close> cell that existed before the call is unchanged, and every slice of the
  result refers to an array allocated by the call. The maps and the fields of the parse
  result are only read.
\<close>

theorem Transform_frame:
  assumes "valid_slices m parseResult"
  shows "(let (m', data) = Transform m parseResult in
      regionArrays m' ! ParseResult.Regions parseResult =
        regionArrays m ! ParseResult.Regions parseResult \<and>
      constellationArrays m' ! ParseResult.Constellations parseResult =
        constellationArrays m ! ParseResult.Constellations parseResult \<and>
      systemArrays m' ! ParseResult.SolarSystems parseResult =
        systemArrays m ! ParseResult.SolarSystems parseResult \<and>
      wormholeArrays m' ! ParseResult.WormholeClasses parseResult =
        wormholeArrays m ! ParseResult.WormholeClasses parseResult \<and>
      jumpArrays m' ! ParseResult.SystemJumps parseResult =
        jumpArrays m ! ParseResult.SystemJumps parseResult \<and>
      take (length (regionArrays m)) (regionArrays m') = regionArrays m \<and>
      take (length (constellationArrays m)) (constellationArrays m') = constellationArrays m \<and>
      take (length (systemArrays m)) (systemArrays m') = systemArrays m \<and>
      take (length (wormholeArrays m)) (wormholeArrays m') = wormholeArrays m \<and>
      take (length (jumpArrays m)) (jumpArrays m') = jumpArrays m \<and>
      take (length (typeArrays m)) (typeArrays m') = typeArrays m \<and>
      take (length (groupArrays m)) (groupArrays m') = groupArrays m \<and>
      take (length (stationArrays m)) (stationArrays m') = stationArrays m \<and>
      take (length (memory.cells m)) (memory.cells m') = memory.cells m \<and>
      UniverseData.Regions (Universe data) = length (regionArrays m) \<and>
      UniverseData.Constellations (Universe data) = length (constellationArrays m) \<and>
      UniverseData.SolarSystems (Universe data) = length (systemArrays m) \<and>
      ConvertedData.InvTypes data = length (typeArrays m) \<and>
      ConvertedData.InvGroups data = length (groupArrays m) \<and>
      ConvertedData.WormholeClasses data = length (wormholeArrays m) \<and>
      ConvertedData.SystemJumps data = length (jumpArrays m) \<and>
      ConvertedData.NPCStations data = length (stationArrays m))"
  using assms unfolding Transform_eq[OF assms]
  by (simp add: valid_slices_def nth_append InheritFactionIDs_prefix)

theorem Transform_frame_witness:
  "valid_slices example_memory example_parseResult \<and>
   (let (m', data) = Transform example_memory example_parseResult in
      map Region.RegionID
        (regionArrays example_memory ! ParseResult.Regions example_parseResult) =
        [10000002, 10000001] \<and>
      map Region.RegionID (regionArrays m' ! ParseResult.Regions example_parseResult) =
        [10000002, 10000001] \<and>
      map Region.RegionID (regionArrays m' ! UniverseData.Regions (Universe data)) =
        [10000001, 10000002] \<and>
      map SolarSystem.FactionID
        (systemArrays m' ! ParseResult.SolarSystems example_parseResult) = [None, None] \<and>
      map SolarSystem.FactionID
        (systemArrays m' ! UniverseData.SolarSystems (Universe data)) = [None, Some 1] \<and>
      memory.cells example_memory = [500001] \<and>
      memory.cells m' = [500001, 500001] \<and>
      regionArrays m' ! ParseResult.Regions example_parseResult =
        regionArrays example_memory ! ParseResult.Regions example_parseResult \<and>
      systemArrays m' ! ParseResult.SolarSystems example_parseResult =
        systemArrays example_memory ! ParseResult.SolarSystems example_parseResult \<and>
      take (length (memory.cells example_memory)) (memory.cells m') =
        memory.cells example_memory)"
proof -
  note th = Transform_frame[OF example_valid_slices]
  have f: "regionArrays (fst (Transform example_memory example_parseResult)) !
        ParseResult.Regions example_parseResult =
      regionArrays example_memory ! ParseResult.Regions example_parseResult"
    "systemArrays (fst (Transform example_memory example_parseResult)) !
        ParseResult.SolarSystems example_parseResult =
      systemArrays example_memory ! ParseResult.SolarSystems example_parseResult"
    "take (length (memory.cells example_memory))
        (memory.cells (fst (Transform example_memory example_parseResult))) =
      memory.cells example_memory"
    using th by (simp_all only: Let_def case_prod_beta)
  note o = example_result(1-3)
  show ?thesis
    unfolding Let_def case_prod_beta
    apply (intro conjI)
              apply (rule example_valid_slices)
             apply (simp add: example_input Region_zero_def)
            apply (simp add: f example_input Region_zero_def)
           apply (simp add: o Region_zero_def)
          apply (simp add: f example_input SolarSystem_zero_def)
         apply (simp add: o SolarSystem_zero_def)
        apply (rule example_input)
       apply (rule o)
      apply (rule f)
     apply (rule f)
    apply (rule f)
    done
qed

section \<open>Regions and constellations from the parser\<close>

text \<open>
  The regions and constellations that the pipeline receives are built by \<^verbatim>\<open>ParseRegions\<close>
  and \<^verbatim>\<open>ParseConstellations\<close> of package \<^verbatim>\<open>parser\<close>. Reading and decoding the file is not
  modelled: the argument \<open>parsed\<close> is what \<^verbatim>\<open>yaml.ParseFileMap\<close> returned, an error or the
  map of raw records, and a map is iterated in an arbitrary order. \<^verbatim>\<open>Int64PtrNonZero\<close>
  returns \<^verbatim>\<open>nil\<close> for \<open>0\<close> and otherwise the address of a new cell that holds its
  argument. A \<^verbatim>\<open>*models.SDEPosition\<close> is only read, and is an optional value.
  \<open>show_int\<close> is \<^verbatim>\<open>%d\<close> of \<^verbatim>\<open>fmt.Sprintf\<close> for an \<^verbatim>\<open>int64\<close>; the loop variable
  \<^verbatim>\<open>id\<close> is written \<open>ident\<close>.
\<close>

record SDEMapRegion =
  RegionID :: int64
  Name :: "string \<rightharpoonup> string"
  NameID :: int64
  DescriptionID :: int64
  FactionID :: int64
  Position :: "SDEPosition option"
  NebulaID :: int64
  WormholeClassID :: int64

record SDEMapConstellation =
  ConstellationID :: int64
  RegionID :: int64
  Name :: "string \<rightharpoonup> string"
  NameID :: int64
  FactionID :: int64
  Position :: "SDEPosition option"
  Radius :: float64
  WormholeClassID :: int64









subsection \<open>The parser sets no bound\<close>







subsection \<open>The bounds after the aggregation\<close>













end
